(* ===== verification/Prelude.thy ===== *)
theory Prelude
  imports Main
begin

text \<open>
  Shared vocabulary of the development: the names of the model's types (identifiers,
  instants, offsets, clock values), the collections of rewrite rules that the component
  theories extend, and generic facts about lists and options used by several components.
\<close>

section \<open>Model types\<close>

text \<open>
  Identifiers are the uuid strings of the database; a JavaScript \<open>Date\<close> is an
  instant, an integer count of milliseconds since the Unix epoch; a fixed time-zone
  offset is also kept in milliseconds (the operating zone America/Fortaleza has no
  daylight-saving time, so a constant offset describes it exactly).
\<close>

type_synonym uuid = string
type_synonym instant = int
type_synonym tz_offset = int

named_theorems clock_simps \<open>evaluation rules of the calendar and clock arithmetic\<close>
named_theorems store_simps \<open>rewrite rules of the override-store queries and writes\<close>

section \<open>Generic facts on lists\<close>

lemma filter_remove_idem [simp]:
  "filter P (filter P xs) = filter P xs"
  by (induction xs) auto

lemma list_ex_filter_not:
  "\<not> list_ex P (filter (\<lambda>x. \<not> P x) xs)"
  by (induction xs) auto

lemma filter_all_True:
  "(\<forall>x \<in> set xs. P x) \<Longrightarrow> filter P xs = xs"
  by (induction xs) auto

lemma map_upt_shift:
  "map f [0..<Suc n] = f 0 # map (\<lambda>k. f (Suc k)) [0..<n]"
  by (induction n) auto

lemma distinct_map_upt_inj:
  assumes "\<And>i j. i < n \<Longrightarrow> j < n \<Longrightarrow> f i = f j \<Longrightarrow> i = j"
  shows "distinct (map f [0..<n])"
  using assms by (auto simp: distinct_map inj_on_def)

end
