(* ===== verification/Clock.thy ===== *)
theory Clock
  imports Prelude
begin

text \<open>
  The calendar and clock arithmetic the sources perform through dayjs and date-fns:
  the local calendar day of an instant in a fixed-offset zone, its start of day, the
  JavaScript weekday (\<open>Date.getDay\<close>), dayjs' \<open>isSame(_, "day")\<close>, setting the
  hour, minute and second of an instant, and the \<open>"HH:mm"\<close> rendering of a time of
  day, with its inverse and the injectivity that makes slot labels usable as keys.
\<close>

section \<open>Days and offsets\<close>

definition ms_per_day :: int where
  "ms_per_day = 86400000"

text \<open>\<open>APP_TIMEZONE = "America/Fortaleza"\<close>: UTC-3 all year.\<close>

definition app_timezone :: tz_offset where
  "app_timezone = -10800000"

definition local_day :: "tz_offset \<Rightarrow> instant \<Rightarrow> int" where
  "local_day off i = (i + off) div ms_per_day"

definition time_of_day :: "tz_offset \<Rightarrow> instant \<Rightarrow> int" where
  "time_of_day off i = (i + off) mod ms_per_day"

text \<open>dayjs \<open>startOf("day")\<close> in a zone.\<close>

definition start_of_day :: "tz_offset \<Rightarrow> instant \<Rightarrow> instant" where
  "start_of_day off i = i - time_of_day off i"

text \<open>\<open>Date.prototype.getDay\<close>: 0 is Sunday; 1970-01-01 was a Thursday (4).\<close>

definition get_day :: "tz_offset \<Rightarrow> instant \<Rightarrow> int" where
  "get_day off i = (local_day off i + 4) mod 7"

text \<open>dayjs \<open>a.isSame(b, "day")\<close> for two values in the same zone.\<close>

definition is_same_day :: "tz_offset \<Rightarrow> instant \<Rightarrow> instant \<Rightarrow> bool" where
  "is_same_day off a b \<longleftrightarrow> local_day off a = local_day off b"

section \<open>Clock values\<close>

record clock =
  hour :: nat
  minute :: nat
  second :: nat

definition clock_ms :: "clock \<Rightarrow> int" where
  "clock_ms c = int (hour c) * 3600000 + int (minute c) * 60000 + int (second c) * 1000"

text \<open>
  \<open>dayjs(date).hour(h).minute(m).second(s)\<close>: the same local day, the given clock
  fields, the milliseconds of the original instant kept.
\<close>

definition set_clock :: "tz_offset \<Rightarrow> instant \<Rightarrow> clock \<Rightarrow> instant" where
  "set_clock off i c = start_of_day off i + clock_ms c + time_of_day off i mod 1000"

section \<open>The "HH:mm" rendering\<close>

definition digit_char :: "nat \<Rightarrow> char" where
  "digit_char d = ''0123456789'' ! d"

definition two_digits :: "nat \<Rightarrow> string" where
  "two_digits n = [digit_char (n div 10), digit_char (n mod 10)]"

definition fmt_minutes :: "nat \<Rightarrow> string" where
  "fmt_minutes m = two_digits (m div 60) @ CHR '':'' # two_digits (m mod 60)"

text \<open>dayjs \<open>format("HH:mm")\<close> of an instant in a zone.\<close>

definition format_HHmm :: "tz_offset \<Rightarrow> instant \<Rightarrow> string" where
  "format_HHmm off i = fmt_minutes (nat (time_of_day off i div 60000))"

definition is_digit :: "char \<Rightarrow> bool" where
  "is_digit c \<longleftrightarrow> (48::nat) \<le> of_char c \<and> of_char c \<le> (57::nat)"

definition digit_val :: "char \<Rightarrow> nat" where
  "digit_val c = of_char c - 48"

text \<open>Reading a \<open>"HH:mm"\<close> wire time back into minutes of the day.\<close>

fun parse_HHmm :: "string \<Rightarrow> nat option" where
  "parse_HHmm [h1, h2, c, m1, m2] =
     (if c = CHR '':'' \<and> is_digit h1 \<and> is_digit h2 \<and> is_digit m1 \<and> is_digit m2
         \<and> digit_val h1 * 10 + digit_val h2 < 24 \<and> digit_val m1 * 10 + digit_val m2 < 60
      then Some ((digit_val h1 * 10 + digit_val h2) * 60 + digit_val m1 * 10 + digit_val m2)
      else None)"
| "parse_HHmm _ = None"

section \<open>Lemmas\<close>

lemma ms_per_day_pos [clock_simps]: "0 < ms_per_day"
  by (simp add: ms_per_day_def)

lemma time_of_day_bounds [clock_simps]:
  "0 \<le> time_of_day off i" "time_of_day off i < ms_per_day"
  by (simp_all add: time_of_day_def ms_per_day_def)

lemma day_time_decomp:
  "i + off = local_day off i * ms_per_day + time_of_day off i"
  by (simp add: local_day_def time_of_day_def)

lemma get_day_range [clock_simps]: "0 \<le> get_day off i \<and> get_day off i \<le> 6"
  by (simp add: get_day_def)

lemma div_mod_offset_day:
  assumes "0 \<le> t" "t < ms_per_day"
  shows "(t + q * ms_per_day) div ms_per_day = q" "(t + q * ms_per_day) mod ms_per_day = t"
  using assms by (simp_all add: ms_per_day_def)

lemma start_of_day_plus:
  "start_of_day off i + t + off = t + local_day off i * ms_per_day"
  using day_time_decomp [of i off] by (simp add: start_of_day_def)

lemma local_day_shift:
  assumes "0 \<le> t" "t < ms_per_day"
  shows "local_day off (start_of_day off i + t) = local_day off i"
  using assms by (simp add: local_day_def start_of_day_plus div_mod_offset_day)

lemma time_of_day_shift:
  assumes "0 \<le> t" "t < ms_per_day"
  shows "time_of_day off (start_of_day off i + t) = t"
  using assms by (simp add: time_of_day_def start_of_day_plus div_mod_offset_day)

lemma local_day_start_of_day [clock_simps]:
  "local_day off (start_of_day off i) = local_day off i"
  using local_day_shift [of 0 off i] by (simp add: ms_per_day_def)

lemma is_same_day_start [clock_simps]:
  "is_same_day off (start_of_day off a) b \<longleftrightarrow> is_same_day off a b"
  "is_same_day off a (start_of_day off b) \<longleftrightarrow> is_same_day off a b"
  by (simp_all add: is_same_day_def local_day_start_of_day)

lemma of_char_digit_char:
  assumes "d < 10"
  shows "of_char (digit_char d) = 48 + (d::nat)"
proof -
  from assms have "d \<in> {0, 1, 2, 3, 4, 5, 6, 7, 8, 9}" by auto
  then show ?thesis by (auto simp: digit_char_def)
qed

lemma digit_val_digit_char:
  "d < 10 \<Longrightarrow> digit_val (digit_char d) = d"
  by (simp add: digit_val_def of_char_digit_char)

lemma is_digit_digit_char:
  "d < 10 \<Longrightarrow> is_digit (digit_char d)"
  by (simp add: is_digit_def of_char_digit_char)

lemma digit_char_not_colon:
  "d < 10 \<Longrightarrow> digit_char d \<noteq> CHR '':''"
proof
  assume "d < 10" "digit_char d = CHR '':''"
  then have "of_char (digit_char d) = (of_char (CHR '':'') :: nat)" by simp
  with \<open>d < 10\<close> show False by (simp add: of_char_digit_char)
qed

lemma length_fmt_minutes [simp]: "length (fmt_minutes m) = 5"
  by (simp add: fmt_minutes_def two_digits_def)

lemma parse_fmt_minutes:
  assumes "m < 1440"
  shows "parse_HHmm (fmt_minutes m) = Some m"
proof -
  have h: "m div 60 < 24" using assms by simp
  then have h1: "m div 60 div 10 < 10" and h2: "m div 60 mod 10 < 10"
    and m1: "m mod 60 div 10 < 10" and m2: "m mod 60 mod 10 < (10::nat)"
    by simp_all
  have "(m div 60 div 10 * 10 + m div 60 mod 10) * 60 + m mod 60 div 10 * 10 + m mod 60 mod 10
        = m"
    by simp
  with h h1 h2 m1 m2 show ?thesis
    by (simp add: fmt_minutes_def two_digits_def digit_val_digit_char is_digit_digit_char
        digit_char_not_colon)
qed

lemma fmt_minutes_inj:
  "a < 1440 \<Longrightarrow> b < 1440 \<Longrightarrow> fmt_minutes a = fmt_minutes b \<Longrightarrow> a = b"
  by (metis option.inject parse_fmt_minutes)

lemma local_day_zone_shift:
  assumes "off < off'" "off' - off \<le> ms_per_day" "time_of_day off' i = 0"
  shows "local_day off i = local_day off' i - 1"
proof -
  have D: "0 < ms_per_day" by (simp add: ms_per_day_def)
  have e: "i + off = (ms_per_day - (off' - off)) + (local_day off' i - 1) * ms_per_day"
    using day_time_decomp [of i off'] assms(3) by (simp add: algebra_simps)
  have "(ms_per_day - (off' - off)) div ms_per_day = 0"
    using assms(1,2) by (simp add: div_pos_pos_trivial)
  then show ?thesis
    using D by (simp add: local_day_def e)
qed

lemma local_day_zone_west:
  assumes "off' \<le> off" "off - off' < ms_per_day" "time_of_day off' i = 0"
  shows "local_day off i = local_day off' i"
proof -
  have e: "i + off = (off - off') + local_day off' i * ms_per_day"
    using day_time_decomp [of i off'] assms(3) by (simp add: algebra_simps)
  have "(off - off') div ms_per_day = 0"
    using assms(1,2) by (simp add: div_pos_pos_trivial)
  then show ?thesis
    by (simp add: local_day_def e ms_per_day_def)
qed

end
