(* ===== verification/Resolver.thy ===== *)
theory Resolver
  imports Clock
begin

text \<open>
  The availability resolver of the calendar modal
  (\<open>doctor-block-calendar-modal.tsx\<close>): the doctor's recurring weekly window
  (\<open>isDateWithinDoctorAvailability\<close>) and the expansion of a selected date into its
  30-minute slot ticks (the \<open>while (currentTime.isBefore(endOfDay))\<close> loop of
  \<open>fetchBlockedTimeSlotsForSelectedDate\<close>). The loop is a terminating
  \<^theory_text>\<open>function\<close>; it is shown equal to a closed-form reference, the
  specification's \<open>generateSlotTicks\<close>.
\<close>

section \<open>The doctor\<close>

text \<open>The props the modal picks from \<open>doctorsTable\<close>.\<close>

record doctor =
  doctor_id :: uuid
  doctor_name :: string
  availableFromWeekDay :: int
  availableToWeekDay :: int
  availableFromTime :: clock
  availableToTime :: clock
  doctor_clinicId :: uuid

text \<open>
  \<open>getDayJsAvailability\<close> (from \<open>../_helpers/availability\<close>, not among the sources):
  the doctor's daily window as two clock values.
\<close>

definition getDayJsAvailability :: "doctor \<Rightarrow> clock \<times> clock" where
  "getDayJsAvailability d = (availableFromTime d, availableToTime d)"

section \<open>The weekly window\<close>

definition isDateWithinDoctorAvailability :: "tz_offset \<Rightarrow> doctor \<Rightarrow> instant \<Rightarrow> bool" where
  "isDateWithinDoctorAvailability off d date =
     (let dayOfWeek = get_day off date;
          fromDay = availableFromWeekDay d;
          toDay = availableToWeekDay d
      in if fromDay \<le> toDay then dayOfWeek \<ge> fromDay \<and> dayOfWeek \<le> toDay
         else dayOfWeek \<ge> fromDay \<or> dayOfWeek \<le> toDay)"

text \<open>
  The specification's reading of the window: the weekdays met walking forward from
  \<open>from\<close> to \<open>to\<close> around the week, i.e. those whose distance from \<open>from\<close>
  (mod 7) is at most the window's length.
\<close>

definition weekly_window :: "int \<Rightarrow> int \<Rightarrow> int set" where
  "weekly_window f t = {w. 0 \<le> w \<and> w \<le> 6 \<and> (w - f) mod 7 \<le> (t - f) mod 7}"

section \<open>Slot ticks\<close>

definition slot_step :: int where
  "slot_step = 1800000"

text \<open>
  The loop body: push \<open>currentTime.format("HH:mm")\<close>, then
  \<open>currentTime = currentTime.add(30, "minute")\<close>; it stops once
  \<open>currentTime\<close> is no longer before \<open>endOfDay\<close>. What decreases is the distance
  to the end.
\<close>

function slot_loop :: "tz_offset \<Rightarrow> instant \<Rightarrow> instant \<Rightarrow> string list \<Rightarrow> string list" where
  "slot_loop off currentTime endOfDay acc =
     (if currentTime < endOfDay
      then slot_loop off (currentTime + slot_step) endOfDay (acc @ [format_HHmm off currentTime])
      else acc)"
  by pat_completeness auto
termination
  by (relation "measure (\<lambda>(off, c, e, acc). nat (e - c))") (auto simp: slot_step_def)

declare slot_loop.simps [simp del]

text \<open>Lines 277--292: the window of the doctor placed on the selected date, then the loop.\<close>

definition allPossibleSlotsForDay :: "tz_offset \<Rightarrow> doctor \<Rightarrow> instant \<Rightarrow> string list" where
  "allPossibleSlotsForDay off d date =
     (let doctorAvailability = getDayJsAvailability d;
          currentTime = set_clock off date (fst doctorAvailability);
          endOfDay = set_clock off date (snd doctorAvailability)
      in slot_loop off currentTime endOfDay [])"

subsection \<open>Reference: the specification's \<open>generateSlotTicks\<close>\<close>

definition tick_count :: "int \<Rightarrow> int \<Rightarrow> nat" where
  "tick_count a b = (if a < b then nat ((b - a - 1) div slot_step) + 1 else 0)"

definition clock_minutes :: "clock \<Rightarrow> nat" where
  "clock_minutes c = hour c * 60 + minute c"

definition valid_clock :: "clock \<Rightarrow> bool" where
  "valid_clock c \<longleftrightarrow> hour c < 24 \<and> minute c < 60 \<and> second c < 60"

definition generateSlotTicks :: "clock \<Rightarrow> clock \<Rightarrow> string list" where
  "generateSlotTicks f t =
     map (\<lambda>k. fmt_minutes (clock_minutes f + 30 * k)) [0..<tick_count (clock_ms f) (clock_ms t)]"

section \<open>Lemmas on the weekly window\<close>

lemma mod7_small:
  fixes x :: int
  shows "0 \<le> x \<Longrightarrow> x < 7 \<Longrightarrow> x mod 7 = x"
    and "-7 \<le> x \<Longrightarrow> x < 0 \<Longrightarrow> x mod 7 = x + 7"
proof -
  show "0 \<le> x \<Longrightarrow> x < 7 \<Longrightarrow> x mod 7 = x" by simp
  assume "-7 \<le> x" "x < 0"
  then have "(x + 7) mod 7 = x + 7" by (intro mod_pos_pos_trivial) simp_all
  moreover have "(x + 7) mod 7 = x mod 7" by simp
  ultimately show "x mod 7 = x + 7" by simp
qed

lemma in_weekly_window:
  assumes "0 \<le> f" "f \<le> 6" "0 \<le> t" "t \<le> 6" "0 \<le> w" "w \<le> 6"
  shows "w \<in> weekly_window f t \<longleftrightarrow>
         (if f \<le> t then f \<le> w \<and> w \<le> t else f \<le> w \<or> w \<le> t)"
proof -
  have wf: "(w - f) mod 7 = (if f \<le> w then w - f else w - f + 7)"
    using assms by (auto simp: mod7_small)
  have tf: "(t - f) mod 7 = (if f \<le> t then t - f else t - f + 7)"
    using assms by (auto simp: mod7_small)
  show ?thesis
    using assms by (auto simp: weekly_window_def wf tf)
qed

section \<open>Lemmas on the slot loop\<close>

lemma tick_count_empty: "\<not> a < b \<Longrightarrow> tick_count a b = 0"
  by (simp add: tick_count_def)

lemma tick_count_step:
  assumes "a < b"
  shows "tick_count a b = Suc (tick_count (a + slot_step) b)"
proof (cases "a + slot_step < b")
  case True
  then have "b - a - 1 = (b - (a + slot_step) - 1) + slot_step" by simp
  then have "(b - a - 1) div slot_step = (b - (a + slot_step) - 1) div slot_step + 1"
    by (simp add: slot_step_def)
  moreover have "0 \<le> (b - (a + slot_step) - 1) div slot_step"
    using True by (simp add: slot_step_def)
  ultimately show ?thesis
    using True assms by (simp add: tick_count_def nat_add_distrib)
next
  case False
  with assms have "(b - a - 1) div slot_step = 0"
    by (simp add: slot_step_def)
  with False assms show ?thesis by (simp add: tick_count_def)
qed

lemma tick_count_lt:
  assumes "k < tick_count a b"
  shows "a + int k * slot_step < b"
proof -
  from assms have ab: "a < b" by (simp add: tick_count_def split: if_splits)
  then have "0 \<le> (b - a - 1) div slot_step" by (simp add: slot_step_def)
  with assms ab have "int k \<le> (b - a - 1) div slot_step" by (simp add: tick_count_def)
  then have "int k * slot_step \<le> (b - a - 1) div slot_step * slot_step"
    by (simp add: slot_step_def)
  also have "\<dots> \<le> b - a - 1" by (simp add: slot_step_def)
  finally show ?thesis by simp
qed

lemma tick_count_translate: "tick_count (a + x) (b + x) = tick_count a b"
  by (simp add: tick_count_def)

text \<open>The loop pushes, in order, the rendering of every tick before the end.\<close>

lemma slot_loop_eq:
  "slot_loop off c e acc =
     acc @ map (\<lambda>k. format_HHmm off (c + int k * slot_step)) [0..<tick_count c e]"
proof (induction off c e acc rule: slot_loop.induct)
  case (1 off c e acc)
  show ?case
  proof (cases "c < e")
    case True
    have shift: "\<And>k. c + slot_step + int k * slot_step = c + int (Suc k) * slot_step"
      by (simp add: algebra_simps)
    from True "1.IH" show ?thesis
      by (simp add: slot_loop.simps [of off c e acc] tick_count_step map_upt_shift shift
          del: upt_Suc)
  next
    case False
    then show ?thesis by (simp add: slot_loop.simps [of off c e acc] tick_count_empty)
  qed
qed

lemma clock_ms_bounds:
  "valid_clock c \<Longrightarrow> 0 \<le> clock_ms c \<and> clock_ms c \<le> 86399000"
  by (simp add: valid_clock_def clock_ms_def)

lemma set_clock_split:
  "set_clock off i c = start_of_day off i + (clock_ms c + time_of_day off i mod 1000)"
  by (simp add: set_clock_def)

text \<open>On a tick before the end, the local time of day is the start's plus whole steps.\<close>

lemma time_of_day_tick:
  assumes "valid_clock f" "valid_clock t"
    and "k < tick_count (set_clock off i f) (set_clock off i t)"
  shows "time_of_day off (set_clock off i f + int k * slot_step)
         = clock_ms f + time_of_day off i mod 1000 + int k * slot_step"
proof -
  let ?r = "time_of_day off i mod 1000"
  have r: "0 \<le> ?r" "?r < 1000" by simp_all
  have "set_clock off i f + int k * slot_step < set_clock off i t"
    using assms(3) by (rule tick_count_lt)
  then have lt: "clock_ms f + ?r + int k * slot_step < clock_ms t + ?r"
    by (simp add: set_clock_split)
  have eq: "set_clock off i f + int k * slot_step
        = start_of_day off i + (clock_ms f + ?r + int k * slot_step)"
    by (simp add: set_clock_split)
  have lo: "0 \<le> clock_ms f + ?r + int k * slot_step"
    using clock_ms_bounds [OF assms(1)] r by (simp add: slot_step_def)
  have hi: "clock_ms f + ?r + int k * slot_step < ms_per_day"
    unfolding ms_per_day_def using lt clock_ms_bounds [OF assms(2)] r by linarith
  show ?thesis
    unfolding eq using lo hi by (rule time_of_day_shift)
qed

lemma tick_minutes:
  assumes "valid_clock f" "0 \<le> r" "r < 1000"
  shows "nat ((clock_ms f + r + int k * slot_step) div 60000) = clock_minutes f + 30 * k"
proof -
  have "clock_ms f + r + int k * slot_step
        = (int (second f) * 1000 + r) + int (clock_minutes f + 30 * k) * 60000"
    by (simp add: clock_ms_def clock_minutes_def slot_step_def algebra_simps)
  moreover have "0 \<le> int (second f) * 1000 + r" "int (second f) * 1000 + r < 60000"
    using assms by (simp_all add: valid_clock_def)
  ultimately show ?thesis by simp
qed

lemma tick_count_set_clock:
  "tick_count (set_clock off i f) (set_clock off i t) = tick_count (clock_ms f) (clock_ms t)"
  using tick_count_translate [of "clock_ms f" "start_of_day off i + time_of_day off i mod 1000"
      "clock_ms t"]
  by (simp add: set_clock_split add.commute add.left_commute)

lemma format_tick:
  assumes "valid_clock f" "valid_clock t"
    and "k < tick_count (set_clock off i f) (set_clock off i t)"
  shows "format_HHmm off (set_clock off i f + int k * slot_step) = fmt_minutes (clock_minutes f + 30 * k)"
  using tick_minutes [OF assms(1), of "time_of_day off i mod 1000" k]
  by (simp add: format_HHmm_def time_of_day_tick [OF assms])

text \<open>The loop from the start to the end of the window computes the reference.\<close>

lemma slot_loop_generate:
  assumes "valid_clock f" "valid_clock t"
  shows "slot_loop off (set_clock off i f) (set_clock off i t) [] = generateSlotTicks f t"
proof -
  have "map (\<lambda>k. format_HHmm off (set_clock off i f + int k * slot_step))
          [0..<tick_count (set_clock off i f) (set_clock off i t)]
        = map (\<lambda>k. fmt_minutes (clock_minutes f + 30 * k))
          [0..<tick_count (set_clock off i f) (set_clock off i t)]"
    using format_tick [OF assms] by (intro map_cong) auto
  then show ?thesis
    by (simp add: slot_loop_eq generateSlotTicks_def tick_count_set_clock)
qed

lemma tick_minute_bound:
  assumes "valid_clock f" "k < tick_count (clock_ms f) (clock_ms t)"
  shows "int (clock_minutes f + 30 * k) * 60000 < clock_ms t"
proof -
  have "int (clock_minutes f + 30 * k) * 60000 \<le> clock_ms f + int k * slot_step"
    by (simp add: clock_minutes_def clock_ms_def slot_step_def algebra_simps)
  also have "\<dots> < clock_ms t" using assms(2) by (rule tick_count_lt)
  finally show ?thesis .
qed

lemma generateSlotTicks_distinct:
  assumes "valid_clock f" "valid_clock t"
  shows "distinct (generateSlotTicks f t)"
proof -
  have lt: "\<And>k. k < tick_count (clock_ms f) (clock_ms t) \<Longrightarrow> clock_minutes f + 30 * k < 1440"
    using tick_minute_bound [OF assms(1)] clock_ms_bounds [OF assms(2)] by fastforce
  show ?thesis
    unfolding generateSlotTicks_def
  proof (rule distinct_map_upt_inj)
    fix i j
    assume "i < tick_count (clock_ms f) (clock_ms t)" "j < tick_count (clock_ms f) (clock_ms t)"
      and "fmt_minutes (clock_minutes f + 30 * i) = fmt_minutes (clock_minutes f + 30 * j)"
    then have "clock_minutes f + 30 * i = clock_minutes f + 30 * j"
      using lt by (intro fmt_minutes_inj)
    then show "i = j" by simp
  qed
qed

lemma generateSlotTicks_window:
  assumes "valid_clock f" "valid_clock t" "s \<in> set (generateSlotTicks f t)"
  shows "\<exists>m. parse_HHmm s = Some m \<and> clock_minutes f \<le> m \<and> int m * 60000 < clock_ms t"
proof -
  from assms(3) obtain k where k: "k < tick_count (clock_ms f) (clock_ms t)"
    and s: "s = fmt_minutes (clock_minutes f + 30 * k)"
    by (auto simp: generateSlotTicks_def)
  have b: "int (clock_minutes f + 30 * k) * 60000 < clock_ms t"
    using assms(1) k by (rule tick_minute_bound)
  then have "clock_minutes f + 30 * k < 1440"
    using clock_ms_bounds [OF assms(2)] by simp
  with s b show ?thesis by (auto simp: parse_fmt_minutes)
qed

lemma set_clock_mono:
  "clock_ms a \<le> clock_ms b \<Longrightarrow> set_clock off i a \<le> set_clock off i b"
  by (simp add: set_clock_def)

section \<open>Properties of the resolver\<close>

text \<open>
  C1. Refinement: for a doctor whose window bounds are valid clock times, the modal's
  slot loop on any date, in any browser zone, yields exactly the specification's
  \<open>generateSlotTicks\<close>: the ticks from the window's start, 30 minutes apart, strictly
  before its end, rendered as \<open>HH:mm\<close>.
\<close>

theorem allPossibleSlots_refines_generate:
  assumes "valid_clock (availableFromTime d)" "valid_clock (availableToTime d)"
  shows "allPossibleSlotsForDay off d date = generateSlotTicks (availableFromTime d) (availableToTime d)"
  using slot_loop_generate [OF assms]
  by (simp add: allPossibleSlotsForDay_def getDayJsAvailability_def)

text \<open>
  C9. The weekly window: for weekday bounds in 0..6, a date is within the doctor's
  availability exactly when its weekday lies on the cyclic interval from
  \<open>availableFromWeekDay\<close> forward to \<open>availableToWeekDay\<close>, wrapping past Saturday
  when \<open>from > to\<close>.
\<close>

theorem isDateWithinDoctorAvailability_window:
  assumes "0 \<le> availableFromWeekDay d" "availableFromWeekDay d \<le> 6"
    and "0 \<le> availableToWeekDay d" "availableToWeekDay d \<le> 6"
  shows "isDateWithinDoctorAvailability off d date \<longleftrightarrow>
         get_day off date \<in> weekly_window (availableFromWeekDay d) (availableToWeekDay d)"
  using in_weekly_window [OF assms, of "get_day off date"] get_day_range [of off date]
  by (simp add: isDateWithinDoctorAvailability_def Let_def)

text \<open>
  C10. The slot labels of a day are pairwise distinct, so a label identifies its slot
  (the optimistic update and the blocked-time lookup both key slots by label).
\<close>

theorem slot_ticks_distinct:
  assumes "valid_clock (availableFromTime d)" "valid_clock (availableToTime d)"
  shows "distinct (allPossibleSlotsForDay off d date)"
  using slot_loop_generate [OF assms] generateSlotTicks_distinct [OF assms]
  by (simp add: allPossibleSlotsForDay_def getDayJsAvailability_def)

text \<open>
  C11. Bounds: every slot label is a well-formed \<open>HH:mm\<close> time, not before the
  window's start and strictly before its end.
\<close>

theorem slot_ticks_in_window:
  assumes "valid_clock (availableFromTime d)" "valid_clock (availableToTime d)"
    and "s \<in> set (allPossibleSlotsForDay off d date)"
  shows "\<exists>m. parse_HHmm s = Some m \<and> clock_minutes (availableFromTime d) \<le> m
             \<and> int m * 60000 < clock_ms (availableToTime d)"
proof -
  have "s \<in> set (generateSlotTicks (availableFromTime d) (availableToTime d))"
    using assms(3) slot_loop_generate [OF assms(1,2)]
    by (simp add: allPossibleSlotsForDay_def getDayJsAvailability_def)
  then show ?thesis by (rule generateSlotTicks_window [OF assms(1,2)])
qed

text \<open>
  C12. An empty or inverted window (\<open>from >= to\<close>) yields no slot at all; this holds
  for any clock values, valid or not.
\<close>

theorem slot_ticks_empty_when_inverted:
  assumes "clock_ms (availableToTime d) \<le> clock_ms (availableFromTime d)"
  shows "allPossibleSlotsForDay off d date = []"
proof -
  have "\<not> set_clock off date (availableFromTime d) < set_clock off date (availableToTime d)"
    using set_clock_mono [OF assms, of off date] by simp
  then show ?thesis
    by (simp add: allPossibleSlotsForDay_def getDayJsAvailability_def slot_loop.simps)
qed

text \<open>
  C13. The specification's example: a 09:00--12:00 window yields the six ticks
  09:00, 09:30, \<dots>, 11:30, end-exclusive, on every date.
\<close>

theorem slot_ticks_nine_to_noon:
  assumes "availableFromTime d = \<lparr>hour = 9, minute = 0, second = 0\<rparr>"
    and "availableToTime d = \<lparr>hour = 12, minute = 0, second = 0\<rparr>"
  shows "allPossibleSlotsForDay off d date = [''09:00'', ''09:30'', ''10:00'', ''10:30'', ''11:00'', ''11:30'']"
proof -
  have v: "valid_clock (availableFromTime d)" "valid_clock (availableToTime d)"
    using assms by (simp_all add: valid_clock_def)
  have "generateSlotTicks \<lparr>hour = 9, minute = 0, second = 0\<rparr> \<lparr>hour = 12, minute = 0, second = 0\<rparr>
        = [''09:00'', ''09:30'', ''10:00'', ''10:30'', ''11:00'', ''11:30'']"
    by (simp add: generateSlotTicks_def tick_count_def clock_ms_def slot_step_def clock_minutes_def
        upt_rec fmt_minutes_def two_digits_def digit_char_def)
  with slot_loop_generate [OF v, of off date] assms show ?thesis
    by (simp add: allPossibleSlotsForDay_def getDayJsAvailability_def)
qed

end
