(* ===== verification/Store.thy ===== *)
theory Store
  imports Prelude
begin

text \<open>
  The override store: the three tables of overrides (full-day blocks
  \<open>blockedDatesTable\<close>, ad-hoc availability grants, per-slot time blocks) as lists of rows
  in insertion order, the two writes the actions issue (drizzle's
  \<open>insert(\<dots>).values(\<dots>).onConflictDoNothing({target})\<close> and
  \<open>delete(\<dots>).where(and(eq \<dots>))\<close>), and the tenant-scoped reads behind the
  \<open>/api/blocked-dates\<close> and \<open>/api/blocked-time-slots\<close> routes. The writes are generic
  in the conflict key; their invariant is that no two rows share a key.
\<close>

section \<open>Rows and tables\<close>

record override_row =
  row_clinicId :: uuid
  row_doctorId :: uuid
  row_date :: instant
  row_time :: "string option"
  row_reason :: "string option"
  row_createdAt :: instant
  row_updatedAt :: instant

type_synonym table = "override_row list"

record store =
  blockedDatesTable :: table
  adHocTable :: table
  timeSlotsTable :: table

text \<open>
  Conflict targets: \<open>[blockedDatesTable.doctorId, blockedDatesTable.date]\<close> for
  full-day blocks (and, by the specification, for ad-hoc grants); the slot's time joins
  the key for time-slot blocks.
\<close>

definition day_key :: "override_row \<Rightarrow> uuid \<times> instant" where
  "day_key r = (row_doctorId r, row_date r)"

definition slot_key :: "override_row \<Rightarrow> uuid \<times> instant \<times> string option" where
  "slot_key r = (row_doctorId r, row_date r, row_time r)"

section \<open>Writes\<close>

definition insert_on_conflict_do_nothing :: "('r \<Rightarrow> 'k) \<Rightarrow> 'r \<Rightarrow> 'r list \<Rightarrow> 'r list" where
  "insert_on_conflict_do_nothing key r tbl =
     (if key r \<in> set (map key tbl) then tbl else tbl @ [r])"

definition delete_where :: "('r \<Rightarrow> bool) \<Rightarrow> 'r list \<Rightarrow> 'r list" where
  "delete_where P tbl = filter (\<lambda>r. \<not> P r) tbl"

text \<open>\<open>and(eq(clinicId), eq(doctorId), eq(date))\<close>, with \<open>eq(time)\<close> for slot rows.\<close>

definition matches_day :: "uuid \<Rightarrow> uuid \<Rightarrow> instant \<Rightarrow> override_row \<Rightarrow> bool" where
  "matches_day c d dt r \<longleftrightarrow> row_clinicId r = c \<and> row_doctorId r = d \<and> row_date r = dt"

definition matches_slot :: "uuid \<Rightarrow> uuid \<Rightarrow> instant \<Rightarrow> string \<Rightarrow> override_row \<Rightarrow> bool" where
  "matches_slot c d dt t r \<longleftrightarrow> matches_day c d dt r \<and> row_time r = Some t"

definition unique_on :: "('r \<Rightarrow> 'k) \<Rightarrow> 'r list \<Rightarrow> bool" where
  "unique_on key tbl \<longleftrightarrow> distinct (map key tbl)"

definition store_inv :: "store \<Rightarrow> bool" where
  "store_inv s \<longleftrightarrow> unique_on day_key (blockedDatesTable s) \<and> unique_on day_key (adHocTable s)
                   \<and> unique_on slot_key (timeSlotsTable s)"

section \<open>Reads\<close>

text \<open>Every read filters by clinic as well as doctor (specification, section 4.2).\<close>

definition owned_by :: "uuid \<Rightarrow> uuid \<Rightarrow> override_row \<Rightarrow> bool" where
  "owned_by d c r \<longleftrightarrow> row_doctorId r = d \<and> row_clinicId r = c"

definition list_dates :: "table \<Rightarrow> uuid \<Rightarrow> uuid \<Rightarrow> instant list" where
  "list_dates tbl d c = map row_date (filter (owned_by d c) tbl)"

definition list_times_for_date :: "table \<Rightarrow> uuid \<Rightarrow> uuid \<Rightarrow> instant \<Rightarrow> string list" where
  "list_times_for_date tbl d c dt =
     List.map_filter (\<lambda>r. if owned_by d c r \<and> row_date r = dt then row_time r else None) tbl"

section \<open>Lemmas\<close>

lemma unique_on_insert [store_simps]:
  "unique_on key tbl \<Longrightarrow> unique_on key (insert_on_conflict_do_nothing key r tbl)"
  by (auto simp: unique_on_def insert_on_conflict_do_nothing_def)

lemma unique_on_filter:
  "unique_on key tbl \<Longrightarrow> unique_on key (filter P tbl)"
  by (induction tbl) (auto simp: unique_on_def)

lemma unique_on_delete [store_simps]:
  "unique_on key tbl \<Longrightarrow> unique_on key (delete_where P tbl)"
  by (simp add: delete_where_def unique_on_filter)

lemma insert_idem [store_simps]:
  "insert_on_conflict_do_nothing key r (insert_on_conflict_do_nothing key r tbl)
   = insert_on_conflict_do_nothing key r tbl"
  by (simp add: insert_on_conflict_do_nothing_def)

lemma delete_idem [store_simps]:
  "delete_where P (delete_where P tbl) = delete_where P tbl"
  by (simp add: delete_where_def)

lemma insert_key_present:
  "key r \<in> key ` set (insert_on_conflict_do_nothing key r tbl)"
  by (auto simp: insert_on_conflict_do_nothing_def)

lemma delete_none_left:
  "\<not> list_ex P (delete_where P tbl)"
  by (simp add: delete_where_def list_ex_filter_not)

lemma delete_noop:
  "\<not> list_ex P tbl \<Longrightarrow> delete_where P tbl = tbl"
  by (induction tbl) (auto simp: delete_where_def)

lemma insert_fresh:
  "key r \<notin> key ` set tbl \<Longrightarrow> insert_on_conflict_do_nothing key r tbl = tbl @ [r]"
  by (simp add: insert_on_conflict_do_nothing_def)

lemma count_key_unique:
  "unique_on key tbl \<Longrightarrow> k \<in> key ` set tbl \<Longrightarrow> length (filter (\<lambda>r. key r = k) tbl) = 1"
proof (induction tbl)
  case Nil
  then show ?case by simp
next
  case (Cons a tbl)
  then have u: "unique_on key tbl" and na: "key a \<notin> key ` set tbl"
    by (simp_all add: unique_on_def)
  show ?case
  proof (cases "key a = k")
    case True
    with na have "filter (\<lambda>r. key r = k) tbl = []"
      unfolding filter_empty_conv by (metis image_eqI)
    with True show ?thesis by simp
  next
    case False
    with Cons.prems have "k \<in> key ` set tbl" by auto
    with Cons.IH u False show ?thesis by simp
  qed
qed

end
