(* ===== verification/Wire_Date.thy ===== *)
theory Wire_Date
  imports Clock
begin

text \<open>
  The \<open>YYYY-MM-DD\<close> wire date: the zod check \<open>/^\d{4}-\d{2}-\d{2}$/\<close> of the
  block action's schema, and what \<open>dayjs.tz(date, APP_TIMEZONE).startOf("day")\<close> turns a
  string that passed it into: the fields are read as a UTC date with the overflow rules of
  ECMAScript's \<open>Date.UTC\<close> (month 13 is January of the next year, day 0 the last day
  of the previous month, years 0--99 are 1900--1999), then shifted by the zone offset.
  The civil-calendar day count is Hinnant's \<open>days_from_civil\<close>.
\<close>

section \<open>The regular expression\<close>

fun is_date_format :: "string \<Rightarrow> bool" where
  "is_date_format [y1, y2, y3, y4, s1, m1, m2, s2, d1, d2] \<longleftrightarrow>
     is_digit y1 \<and> is_digit y2 \<and> is_digit y3 \<and> is_digit y4 \<and> s1 = CHR ''-'' \<and>
     is_digit m1 \<and> is_digit m2 \<and> s2 = CHR ''-'' \<and> is_digit d1 \<and> is_digit d2"
| "is_date_format _ \<longleftrightarrow> False"

definition digits_val :: "string \<Rightarrow> nat" where
  "digits_val cs = foldl (\<lambda>acc c. acc * 10 + digit_val c) 0 cs"

text \<open>The three numeric fields dayjs' parser captures.\<close>

definition date_fields :: "string \<Rightarrow> int \<times> int \<times> int" where
  "date_fields s =
     (int (digits_val (take 4 s)), int (digits_val (take 2 (drop 5 s))),
      int (digits_val (take 2 (drop 8 s))))"

section \<open>Civil days\<close>

definition days_from_civil :: "int \<Rightarrow> int \<Rightarrow> int \<Rightarrow> int" where
  "days_from_civil y m d =
     (let y' = (if m \<le> 2 then y - 1 else y);
          era = y' div 400;
          yoe = y' - era * 400;
          doy = (153 * (if m > 2 then m - 3 else m + 9) + 2) div 5 + d - 1;
          doe = yoe * 365 + yoe div 4 - yoe div 100 + doy
      in era * 146097 + doe - 719468)"

text \<open>ECMAScript \<open>MakeDay\<close> behind \<open>Date.UTC(year, monthIndex, date)\<close>.\<close>

definition make_day :: "int \<Rightarrow> int \<Rightarrow> int \<Rightarrow> int" where
  "make_day y mi d =
     (let yr = (if 0 \<le> y \<and> y \<le> 99 then 1900 + y else y);
          ym = yr + mi div 12;
          mn = mi mod 12
      in days_from_civil ym (mn + 1) 1 + d - 1)"

text \<open>\<open>dayjs.tz(s, zone)\<close> of a date-only string, then \<open>startOf("day")\<close>.\<close>

definition dayjs_tz_start :: "tz_offset \<Rightarrow> string \<Rightarrow> instant" where
  "dayjs_tz_start off s =
     (case date_fields s of (y, m, d) \<Rightarrow>
        start_of_day off (make_day y (m - 1) d * ms_per_day - off))"

section \<open>Formatting a date\<close>

text \<open>Hinnant's \<open>civil_from_days\<close>: the (year, month, day) of a day count.\<close>

definition civil_from_days :: "int \<Rightarrow> int \<times> int \<times> int" where
  "civil_from_days z0 =
     (let z = z0 + 719468;
          era = z div 146097;
          doe = z - era * 146097;
          yoe = (doe - doe div 1460 + doe div 36524 - doe div 146096) div 365;
          y = yoe + era * 400;
          doy = doe - (365 * yoe + yoe div 4 - yoe div 100);
          mp = (5 * doy + 2) div 153;
          d = doy - (153 * mp + 2) div 5 + 1;
          m = (if mp < 10 then mp + 3 else mp - 9)
      in (if m \<le> 2 then y + 1 else y, m, d))"

definition four_digits :: "nat \<Rightarrow> string" where
  "four_digits n = two_digits (n div 100) @ two_digits (n mod 100)"

text \<open>date-fns \<open>format(date, "yyyy-MM-dd")\<close>, in the zone the browser runs in.\<close>

definition format_date :: "tz_offset \<Rightarrow> instant \<Rightarrow> string" where
  "format_date off i =
     (case civil_from_days (local_day off i) of (y, m, d) \<Rightarrow>
        four_digits (nat y) @ CHR ''-'' # two_digits (nat m) @ CHR ''-'' # two_digits (nat d))"

section \<open>Proof devices for the calendar arithmetic\<close>

text \<open>
  \<open>era_days k\<close>: the days of a 400-year era before its year \<open>k\<close> (years start in
  March); \<open>yoe_est\<close>: the estimate of the year that Hinnant's \<open>civil_from_days\<close>
  divides by 365; \<open>year_row_ok k\<close>: the estimate gives \<open>k\<close> at both ends of year
  \<open>k\<close>. The 400 rows are checked by evaluation; monotonicity carries them to every day.
\<close>

definition era_days :: "int \<Rightarrow> int" where
  "era_days k = 365 * k + k div 4 - k div 100"
definition yoe_est :: "int \<Rightarrow> int" where
  "yoe_est doe = doe - doe div 1460 + doe div 36524 - doe div 146096"
definition year_row_ok :: "int \<Rightarrow> bool" where
  "year_row_ok k \<longleftrightarrow> yoe_est (era_days k) div 365 = k \<and>
     yoe_est (min (era_days (k + 1) - 1) 146095) div 365 = k \<and>
     era_days (k + 1) - era_days k \<le> 366"

section \<open>Lemmas\<close>

lemma dayjs_tz_start_midnight [clock_simps]:
  "time_of_day off (dayjs_tz_start off s) = 0"
proof -
  obtain y m d where f: "date_fields s = (y, m, d)" by (cases "date_fields s") auto
  have "time_of_day off (start_of_day off (make_day y (m - 1) d * ms_per_day - off)) = 0"
    using time_of_day_shift [of 0 off "make_day y (m - 1) d * ms_per_day - off"]
    by (simp add: ms_per_day_def)
  then show ?thesis by (simp add: dayjs_tz_start_def f)
qed

lemma dayjs_tz_start_day [clock_simps]:
  "local_day off (dayjs_tz_start off s) = (case date_fields s of (y, m, d) \<Rightarrow> make_day y (m - 1) d)"
proof -
  obtain y m d where f: "date_fields s = (y, m, d)" by (cases "date_fields s") auto
  have "local_day off (make_day y (m - 1) d * ms_per_day - off) = make_day y (m - 1) d"
    by (simp add: local_day_def ms_per_day_def)
  then show ?thesis
    by (simp add: dayjs_tz_start_def f local_day_start_of_day)
qed

lemma year_table: "list_all year_row_ok [0..399]"
  by code_simp

lemma year_row: "0 \<le> k \<Longrightarrow> k < 400 \<Longrightarrow> year_row_ok k"
  using year_table by (simp add: list_all_iff)

lemma sub_div_mono:
  assumes "0 < (n::int)" "a \<le> b"
  shows "a - a div n \<le> b - b div n"
  using assms(2)
proof (induction b rule: int_ge_induct)
  case (step b)
  have "(b + 1) div n \<le> (b + n) div n" using assms(1) by (simp add: zdiv_mono1)
  also have "\<dots> = b div n + 1" using assms(1) div_add_self2 [of n b] by simp
  finally show ?case using step.IH by linarith
qed simp

lemma yoe_est_mono:
  assumes "0 \<le> a" "a \<le> b" "b \<le> 146095"
  shows "yoe_est a \<le> yoe_est b"
proof -
  have "a - a div 1460 \<le> b - b div 1460" using sub_div_mono [of 1460 a b] assms(2) by simp
  moreover have "a div 36524 \<le> b div 36524" using assms(2) by (simp add: zdiv_mono1)
  moreover have "a div 146096 = 0" "b div 146096 = 0" using assms by simp_all
  ultimately show ?thesis by (simp add: yoe_est_def)
qed

lemma era_days_bracket:
  "0 \<le> doe \<Longrightarrow> doe < era_days (int n) \<Longrightarrow>
     \<exists>k. 0 \<le> k \<and> k < int n \<and> era_days k \<le> doe \<and> doe < era_days (k + 1)"
proof (induction n)
  case 0
  then show ?case by (simp add: era_days_def)
next
  case (Suc n)
  show ?case
  proof (cases "doe < era_days (int n)")
    case True
    then show ?thesis using Suc by force
  next
    case False
    then show ?thesis using Suc.prems by (intro exI [of _ "int n"]) (simp add: add.commute)
  qed
qed

lemma era_days_nonneg: "0 \<le> k \<Longrightarrow> 0 \<le> era_days k"
  by (simp add: era_days_def)

lemma yoe_in_era:
  assumes "0 \<le> doe" "doe < 146097"
  obtains k where "0 \<le> k" "k < 400" "yoe_est doe div 365 = k"
    "0 \<le> doe - era_days k" "doe - era_days k \<le> 365"
proof (cases "doe = 146096")
  case True
  show ?thesis by (rule that [of 399]) (simp_all add: True yoe_est_def era_days_def)
next
  case False
  have "era_days (int 400) = 146096" by (simp add: era_days_def)
  then obtain k where k: "0 \<le> k" "k < 400" "era_days k \<le> doe" "doe < era_days (k + 1)"
    using era_days_bracket [of doe 400] assms False by auto
  have row: "year_row_ok k" using k by (simp add: year_row)
  have le: "doe \<le> 146095" using assms(2) False by simp
  have "yoe_est (era_days k) \<le> yoe_est doe"
    using k le by (intro yoe_est_mono era_days_nonneg) simp_all
  then have lo: "k \<le> yoe_est doe div 365"
    using row zdiv_mono1 [of "yoe_est (era_days k)" "yoe_est doe" 365] by (simp add: year_row_ok_def)
  have "yoe_est doe \<le> yoe_est (min (era_days (k + 1) - 1) 146095)"
    using k le assms(1) by (intro yoe_est_mono) simp_all
  then have hi: "yoe_est doe div 365 \<le> k"
    using row zdiv_mono1 [of "yoe_est doe" "yoe_est (min (era_days (k + 1) - 1) 146095)" 365]
    by (simp add: year_row_ok_def)
  show ?thesis
    using k row lo hi by (intro that [of k]) (simp_all add: year_row_ok_def)
qed


lemma civil_from_days_fields:
  obtains era yoe doy mp where
    "civil_from_days z0 =
       ((if (if mp < 10 then mp + 3 else mp - 9) \<le> 2 then yoe + era * 400 + 1 else yoe + era * 400),
        (if mp < 10 then mp + 3 else mp - 9), doy - (153 * mp + 2) div 5 + 1)"
    "z0 + 719468 = era * 146097 + era_days yoe + doy"
    "0 \<le> yoe" "yoe < 400" "0 \<le> doy" "doy \<le> 365" "mp = (5 * doy + 2) div 153"
proof -
  define z where "z = z0 + 719468"
  define era where "era = z div 146097"
  define doe where "doe = z - era * 146097"
  have doe: "0 \<le> doe" "doe < 146097"
    by (simp_all add: doe_def era_def minus_div_mult_eq_mod)
  obtain k where k: "0 \<le> k" "k < 400" "yoe_est doe div 365 = k"
    "0 \<le> doe - era_days k" "doe - era_days k \<le> 365"
    using yoe_in_era [OF doe] by blast
  define doy where "doy = doe - era_days k"
  define mp where "mp = (5 * doy + 2) div 153"
  have y: "(doe - doe div 1460 + doe div 36524 - doe div 146096) div 365 = k"
    using k(3) by (simp only: yoe_est_def)
  have d: "doe - (365 * k + k div 4 - k div 100) = doy"
    by (simp only: doy_def era_days_def)
  have civ: "civil_from_days z0 =
       ((if (if mp < 10 then mp + 3 else mp - 9) \<le> 2 then k + era * 400 + 1 else k + era * 400),
        (if mp < 10 then mp + 3 else mp - 9), doy - (153 * mp + 2) div 5 + 1)"
    unfolding civil_from_days_def Let_def z_def [symmetric] era_def [symmetric]
      doe_def [symmetric] y d mp_def [symmetric]
    by (simp only: add.commute)
  show ?thesis
  proof (rule that [OF civ])
    show "z0 + 719468 = era * 146097 + era_days k + doy"
      by (simp add: doy_def doe_def z_def)
  qed (use k in \<open>simp_all add: doy_def mp_def\<close>)
qed


lemma days_from_civil_civil:
  assumes "civil_from_days z = (y, m, d)"
  shows "days_from_civil y m d = z"
proof -
  obtain era yoe doy mp where
    c: "civil_from_days z =
       ((if (if mp < 10 then mp + 3 else mp - 9) \<le> 2 then yoe + era * 400 + 1 else yoe + era * 400),
        (if mp < 10 then mp + 3 else mp - 9), doy - (153 * mp + 2) div 5 + 1)"
    and z: "z + 719468 = era * 146097 + era_days yoe + doy"
    and b: "0 \<le> yoe" "yoe < 400" "0 \<le> doy" "doy \<le> 365" and mp: "mp = (5 * doy + 2) div 153"
    by (rule civil_from_days_fields)
  have "0 \<le> mp" using b mp by simp
  moreover have "mp \<le> 11"
    using b mp zdiv_mono1 [of "5 * doy + 2" "5 * 365 + 2" 153] by simp
  moreover have "(yoe + era * 400) div 400 = era" "yoe + era * 400 - era * 400 = yoe"
    using b by simp_all
  ultimately show ?thesis
    using assms c z by (auto simp: days_from_civil_def era_days_def Let_def split: if_splits)
qed


lemma div_bounds_int:
  assumes "0 < (c::int)"
  shows "c * (a div c) \<le> a \<and> a < c * (a div c) + c"
proof -
  have "a = c * (a div c) + a mod c" by simp
  moreover have "0 \<le> a mod c" "a mod c < c" using assms by simp_all
  ultimately show ?thesis by linarith
qed

lemma civil_from_days_ranges:
  assumes "civil_from_days z = (y, m, d)"
  shows "1 \<le> m \<and> m \<le> 12 \<and> 1 \<le> d \<and> d \<le> 31"
proof -
  obtain era yoe doy mp where
    c: "civil_from_days z =
       ((if (if mp < 10 then mp + 3 else mp - 9) \<le> 2 then yoe + era * 400 + 1 else yoe + era * 400),
        (if mp < 10 then mp + 3 else mp - 9), doy - (153 * mp + 2) div 5 + 1)"
    and b: "0 \<le> yoe" "yoe < 400" "0 \<le> doy" "doy \<le> 365" and mp: "mp = (5 * doy + 2) div 153"
    by (rule civil_from_days_fields)
  have m1: "153 * mp \<le> 5 * doy + 2" "5 * doy + 2 < 153 * mp + 153"
    using div_bounds_int [of 153 "5 * doy + 2"] mp by simp_all
  have q: "5 * ((153 * mp + 2) div 5) \<le> 153 * mp + 2" "153 * mp + 2 < 5 * ((153 * mp + 2) div 5) + 5"
    using div_bounds_int [of 5 "153 * mp + 2"] by simp_all
  have "0 \<le> mp" "mp \<le> 11"
    using b mp zdiv_mono1 [of "5 * doy + 2" "5 * 365 + 2" 153] by simp_all
  then show ?thesis
    using assms c m1 q by (auto split: if_splits)
qed


lemma foldl_digits_shift:
  "foldl (\<lambda>acc c. acc * 10 + digit_val c) a ys =
     a * 10 ^ length ys + foldl (\<lambda>acc c. acc * 10 + digit_val c) 0 ys"
proof (induction ys arbitrary: a)
  case (Cons y ys)
  have "foldl (\<lambda>acc c. acc * 10 + digit_val c) a (y # ys) =
          (a * 10 + digit_val y) * 10 ^ length ys + foldl (\<lambda>acc c. acc * 10 + digit_val c) 0 ys"
    using Cons.IH [of "a * 10 + digit_val y"] by simp
  moreover have "foldl (\<lambda>acc c. acc * 10 + digit_val c) 0 (y # ys) =
          digit_val y * 10 ^ length ys + foldl (\<lambda>acc c. acc * 10 + digit_val c) 0 ys"
    using Cons.IH [of "digit_val y"] by simp
  ultimately show ?case by (simp add: algebra_simps)
qed simp

lemma digits_val_append: "digits_val (xs @ ys) = digits_val xs * 10 ^ length ys + digits_val ys"
  unfolding digits_val_def foldl_append by (rule foldl_digits_shift)

lemma length_two_digits [simp]: "length (two_digits n) = 2"
  by (simp add: two_digits_def)

lemma length_four_digits [simp]: "length (four_digits n) = 4"
  by (simp add: four_digits_def)

lemma digits_val_two_digits: "n < 100 \<Longrightarrow> digits_val (two_digits n) = n"
  by (simp add: two_digits_def digits_val_def digit_val_digit_char)

lemma digits_val_four_digits: "n < 10000 \<Longrightarrow> digits_val (four_digits n) = n"
  by (simp add: four_digits_def digits_val_append digits_val_two_digits less_mult_imp_div_less)

lemma date_fields_format:
  assumes "civil_from_days (local_day off i) = (y, m, d)" "0 \<le> y" "y \<le> 9999"
  shows "date_fields (format_date off i) = (y, m, d)"
proof -
  have r: "1 \<le> m \<and> m \<le> 12 \<and> 1 \<le> d \<and> d \<le> 31"
    using assms(1) by (rule civil_from_days_ranges)
  have "nat y < 10000" "nat m < 100" "nat d < 100" using assms(2,3) r by (auto simp: nat_less_iff)
  then show ?thesis
    using assms r by (simp add: format_date_def date_fields_def digits_val_two_digits
        digits_val_four_digits)
qed


lemma is_date_format_format:
  assumes "0 \<le> y" "y \<le> 9999" "1 \<le> m" "m \<le> 12" "1 \<le> d" "d \<le> 31"
    "civil_from_days (local_day off i) = (y, m, d)"
  shows "is_date_format (format_date off i)"
proof -
  have "nat y div 100 div 10 < 10" "nat y mod 100 div 10 < 10" "nat m div 10 < 10"
    "nat d div 10 < 10"
    using assms by (auto simp: nat_less_iff)
  then show ?thesis
    using assms by (simp add: format_date_def four_digits_def two_digits_def is_digit_digit_char)
qed

lemma make_day_civil:
  "100 \<le> y \<Longrightarrow> 1 \<le> m \<Longrightarrow> m \<le> 12 \<Longrightarrow> make_day y (m - 1) d = days_from_civil y m d"
  by (simp add: make_day_def days_from_civil_def Let_def)

lemma midnight_eq:
  "local_day off a = local_day off b \<Longrightarrow> time_of_day off a = time_of_day off b \<Longrightarrow> a = b"
  using day_time_decomp [of a off] day_time_decomp [of b off] by simp

lemma time_of_day_start_of_day: "time_of_day off (start_of_day off i) = 0"
  using time_of_day_shift [of 0 off i] by (simp add: ms_per_day_def)

lemma format_date_wire:
  assumes "100 \<le> fst (civil_from_days (local_day off i))"
    "fst (civil_from_days (local_day off i)) \<le> 9999"
  shows "is_date_format (format_date off i) \<and>
         local_day off' (dayjs_tz_start off' (format_date off i)) = local_day off i"
proof -
  obtain y m d where c: "civil_from_days (local_day off i) = (y, m, d)"
    by (cases "civil_from_days (local_day off i)") auto
  have y: "100 \<le> y" "y \<le> 9999" using assms c by simp_all
  have r: "1 \<le> m \<and> m \<le> 12 \<and> 1 \<le> d \<and> d \<le> 31" using c by (rule civil_from_days_ranges)
  have f: "date_fields (format_date off i) = (y, m, d)"
    using c y by (intro date_fields_format) simp_all
  have "local_day off' (dayjs_tz_start off' (format_date off i)) = make_day y (m - 1) d"
    by (simp only: dayjs_tz_start_day f prod.case)
  also have "\<dots> = days_from_civil y m d" using y r by (simp add: make_day_civil)
  also have "\<dots> = local_day off i" by (rule days_from_civil_civil [OF c])
  finally show ?thesis
    using y r c is_date_format_format [of y m d] by simp
qed

section \<open>The wire date round trip\<close>

text \<open>
  C30. Round trip of the wire date: for an instant whose calendar year in the browser's
  zone lies between 100 and 9999, the string date-fns formats passes the action's
  \<open>YYYY-MM-DD\<close> schema, \<open>dayjs.tz(_, zone).startOf("day")\<close> reads it back as the same
  calendar day in any zone, and in the browser's own zone as the start of that day.
\<close>

theorem format_date_roundtrip:
  assumes "100 \<le> fst (civil_from_days (local_day off i))"
    "fst (civil_from_days (local_day off i)) \<le> 9999"
  shows "is_date_format (format_date off i) \<and>
         local_day off' (dayjs_tz_start off' (format_date off i)) = local_day off i \<and>
         dayjs_tz_start off (format_date off i) = start_of_day off i"
proof -
  note w = format_date_wire [OF assms]
  have "local_day off (dayjs_tz_start off (format_date off i)) = local_day off (start_of_day off i)"
    using w [of off] by (simp only: local_day_start_of_day)
  moreover have "time_of_day off (dayjs_tz_start off (format_date off i)) =
                 time_of_day off (start_of_day off i)"
    by (simp only: dayjs_tz_start_midnight time_of_day_start_of_day)
  ultimately have "dayjs_tz_start off (format_date off i) = start_of_day off i"
    by (rule midnight_eq)
  then show ?thesis using w by simp
qed

end
