(* ===== verification/Actions.thy ===== *)
theory Actions
  imports Store Wire_Date
begin

text \<open>
  The mutation actions. \<open>blockDate\<close> is translated from
  \<open>src/actions/block-date.ts/index.ts\<close>: the zod schema (checked by next-safe-action
  before the body runs), the session's clinic check, the clinic-mismatch check, the date
  normalisation, the insert-or-ignore or the scoped delete, the three
  \<open>revalidatePath\<close> calls and the \<open>catch\<close> that turns any exception into
  \<open>{success: false, error}\<close>. The two sibling actions the modal imports
  (\<open>adHocAvailability\<close>, \<open>blockTimeSlot\<close>) are not among the sources; they are
  modelled from the specification (section 4.4) as instances of one toggle contract,
  \<open>toggle_override\<close>, and \<open>blockDate\<close> is shown to implement the same contract.
\<close>

section \<open>Inputs, results, failures\<close>

record block_date_input =
  bdi_doctorId :: uuid
  bdi_clinicId :: uuid
  bdi_date :: string
  bdi_block :: bool
  bdi_reason :: "string option"

text \<open>
  The action's error strings: \<open>"Cl\<dots>nica n\<dots>o encontrada ou n\<dots>o autorizado."\<close>,
  \<open>"Cl\<dots>nica incompat\<dots>vel \<dots>"\<close>, an exception's \<open>message\<close>, and the fallback
  \<open>"Falha ao operar a data."\<close> for a thrown value that is not an \<open>Error\<close>.
\<close>

datatype error_msg = Msg_NoClinic | Msg_ClinicMismatch | Msg_Exception string | Msg_Fallback

text \<open>A thrown value: an \<open>Error\<close> with its message, or anything else.\<close>

datatype exn = Error_obj string | Non_error

text \<open>
  The three \<open>revalidatePath\<close> calls of lines 82--84, in their order, and where the
  body's \<open>try\<close> block can throw: the database write, or one of the
  \<open>revalidatePath\<close> calls after the write has been issued (the calls before it have run).
\<close>

datatype reval_call = PublicBooking | Doctors | AvailableSlots

datatype fault = NoFault | WriteFault exn | RevalidateFault reval_call exn

record toggle_result =
  success :: bool
  error :: "error_msg option"
  flag :: bool

text \<open>next-safe-action: a failed schema yields \<open>validationErrors\<close> and skips the body.\<close>

datatype 'a safe_result = ValidationErrors | Data 'a

type_synonym path = string

definition revalidated_paths :: "path list" where
  "revalidated_paths = [''/public-booking'', ''/doctors'', ''/api/available-slots'']"

text \<open>The paths revalidated before the given call throws.\<close>

definition paths_before :: "reval_call \<Rightarrow> path list" where
  "paths_before c = take (case c of PublicBooking \<Rightarrow> 0 | Doctors \<Rightarrow> 1 | AvailableSlots \<Rightarrow> 2)
                          revalidated_paths"

section \<open>The schema\<close>

definition is_hex :: "char \<Rightarrow> bool" where
  "is_hex c \<longleftrightarrow> is_digit c \<or> c \<in> set ''abcdefABCDEF''"

text \<open>zod's \<open>uuid()\<close>: 8-4-4-4-12 hexadecimal groups (the library is not among the sources).\<close>

definition is_uuid :: "string \<Rightarrow> bool" where
  "is_uuid s \<longleftrightarrow> length s = 36 \<and>
     list_all is_hex (take 8 s) \<and> s ! 8 = CHR ''-'' \<and>
     list_all is_hex (take 4 (drop 9 s)) \<and> s ! 13 = CHR ''-'' \<and>
     list_all is_hex (take 4 (drop 14 s)) \<and> s ! 18 = CHR ''-'' \<and>
     list_all is_hex (take 4 (drop 19 s)) \<and> s ! 23 = CHR ''-'' \<and>
     list_all is_hex (drop 24 s)"

definition valid_block_date_input :: "block_date_input \<Rightarrow> bool" where
  "valid_block_date_input i \<longleftrightarrow>
     is_uuid (bdi_doctorId i) \<and> is_uuid (bdi_clinicId i) \<and> is_date_format (bdi_date i)"

section \<open>blockDate\<close>

definition exn_message :: "exn \<Rightarrow> error_msg" where
  "exn_message e = (case e of Error_obj m \<Rightarrow> Msg_Exception m | Non_error \<Rightarrow> Msg_Fallback)"

definition failed :: "error_msg \<Rightarrow> bool \<Rightarrow> toggle_result" where
  "failed m b = \<lparr>success = False, error = Some m, flag = b\<rparr>"

definition succeeded :: "bool \<Rightarrow> toggle_result" where
  "succeeded b = \<lparr>success = True, error = None, flag = b\<rparr>"

text \<open>\<open>parsedInput.reason || null\<close>: the empty string is stored as null.\<close>

definition reason_or_null :: "string option \<Rightarrow> string option" where
  "reason_or_null r = (case r of Some s \<Rightarrow> if s = [] then None else Some s | None \<Rightarrow> None)"

definition block_row :: "instant \<Rightarrow> block_date_input \<Rightarrow> instant \<Rightarrow> override_row" where
  "block_row now i targetDate =
     \<lparr>row_clinicId = bdi_clinicId i, row_doctorId = bdi_doctorId i, row_date = targetDate,
      row_time = None, row_reason = reason_or_null (bdi_reason i),
      row_createdAt = now, row_updatedAt = now\<rparr>"

text \<open>
  The body of the action. \<open>session\<close> is \<open>session?.user?.clinic?.id\<close>; \<open>now\<close> is
  \<open>new Date()\<close>; the result carries the paths whose cache was revalidated.
\<close>

definition blockDate ::
  "uuid option \<Rightarrow> instant \<Rightarrow> fault \<Rightarrow> block_date_input \<Rightarrow> store
   \<Rightarrow> toggle_result safe_result \<times> store \<times> path list" where
  "blockDate session now flt i st =
     (if \<not> valid_block_date_input i then (ValidationErrors, st, [])
      else if (case session of None \<Rightarrow> True | Some c \<Rightarrow> c = [])
      then (Data (failed Msg_NoClinic (bdi_block i)), st, [])
      else if the session \<noteq> bdi_clinicId i
      then (Data (failed Msg_ClinicMismatch (bdi_block i)), st, [])
      else
        (let targetDate = dayjs_tz_start app_timezone (bdi_date i)
         in case flt of
              WriteFault e \<Rightarrow> (Data (failed (exn_message e) (bdi_block i)), st, [])
            | _ \<Rightarrow>
              (let st' =
                 (if bdi_block i
                  then st\<lparr>blockedDatesTable := insert_on_conflict_do_nothing day_key
                                           (block_row now i targetDate) (blockedDatesTable st)\<rparr>
                  else st\<lparr>blockedDatesTable := delete_where
                           (matches_day (bdi_clinicId i) (bdi_doctorId i) targetDate)
                           (blockedDatesTable st)\<rparr>)
               in case flt of
                    RevalidateFault c e \<Rightarrow>
                      (Data (failed (exn_message e) (bdi_block i)), st', paths_before c)
                  | _ \<Rightarrow> (Data (succeeded (bdi_block i)), st', revalidated_paths))))"

section \<open>The toggle contract of the specification\<close>

text \<open>Authorization (section 4.4): a session clinic that exactly equals the input's.\<close>

definition authorize :: "uuid option \<Rightarrow> uuid \<Rightarrow> error_msg option" where
  "authorize session c =
     (case session of
        None \<Rightarrow> Some Msg_NoClinic
      | Some s \<Rightarrow> if s = [] then Some Msg_NoClinic else if s \<noteq> c then Some Msg_ClinicMismatch
                 else None)"

definition toggle_override ::
  "((table \<Rightarrow> table) \<Rightarrow> store \<Rightarrow> store) \<Rightarrow> (override_row \<Rightarrow> 'k) \<Rightarrow> override_row
   \<Rightarrow> (override_row \<Rightarrow> bool) \<Rightarrow> bool \<Rightarrow> uuid \<Rightarrow> uuid option \<Rightarrow> fault \<Rightarrow> store
   \<Rightarrow> toggle_result \<times> store \<times> path list" where
  "toggle_override upd key r P on c session flt st =
     (case authorize session c of
        Some m \<Rightarrow> (failed m on, st, [])
      | None \<Rightarrow>
          (case flt of
             WriteFault e \<Rightarrow> (failed (exn_message e) on, st, [])
           | _ \<Rightarrow>
             (let st' = upd (\<lambda>tbl. if on then insert_on_conflict_do_nothing key r tbl
                                  else delete_where P tbl) st
              in case flt of
                   RevalidateFault c e \<Rightarrow> (failed (exn_message e) on, st', paths_before c)
                 | _ \<Rightarrow> (succeeded on, st', revalidated_paths))))"

record ad_hoc_input =
  ahi_doctorId :: uuid
  ahi_clinicId :: uuid
  ahi_date :: string
  ahi_available :: bool
  ahi_reason :: "string option"

record slot_input =
  tsi_doctorId :: uuid
  tsi_clinicId :: uuid
  tsi_date :: string
  tsi_time :: string
  tsi_block :: bool
  tsi_reason :: "string option"

definition adHocAvailability ::
  "uuid option \<Rightarrow> instant \<Rightarrow> fault \<Rightarrow> ad_hoc_input \<Rightarrow> store
   \<Rightarrow> toggle_result safe_result \<times> store \<times> path list" where
  "adHocAvailability session now flt i st =
     (if \<not> (is_uuid (ahi_doctorId i) \<and> is_uuid (ahi_clinicId i) \<and> is_date_format (ahi_date i))
      then (ValidationErrors, st, [])
      else
        (let d = dayjs_tz_start app_timezone (ahi_date i);
             r = \<lparr>row_clinicId = ahi_clinicId i, row_doctorId = ahi_doctorId i, row_date = d,
                  row_time = None, row_reason = reason_or_null (ahi_reason i),
                  row_createdAt = now, row_updatedAt = now\<rparr>;
             (res, st', ps) = toggle_override adHocTable_update day_key r
                                (matches_day (ahi_clinicId i) (ahi_doctorId i) d)
                                (ahi_available i) (ahi_clinicId i) session flt st
         in (Data res, st', ps)))"

definition blockTimeSlot ::
  "uuid option \<Rightarrow> instant \<Rightarrow> fault \<Rightarrow> slot_input \<Rightarrow> store
   \<Rightarrow> toggle_result safe_result \<times> store \<times> path list" where
  "blockTimeSlot session now flt i st =
     (if \<not> (is_uuid (tsi_doctorId i) \<and> is_uuid (tsi_clinicId i) \<and> is_date_format (tsi_date i)
            \<and> parse_HHmm (tsi_time i) \<noteq> None)
      then (ValidationErrors, st, [])
      else
        (let d = dayjs_tz_start app_timezone (tsi_date i);
             r = \<lparr>row_clinicId = tsi_clinicId i, row_doctorId = tsi_doctorId i, row_date = d,
                  row_time = Some (tsi_time i), row_reason = reason_or_null (tsi_reason i),
                  row_createdAt = now, row_updatedAt = now\<rparr>;
             (res, st', ps) = toggle_override timeSlotsTable_update slot_key r
                                (matches_slot (tsi_clinicId i) (tsi_doctorId i) d (tsi_time i))
                                (tsi_block i) (tsi_clinicId i) session flt st
         in (Data res, st', ps)))"

section \<open>Lemmas: the branches of blockDate\<close>

definition block_write :: "instant \<Rightarrow> block_date_input \<Rightarrow> store \<Rightarrow> store" where
  "block_write now i st =
     (let targetDate = dayjs_tz_start app_timezone (bdi_date i)
      in if bdi_block i
         then st\<lparr>blockedDatesTable := insert_on_conflict_do_nothing day_key
                                  (block_row now i targetDate) (blockedDatesTable st)\<rparr>
         else st\<lparr>blockedDatesTable := delete_where
                  (matches_day (bdi_clinicId i) (bdi_doctorId i) targetDate) (blockedDatesTable st)\<rparr>)"

lemma authorize_None_iff:
  "authorize session c = None \<longleftrightarrow> session = Some c \<and> c \<noteq> []"
  by (auto simp: authorize_def split: option.splits)

lemma authorize_Some_cases:
  "authorize session c = Some m \<Longrightarrow> m = Msg_NoClinic \<or> m = Msg_ClinicMismatch"
  by (auto simp: authorize_def split: option.splits if_splits)

lemma blockDate_invalid:
  "\<not> valid_block_date_input i \<Longrightarrow> blockDate session now flt i st = (ValidationErrors, st, [])"
  by (simp add: blockDate_def)

lemma blockDate_denied:
  assumes "valid_block_date_input i" "authorize session (bdi_clinicId i) = Some m"
  shows "blockDate session now flt i st = (Data (failed m (bdi_block i)), st, [])"
  using assms by (auto simp: blockDate_def authorize_def split: option.splits if_splits)

lemma blockDate_write_fault:
  assumes "valid_block_date_input i" "authorize session (bdi_clinicId i) = None"
  shows "blockDate session now (WriteFault e) i st = (Data (failed (exn_message e) (bdi_block i)), st, [])"
  using assms by (simp add: blockDate_def authorize_None_iff)

lemma blockDate_no_fault:
  assumes "valid_block_date_input i" "authorize session (bdi_clinicId i) = None"
  shows "blockDate session now NoFault i st =
           (Data (succeeded (bdi_block i)), block_write now i st, revalidated_paths)"
  using assms by (simp add: blockDate_def authorize_None_iff block_write_def Let_def)

lemma blockDate_revalidate_fault:
  assumes "valid_block_date_input i" "authorize session (bdi_clinicId i) = None"
  shows "blockDate session now (RevalidateFault c e) i st =
           (Data (failed (exn_message e) (bdi_block i)), block_write now i st, paths_before c)"
  using assms by (simp add: blockDate_def authorize_None_iff block_write_def Let_def)

lemma adHocAvailability_grant:
  assumes "is_uuid (ahi_doctorId i)" "is_uuid (ahi_clinicId i)" "is_date_format (ahi_date i)"
    "ahi_available i"
  shows "adHocAvailability (Some (ahi_clinicId i)) now NoFault i st =
    (Data (succeeded True),
     st\<lparr>adHocTable := insert_on_conflict_do_nothing day_key
        \<lparr>row_clinicId = ahi_clinicId i, row_doctorId = ahi_doctorId i,
         row_date = dayjs_tz_start app_timezone (ahi_date i), row_time = None,
         row_reason = reason_or_null (ahi_reason i), row_createdAt = now, row_updatedAt = now\<rparr>
        (adHocTable st)\<rparr>,
     revalidated_paths)"
proof -
  have "ahi_clinicId i \<noteq> []" using assms(2) by (auto simp: is_uuid_def)
  then show ?thesis
    using assms by (simp add: adHocAvailability_def toggle_override_def authorize_def Let_def)
qed

lemmas blockDate_branches =
  blockDate_invalid blockDate_denied blockDate_write_fault blockDate_no_fault
  blockDate_revalidate_fault

lemma blockDate_cases:
  obtains (invalid) "\<not> valid_block_date_input i"
  | (denied) m where "valid_block_date_input i" "authorize session (bdi_clinicId i) = Some m"
  | (write_fault) e where "valid_block_date_input i" "authorize session (bdi_clinicId i) = None"
      "flt = WriteFault e"
  | (no_fault) "valid_block_date_input i" "authorize session (bdi_clinicId i) = None" "flt = NoFault"
  | (reval_fault) c e where "valid_block_date_input i" "authorize session (bdi_clinicId i) = None"
      "flt = RevalidateFault c e"
  by (cases flt; cases "authorize session (bdi_clinicId i)") auto

lemma block_write_idem:
  "block_write now' i (block_write now i st) = block_write now i st"
proof -
  have key: "day_key (block_row now' i t) = day_key (block_row now i t)" for t
    by (simp add: day_key_def block_row_def)
  show ?thesis
    by (simp add: block_write_def Let_def insert_on_conflict_do_nothing_def key delete_idem)
qed

lemma block_write_inv:
  "store_inv st \<Longrightarrow> store_inv (block_write now i st)"
  by (simp add: block_write_def Let_def store_inv_def unique_on_insert unique_on_delete)

lemma valid_clinic_nonempty:
  "valid_block_date_input i \<Longrightarrow> bdi_clinicId i \<noteq> []"
  by (auto simp: valid_block_date_input_def is_uuid_def)

lemma authorize_own_clinic:
  "valid_block_date_input i \<Longrightarrow> authorize (Some (bdi_clinicId i)) (bdi_clinicId i) = None"
  by (simp add: authorize_None_iff valid_clinic_nonempty)

lemma valid_block_flag [simp]:
  "valid_block_date_input (i\<lparr>bdi_block := b\<rparr>) = valid_block_date_input i"
  by (simp add: valid_block_date_input_def)

lemma block_write_on:
  "bdi_block i \<Longrightarrow> blockedDatesTable (block_write now i st) =
     insert_on_conflict_do_nothing day_key
       (block_row now i (dayjs_tz_start app_timezone (bdi_date i))) (blockedDatesTable st)"
  by (simp add: block_write_def)

lemma block_write_off:
  "\<not> bdi_block i \<Longrightarrow> blockedDatesTable (block_write now i st) =
     delete_where (matches_day (bdi_clinicId i) (bdi_doctorId i) (dayjs_tz_start app_timezone (bdi_date i)))
       (blockedDatesTable st)"
  by (simp add: block_write_def)

lemma block_write_other [simp]:
  "adHocTable (block_write now i st) = adHocTable st"
  "timeSlotsTable (block_write now i st) = timeSlotsTable st"
  by (simp_all add: block_write_def Let_def)

lemma day_key_block_row [simp]:
  "day_key (block_row now i t) = (bdi_doctorId i, t)"
  by (simp add: day_key_def block_row_def)

lemma matches_day_key:
  "matches_day c d t r \<Longrightarrow> day_key r = (d, t)"
  by (simp add: matches_day_def day_key_def)

section \<open>Properties of blockDate\<close>

text \<open>
  C2. Authorization: when the caller's session clinic is missing or differs from the
  input's clinic, a well-formed request fails with one of the two authorization messages,
  the store is left exactly as it was and no cache is revalidated.
\<close>

theorem blockDate_unauthorized_no_effect:
  assumes "valid_block_date_input i" "session \<noteq> Some (bdi_clinicId i)"
  shows "\<exists>m \<in> {Msg_NoClinic, Msg_ClinicMismatch}.
           blockDate session now flt i st = (Data (failed m (bdi_block i)), st, [])"
proof -
  from assms(2) obtain m where m: "authorize session (bdi_clinicId i) = Some m"
    by (cases "authorize session (bdi_clinicId i)") (auto simp: authorize_None_iff)
  then have "m \<in> {Msg_NoClinic, Msg_ClinicMismatch}"
    using authorize_Some_cases by blast
  with blockDate_denied [OF assms(1) m] show ?thesis by blast
qed

text \<open>
  C3. Refinement: on a well-formed request, \<open>blockDate\<close> is the specification's toggle
  contract on the full-day-block table, keyed by (doctor, date), deleting by
  (clinic, doctor, date), with the date normalised to the start of its day in the
  operating zone.
\<close>

theorem blockDate_implements_toggle:
  assumes "valid_block_date_input i"
  shows "blockDate session now flt i st =
    (case toggle_override blockedDatesTable_update day_key
            (block_row now i (dayjs_tz_start app_timezone (bdi_date i)))
            (matches_day (bdi_clinicId i) (bdi_doctorId i) (dayjs_tz_start app_timezone (bdi_date i)))
            (bdi_block i) (bdi_clinicId i) session flt st
     of (r, st', ps) \<Rightarrow> (Data r, st', ps))"
  by (rule blockDate_cases [where i = i and session = session and flt = flt])
     (auto simp: assms blockDate_branches toggle_override_def block_write_def Let_def)

text \<open>
  C4. Idempotence: issuing the same request a second time, at any later clock time,
  leaves the store as the first request left it, whatever the session and faults.
\<close>

theorem blockDate_idempotent:
  "fst (snd (blockDate session now' flt i (fst (snd (blockDate session now flt i st)))))
   = fst (snd (blockDate session now flt i st))"
  by (rule blockDate_cases [where i = i and session = session and flt = flt]) (simp_all add: blockDate_branches block_write_idem)

text \<open>
  C5. Toggling a full-day block on twice for the same doctor and date: both calls report
  success, the second changes nothing, and exactly one row holds that (doctor, date).
\<close>

theorem blockDate_block_twice_one_row:
  assumes "valid_block_date_input i" "bdi_block i" "unique_on day_key (blockedDatesTable st)"
    and "blockDate (Some (bdi_clinicId i)) now NoFault i st = (r1, st1, ps1)"
    and "blockDate (Some (bdi_clinicId i)) now' NoFault i st1 = (r2, st2, ps2)"
  shows "r1 = Data (succeeded True) \<and> r2 = Data (succeeded True) \<and> st2 = st1 \<and>
         length (filter (\<lambda>r. day_key r = (bdi_doctorId i, dayjs_tz_start app_timezone (bdi_date i)))
                   (blockedDatesTable st2)) = 1"
proof -
  let ?t = "dayjs_tz_start app_timezone (bdi_date i)"
  have auth: "authorize (Some (bdi_clinicId i)) (bdi_clinicId i) = None"
    using assms(1) by (rule authorize_own_clinic)
  have st1: "st1 = block_write now i st" and r1: "r1 = Data (succeeded True)"
    using assms(4) blockDate_no_fault [OF assms(1) auth] assms(2) by auto
  have st2: "st2 = st1" and r2: "r2 = Data (succeeded True)"
    using assms(5) blockDate_no_fault [OF assms(1) auth] assms(2) st1 block_write_idem
    by auto
  have u: "unique_on day_key (blockedDatesTable st1)"
    using assms(2,3) st1 by (simp add: block_write_on unique_on_insert)
  have "(bdi_doctorId i, ?t) \<in> day_key ` set (blockedDatesTable st1)"
    using assms(2) st1 insert_key_present [of day_key "block_row now i ?t"]
    by (simp add: block_write_on)
  with u have "length (filter (\<lambda>r. day_key r = (bdi_doctorId i, ?t)) (blockedDatesTable st1)) = 1"
    by (rule count_key_unique)
  with r1 r2 st2 show ?thesis by simp
qed

text \<open>
  C6. Toggling a full-day block off when no matching row exists succeeds and removes
  nothing: the store is unchanged.
\<close>

theorem blockDate_unblock_absent_noop:
  assumes "valid_block_date_input i" "\<not> bdi_block i"
    and "\<not> list_ex (matches_day (bdi_clinicId i) (bdi_doctorId i)
                      (dayjs_tz_start app_timezone (bdi_date i))) (blockedDatesTable st)"
  shows "blockDate (Some (bdi_clinicId i)) now NoFault i st
         = (Data (succeeded False), st, revalidated_paths)"
proof -
  have auth: "authorize (Some (bdi_clinicId i)) (bdi_clinicId i) = None"
    using assms(1) by (rule authorize_own_clinic)
  have "block_write now i st = st"
    using assms(2,3) by (simp add: block_write_off delete_noop block_write_def)
  with blockDate_no_fault [OF assms(1) auth] assms(2) show ?thesis by simp
qed

text \<open>
  C7. Round trip: blocking a day that has no row for its (doctor, date) and then
  unblocking it restores the store exactly.
\<close>

theorem blockDate_block_unblock_roundtrip:
  assumes "valid_block_date_input i" "bdi_block i"
    and "(bdi_doctorId i, dayjs_tz_start app_timezone (bdi_date i)) \<notin> day_key ` set (blockedDatesTable st)"
  shows "fst (snd (blockDate (Some (bdi_clinicId i)) now' NoFault (i\<lparr>bdi_block := False\<rparr>)
                     (fst (snd (blockDate (Some (bdi_clinicId i)) now NoFault i st))))) = st"
proof -
  let ?t = "dayjs_tz_start app_timezone (bdi_date i)"
  let ?P = "matches_day (bdi_clinicId i) (bdi_doctorId i) ?t"
  have auth: "authorize (Some (bdi_clinicId i)) (bdi_clinicId i) = None"
    using assms(1) by (rule authorize_own_clinic)
  have valid': "valid_block_date_input (i\<lparr>bdi_block := False\<rparr>)"
    using assms(1) by simp
  have on: "blockedDatesTable (block_write now i st) = blockedDatesTable st @ [block_row now i ?t]"
    using assms(2,3) by (simp add: block_write_on insert_fresh)
  have none: "\<not> list_ex ?P (blockedDatesTable st)"
    using assms(3) by (auto simp: list_ex_iff dest!: matches_day_key) (metis image_eqI)
  have hit: "?P (block_row now i ?t)"
    by (simp add: matches_day_def block_row_def)
  have "delete_where ?P (blockedDatesTable st @ [block_row now i ?t]) = blockedDatesTable st"
    using none hit by (simp add: delete_where_def filter_all_True list_ex_iff)
  then have "block_write now' (i\<lparr>bdi_block := False\<rparr>) (block_write now i st) = st"
    using on by (simp add: block_write_def Let_def)
  with assms(2) show ?thesis
    by (simp add: blockDate_no_fault [OF assms(1) auth]
                  blockDate_no_fault [OF valid', of "Some (bdi_clinicId i)"] auth)
qed

text \<open>
  C8. Invariant: every run of \<open>blockDate\<close> keeps each override table free of two rows
  with the same conflict key.
\<close>

theorem blockDate_preserves_store_inv:
  "store_inv st \<Longrightarrow> store_inv (fst (snd (blockDate session now flt i st)))"
  by (rule blockDate_cases [where i = i and session = session and flt = flt]) (simp_all add: blockDate_branches block_write_inv)

text \<open>
  C14. A failure after the write: when a \<open>revalidatePath\<close> call throws, the request
  reports failure although the new block row has already been stored, and the paths of
  the calls before it have been revalidated.
\<close>

theorem blockDate_failure_after_write:
  assumes "valid_block_date_input i" "bdi_block i"
    and "(bdi_doctorId i, dayjs_tz_start app_timezone (bdi_date i)) \<notin> day_key ` set (blockedDatesTable st)"
  shows "blockDate (Some (bdi_clinicId i)) now (RevalidateFault c e) i st =
           (Data (failed (exn_message e) True),
            st\<lparr>blockedDatesTable := blockedDatesTable st @
                 [block_row now i (dayjs_tz_start app_timezone (bdi_date i))]\<rparr>, paths_before c)"
proof -
  have auth: "authorize (Some (bdi_clinicId i)) (bdi_clinicId i) = None"
    using assms(1) by (rule authorize_own_clinic)
  show ?thesis
    using blockDate_revalidate_fault [OF assms(1) auth] assms(2,3)
    by (simp add: block_write_def insert_fresh)
qed

text \<open>
  C15. The conflict target ignores the clinic: when another clinic already holds a block
  row for the same doctor and date, blocking the day reports success but stores nothing,
  and the tenant's own list of blocked dates does not contain the day.
\<close>

theorem blockDate_conflict_other_clinic:
  assumes "valid_block_date_input i" "bdi_block i" "unique_on day_key (blockedDatesTable st)"
    and "r0 \<in> set (blockedDatesTable st)"
    and "day_key r0 = (bdi_doctorId i, dayjs_tz_start app_timezone (bdi_date i))"
    and "row_clinicId r0 \<noteq> bdi_clinicId i"
  shows "blockDate (Some (bdi_clinicId i)) now NoFault i st = (Data (succeeded True), st, revalidated_paths)
         \<and> dayjs_tz_start app_timezone (bdi_date i)
             \<notin> set (list_dates (blockedDatesTable st) (bdi_doctorId i) (bdi_clinicId i))"
proof -
  let ?t = "dayjs_tz_start app_timezone (bdi_date i)"
  have auth: "authorize (Some (bdi_clinicId i)) (bdi_clinicId i) = None"
    using assms(1) by (rule authorize_own_clinic)
  have present: "(bdi_doctorId i, ?t) \<in> set (map day_key (blockedDatesTable st))"
    using assms(4,5) by force
  have "block_write now i st = st"
    using assms(2) present by (simp add: block_write_def insert_on_conflict_do_nothing_def)
  then have run: "blockDate (Some (bdi_clinicId i)) now NoFault i st
                  = (Data (succeeded True), st, revalidated_paths)"
    using blockDate_no_fault [OF assms(1) auth] assms(2) by simp
  have "\<not> (r \<in> set (blockedDatesTable st) \<and> owned_by (bdi_doctorId i) (bdi_clinicId i) r \<and> row_date r = ?t)"
    for r
  proof
    assume r: "r \<in> set (blockedDatesTable st) \<and> owned_by (bdi_doctorId i) (bdi_clinicId i) r \<and> row_date r = ?t"
    then have "day_key r = day_key r0" using assms(5) by (simp add: owned_by_def day_key_def)
    with r assms(3,4) have "r = r0" by (auto simp: unique_on_def inj_on_eq_iff dest: distinct_map [THEN iffD1])
    with r assms(6) show False by (simp add: owned_by_def)
  qed
  moreover have "\<exists>r. r \<in> set (blockedDatesTable st) \<and> owned_by (bdi_doctorId i) (bdi_clinicId i) r
                    \<and> row_date r = ?t"
    if "?t \<in> set (list_dates (blockedDatesTable st) (bdi_doctorId i) (bdi_clinicId i))"
    using that by (auto simp: list_dates_def)
  ultimately have "?t \<notin> set (list_dates (blockedDatesTable st) (bdi_doctorId i) (bdi_clinicId i))"
    by blast
  with run show ?thesis by simp
qed

end
