(* ===== verification/Modal.thy ===== *)
theory Modal
  imports Resolver Actions
begin

text \<open>
  The state reconciliation engine: the calendar modal
  (\<open>doctor-block-calendar-modal.tsx\<close>) as a deterministic machine. Its React state is the
  record \<open>modal_state\<close> (the seven \<open>useState\<close> hooks); the server store, the open
  flag and the requests in flight complete the system state \<open>sys\<close>. An event is a user
  action (open, close, pick a date, type a reason, click a button), or a step of one
  in-flight request: the server handles it (\<open>Serve k\<close>, or \<open>ServeFault k flt\<close> when
  the action's \<open>try\<close> block throws at \<open>flt\<close>), its response reaches the component
  (\<open>Deliver k\<close>), or the call fails in transport (\<open>Fail k\<close>). The environment picks
  which request, so every interleaving of responses is a sequence of events. Each handler and callback is
  one definition with the source's guards; the two \<open>useEffect\<close>s run after the state
  changes they depend on, as React runs them after the render.
\<close>

section \<open>State\<close>

record admin_time_slot =
  time :: string
  isBlocked :: bool

record modal_state =
  selectedDate :: "instant option"
  blockedDates :: "instant list"
  adHocAvailableDates :: "instant list"
  blockedTimeSlots :: "string set"
  reason :: string
  currentDaySlots :: "admin_time_slot list"
  refreshKey :: nat

definition initial_modal_state :: modal_state where
  "initial_modal_state =
     \<lparr>selectedDate = None, blockedDates = [], adHocAvailableDates = [], blockedTimeSlots = {},
      reason = [], currentDaySlots = [], refreshKey = 0\<rparr>"

text \<open>
  What the component closes over: the browser's zone, the \<open>doctor\<close> prop, the
  administrator's session clinic (used by the server actions) and the server clock.
\<close>

record modal_env =
  browser_off :: tz_offset
  doc :: doctor
  session_clinic :: "uuid option"
  env_now :: instant

text \<open>
  Work the component has started and not yet seen complete: the two \<open>fetch\<close>es (the
  slot fetch carries its date and the ticks computed before the \<open>await\<close>), the three
  action calls, and the 50 ms \<open>setTimeout\<close> (carrying whether a date was selected).
  A request is first served (the server reads or writes the store and the response is
  fixed) and later delivered to the component; a \<open>Resp\<close> constructor is a served
  request whose response is on its way.
\<close>

datatype request =
  ReqDates
| RespDates "instant list" "instant list"
| ReqSlots instant "string list"
| RespSlots instant "string list" "string list"
| ReqBlockDate block_date_input
| ReqAdHoc ad_hoc_input
| RespDayAction "toggle_result safe_result"
| ReqSlotToggle slot_input
| RespSlotAction slot_input "toggle_result safe_result"
| ReqRefresh bool

record sys =
  db :: store
  ui :: modal_state
  inflight :: "request list"
  isOpen :: bool

datatype ui_event =
  Open
| Close
| PickDate "instant option"
| TypeReason string
| ClickBlockDay
| ClickAdHoc
| ClickSlot string
| Serve nat
| ServeFault nat fault
| Deliver nat
| Fail nat

section \<open>Derived predicates (lines 71--119, 408--412)\<close>

definition isDateBlocked :: "modal_state \<Rightarrow> instant \<Rightarrow> bool" where
  "isDateBlocked ms date =
     list_ex (\<lambda>b. is_same_day app_timezone (start_of_day app_timezone b)
                   (start_of_day app_timezone date)) (blockedDates ms)"

definition isDateAdHocAvailable :: "modal_state \<Rightarrow> instant \<Rightarrow> bool" where
  "isDateAdHocAvailable ms date =
     list_ex (\<lambda>a. is_same_day app_timezone (start_of_day app_timezone a)
                   (start_of_day app_timezone date)) (adHocAvailableDates ms)"

definition isDefaultUnavailable :: "modal_env \<Rightarrow> modal_state \<Rightarrow> instant \<Rightarrow> bool" where
  "isDefaultUnavailable env ms date \<longleftrightarrow>
     \<not> isDateWithinDoctorAvailability (browser_off env) (doc env) date \<and>
     \<not> isDateAdHocAvailable ms date"

definition isSelectedDayManagable :: "modal_env \<Rightarrow> modal_state \<Rightarrow> bool" where
  "isSelectedDayManagable env ms =
     (case selectedDate ms of
        None \<Rightarrow> False
      | Some d \<Rightarrow> (isDateWithinDoctorAvailability (browser_off env) (doc env) d \<or>
                   isDateAdHocAvailable ms d) \<and> \<not> isDateBlocked ms d)"

section \<open>Effects and fetches\<close>

definition set_ui :: "(modal_state \<Rightarrow> modal_state) \<Rightarrow> sys \<Rightarrow> sys" where
  "set_ui f s = s\<lparr>ui := f (ui s)\<rparr>"

definition start :: "request \<Rightarrow> sys \<Rightarrow> sys" where
  "start r s = s\<lparr>inflight := inflight s @ [r]\<rparr>"

definition doctor_missing :: "modal_env \<Rightarrow> bool" where
  "doctor_missing env \<longleftrightarrow> doctor_id (doc env) = [] \<or> doctor_clinicId (doc env) = []"

definition clear_slots :: "modal_state \<Rightarrow> modal_state" where
  "clear_slots ms = ms\<lparr>currentDaySlots := [], blockedTimeSlots := {}\<rparr>"

text \<open>\<open>fetchBlockedTimeSlotsForSelectedDate\<close> up to its \<open>await\<close> (lines 266--293).\<close>

definition fetchBlockedTimeSlotsForSelectedDate :: "modal_env \<Rightarrow> instant \<Rightarrow> sys \<Rightarrow> sys" where
  "fetchBlockedTimeSlotsForSelectedDate env date s =
     (if doctor_missing env then set_ui clear_slots s
      else start (ReqSlots date (allPossibleSlotsForDay (browser_off env) (doc env) date)) s)"

text \<open>The effect of lines 337--354, run when \<open>selectedDate\<close>, \<open>blockedDates\<close> or \<open>refreshKey\<close> changed.\<close>

definition slots_effect :: "modal_env \<Rightarrow> sys \<Rightarrow> sys" where
  "slots_effect env s =
     (case selectedDate (ui s) of
        Some d \<Rightarrow> if isDateBlocked (ui s) d then set_ui clear_slots s
                  else fetchBlockedTimeSlotsForSelectedDate env d s
      | None \<Rightarrow> set_ui clear_slots s)"

text \<open>Setting the two date lists renders anew, which reruns the slot effect.\<close>

definition set_dates :: "modal_env \<Rightarrow> instant list \<Rightarrow> instant list \<Rightarrow> sys \<Rightarrow> sys" where
  "set_dates env bs as s =
     slots_effect env (set_ui (\<lambda>ms. ms\<lparr>blockedDates := bs, adHocAvailableDates := as\<rparr>) s)"

text \<open>\<open>fetchBlockedAndAdHocDates\<close> up to its \<open>await\<close> (lines 236--246).\<close>

definition fetchBlockedAndAdHocDates :: "modal_env \<Rightarrow> sys \<Rightarrow> sys" where
  "fetchBlockedAndAdHocDates env s =
     (if doctor_missing env then set_dates env [] [] s else start ReqDates s)"

text \<open>The effect of lines 325--334, run when \<open>isOpen\<close> changed.\<close>

definition open_effect :: "modal_env \<Rightarrow> sys \<Rightarrow> sys" where
  "open_effect env s =
     (if isOpen s then fetchBlockedAndAdHocDates env s
      else
        (let s' = set_ui (\<lambda>ms. clear_slots (ms\<lparr>selectedDate := None, reason := []\<rparr>)) s
         in if selectedDate (ui s) = None then s' else slots_effect env s'))"

section \<open>Handlers (lines 356--405)\<close>

definition handleDatesChange :: "modal_env \<Rightarrow> instant option \<Rightarrow> sys \<Rightarrow> sys" where
  "handleDatesChange env date s =
     (let s' = set_ui (\<lambda>ms. ms\<lparr>selectedDate := date, reason := []\<rparr>) s
      in if date = None \<and> selectedDate (ui s) = None then s' else slots_effect env s')"

definition handleBlockToggle :: "modal_env \<Rightarrow> sys \<Rightarrow> sys" where
  "handleBlockToggle env s =
     (case selectedDate (ui s) of
        None \<Rightarrow> s
      | Some d \<Rightarrow> start (ReqBlockDate
          \<lparr>bdi_doctorId = doctor_id (doc env), bdi_clinicId = doctor_clinicId (doc env),
           bdi_date = format_date (browser_off env) d, bdi_block = \<not> isDateBlocked (ui s) d,
           bdi_reason = Some (reason (ui s))\<rparr>) s)"

definition handleAdHocToggle :: "modal_env \<Rightarrow> sys \<Rightarrow> sys" where
  "handleAdHocToggle env s =
     (case selectedDate (ui s) of
        None \<Rightarrow> s
      | Some d \<Rightarrow> start (ReqAdHoc
          \<lparr>ahi_doctorId = doctor_id (doc env), ahi_clinicId = doctor_clinicId (doc env),
           ahi_date = format_date (browser_off env) d,
           ahi_available = \<not> isDateAdHocAvailable (ui s) d,
           ahi_reason = Some (reason (ui s))\<rparr>) s)"

definition handleTimeSlotToggle :: "modal_env \<Rightarrow> string \<Rightarrow> sys \<Rightarrow> sys" where
  "handleTimeSlotToggle env t s =
     (case selectedDate (ui s) of
        None \<Rightarrow> s
      | Some d \<Rightarrow> start (ReqSlotToggle
          \<lparr>tsi_doctorId = doctor_id (doc env), tsi_clinicId = doctor_clinicId (doc env),
           tsi_date = format_date (browser_off env) d, tsi_time = t,
           tsi_block = t \<notin> blockedTimeSlots (ui s), tsi_reason = Some (reason (ui s))\<rparr>) s)"

section \<open>Responses and callbacks\<close>

definition is_action :: "request \<Rightarrow> bool" where
  "is_action r = (case r of ReqBlockDate _ \<Rightarrow> True | ReqAdHoc _ \<Rightarrow> True
                  | RespDayAction _ \<Rightarrow> True | ReqSlotToggle _ \<Rightarrow> True
                  | RespSlotAction _ _ \<Rightarrow> True | _ \<Rightarrow> False)"

text \<open>\<open>blockDateAction.isPending || adHocAvailabilityAction.isPending || blockTimeSlotAction.isPending\<close>.\<close>

definition action_pending :: "sys \<Rightarrow> bool" where
  "action_pending s = list_ex is_action (inflight s)"

definition succeeded_result :: "toggle_result safe_result \<Rightarrow> bool" where
  "succeeded_result r = (case r of Data t \<Rightarrow> success t | ValidationErrors \<Rightarrow> False)"

definition result_flag :: "toggle_result safe_result \<Rightarrow> bool" where
  "result_flag r = (case r of Data t \<Rightarrow> flag t | ValidationErrors \<Rightarrow> False)"

text \<open>
  The \<open>onSuccess\<close> of \<open>blockDateAction\<close> and \<open>adHocAvailabilityAction\<close>
  (lines 122--134, 149--163): on success, refetch the day lists and clear the reason.
\<close>

definition on_day_action_success :: "modal_env \<Rightarrow> toggle_result safe_result \<Rightarrow> sys \<Rightarrow> sys" where
  "on_day_action_success env r s =
     (if succeeded_result r
      then fetchBlockedAndAdHocDates env (set_ui (\<lambda>ms. ms\<lparr>reason := []\<rparr>) s)
      else s)"

text \<open>
  The optimistic update of \<open>blockTimeSlotAction\<close>'s \<open>onSuccess\<close> (lines 187--209):
  the toggled slot takes the result's flag and the blocked set gains or loses its time.
\<close>

definition optimistic_update :: "string \<Rightarrow> bool \<Rightarrow> modal_state \<Rightarrow> modal_state" where
  "optimistic_update t b ms =
     ms\<lparr>currentDaySlots := map (\<lambda>slot. if time slot = t then slot\<lparr>isBlocked := b\<rparr> else slot)
                              (currentDaySlots ms),
        blockedTimeSlots := (if t \<noteq> [] then (if b then insert t (blockedTimeSlots ms)
                                              else blockedTimeSlots ms - {t})
                             else blockedTimeSlots ms)\<rparr>"

text \<open>Lines 178--218: the optimistic update, then the delayed refetch is scheduled.\<close>

definition on_slot_action_success :: "slot_input \<Rightarrow> toggle_result safe_result \<Rightarrow> sys \<Rightarrow> sys" where
  "on_slot_action_success i r s =
     (if succeeded_result r
      then start (ReqRefresh (selectedDate (ui s) \<noteq> None))
             (set_ui (optimistic_update (tsi_time i) (result_flag r)) s)
      else s)"

text \<open>
  The routes behind the two fetches (not among the sources): tenant-scoped reads of the
  store, the dates sent as \<open>YYYY-MM-DD\<close> in the operating zone and read back with
  \<open>dayjs.tz(item, APP_TIMEZONE)\<close>; the slot route reads the date it is given the same way.
\<close>

definition dates_response :: "modal_env \<Rightarrow> table \<Rightarrow> instant list" where
  "dates_response env tbl =
     map (\<lambda>d. dayjs_tz_start app_timezone (format_date app_timezone d))
         (list_dates tbl (doctor_id (doc env)) (doctor_clinicId (doc env)))"

definition times_response :: "modal_env \<Rightarrow> store \<Rightarrow> instant \<Rightarrow> string list" where
  "times_response env st date =
     list_times_for_date (timeSlotsTable st) (doctor_id (doc env)) (doctor_clinicId (doc env))
       (dayjs_tz_start app_timezone (format_date (browser_off env) date))"

text \<open>Lines 301--310: the blocked set and the slot view from one response.\<close>

definition apply_slots_response :: "string list \<Rightarrow> string list \<Rightarrow> modal_state \<Rightarrow> modal_state" where
  "apply_slots_response slots blockedTimes ms =
     ms\<lparr>blockedTimeSlots := set blockedTimes,
        currentDaySlots := map (\<lambda>t. \<lparr>time = t, isBlocked = t \<in> set blockedTimes\<rparr>) slots\<rparr>"

text \<open>The server's side of a request: the route's read, or the action's run on the store.\<close>

definition serve :: "modal_env \<Rightarrow> fault \<Rightarrow> request \<Rightarrow> store \<Rightarrow> request \<times> store" where
  "serve env flt r st =
     (case r of
        ReqDates \<Rightarrow>
          (RespDates (dates_response env (blockedDatesTable st)) (dates_response env (adHocTable st)), st)
      | ReqSlots d slots \<Rightarrow> (RespSlots d slots (times_response env st d), st)
      | ReqBlockDate i \<Rightarrow>
          (case blockDate (session_clinic env) (env_now env) flt i st of
             (res, st', _) \<Rightarrow> (RespDayAction res, st'))
      | ReqAdHoc i \<Rightarrow>
          (case adHocAvailability (session_clinic env) (env_now env) flt i st of
             (res, st', _) \<Rightarrow> (RespDayAction res, st'))
      | ReqSlotToggle i \<Rightarrow>
          (case blockTimeSlot (session_clinic env) (env_now env) flt i st of
             (res, st', _) \<Rightarrow> (RespSlotAction i res, st'))
      | _ \<Rightarrow> (r, st))"

definition needs_serving :: "request \<Rightarrow> bool" where
  "needs_serving r = (case r of ReqDates \<Rightarrow> True | ReqSlots _ _ \<Rightarrow> True | ReqBlockDate _ \<Rightarrow> True
                      | ReqAdHoc _ \<Rightarrow> True | ReqSlotToggle _ \<Rightarrow> True | _ \<Rightarrow> False)"

text \<open>The component's side: the code after each \<open>await\<close>, and the timer's callback.\<close>

definition deliver :: "modal_env \<Rightarrow> request \<Rightarrow> sys \<Rightarrow> sys" where
  "deliver env r s =
     (case r of
        RespDates bs as \<Rightarrow> set_dates env bs as s
      | RespSlots d slots bts \<Rightarrow> set_ui (apply_slots_response slots bts) s
      | RespDayAction res \<Rightarrow> on_day_action_success env res s
      | RespSlotAction i res \<Rightarrow> on_slot_action_success i res s
      | ReqRefresh b \<Rightarrow>
          (if b then slots_effect env (set_ui (\<lambda>ms. ms\<lparr>refreshKey := Suc (refreshKey ms)\<rparr>) s)
           else s)
      | _ \<Rightarrow> s)"

text \<open>
  A failed request: a fetch whose response is not ok (the slot fetch's \<open>catch\<close> clears
  the slot view, line 314), or an action whose call fails in transport, before or after the
  server ran it (\<open>onError\<close>: a toast, nothing else). A timer does not fail.
\<close>

definition fail_req :: "request \<Rightarrow> sys \<Rightarrow> sys" where
  "fail_req r s =
     (case r of
        ReqSlots _ _ \<Rightarrow> set_ui (\<lambda>ms. ms\<lparr>currentDaySlots := []\<rparr>) s
      | RespSlots _ _ _ \<Rightarrow> set_ui (\<lambda>ms. ms\<lparr>currentDaySlots := []\<rparr>) s
      | _ \<Rightarrow> s)"

definition is_timer :: "request \<Rightarrow> bool" where
  "is_timer r = (case r of ReqRefresh _ \<Rightarrow> True | _ \<Rightarrow> False)"

definition remove_nth :: "nat \<Rightarrow> 'a list \<Rightarrow> 'a list" where
  "remove_nth k xs = take k xs @ drop (Suc k) xs"

section \<open>The step function\<close>

text \<open>
  User events are ignored where the rendered control is absent or disabled: the day
  buttons and the reason input exist only with a selected date and are disabled while an
  action is pending; a slot button exists for each slot of the view and is disabled unless
  the selected day is manageable.
\<close>

fun modal_step :: "modal_env \<Rightarrow> sys \<Rightarrow> ui_event \<Rightarrow> sys" where
  "modal_step env s Open = (if isOpen s then s else open_effect env (s\<lparr>isOpen := True\<rparr>))"
| "modal_step env s Close = (if isOpen s then open_effect env (s\<lparr>isOpen := False\<rparr>) else s)"
| "modal_step env s (PickDate d) =
     (if isOpen s \<and> (case d of None \<Rightarrow> True | Some x \<Rightarrow> \<not> x < env_now env)
      then handleDatesChange env d s else s)"
| "modal_step env s (TypeReason r) =
     (if isOpen s \<and> selectedDate (ui s) \<noteq> None \<and> \<not> action_pending s
      then set_ui (\<lambda>ms. ms\<lparr>reason := r\<rparr>) s else s)"
| "modal_step env s ClickBlockDay =
     (if isOpen s \<and> selectedDate (ui s) \<noteq> None \<and> \<not> action_pending s
      then handleBlockToggle env s else s)"
| "modal_step env s ClickAdHoc =
     (if isOpen s \<and> selectedDate (ui s) \<noteq> None \<and> \<not> action_pending s
      then handleAdHocToggle env s else s)"
| "modal_step env s (ClickSlot t) =
     (if isOpen s \<and> t \<in> time ` set (currentDaySlots (ui s)) \<and>
         isSelectedDayManagable env (ui s) \<and> \<not> action_pending s
      then handleTimeSlotToggle env t s else s)"
| "modal_step env s (Serve k) =
     (if k < length (inflight s) \<and> needs_serving (inflight s ! k)
      then (case serve env NoFault (inflight s ! k) (db s) of
              (r, st) \<Rightarrow> s\<lparr>db := st, inflight := (inflight s)[k := r]\<rparr>)
      else s)"
| "modal_step env s (ServeFault k flt) =
     (if k < length (inflight s) \<and> needs_serving (inflight s ! k)
      then (case serve env flt (inflight s ! k) (db s) of
              (r, st) \<Rightarrow> s\<lparr>db := st, inflight := (inflight s)[k := r]\<rparr>)
      else s)"
| "modal_step env s (Deliver k) =
     (if k < length (inflight s) \<and> \<not> needs_serving (inflight s ! k)
      then deliver env (inflight s ! k) (s\<lparr>inflight := remove_nth k (inflight s)\<rparr>) else s)"
| "modal_step env s (Fail k) =
     (if k < length (inflight s) \<and> \<not> is_timer (inflight s ! k)
      then fail_req (inflight s ! k) (s\<lparr>inflight := remove_nth k (inflight s)\<rparr>) else s)"

fun modal_run :: "modal_env \<Rightarrow> sys \<Rightarrow> ui_event list \<Rightarrow> sys" where
  "modal_run env s [] = s"
| "modal_run env s (e # es) = modal_run env (modal_step env s e) es"

definition initial_sys :: "store \<Rightarrow> sys" where
  "initial_sys st = \<lparr>db = st, ui = initial_modal_state, inflight = [], isOpen = False\<rparr>"

section \<open>The specification's day view\<close>

text \<open>
  \<open>computeDaySlots\<close> (specification, section 4.3): no slot on a day blocked as a whole;
  otherwise the day's ticks, each marked by membership in the store's slot blocks for
  that day. The engine's displayed view is compared against it.
\<close>

definition computeDaySlots :: "modal_env \<Rightarrow> modal_state \<Rightarrow> store \<Rightarrow> instant \<Rightarrow> admin_time_slot list" where
  "computeDaySlots env ms st d =
     (if isDateBlocked ms d then []
      else map (\<lambda>t. \<lparr>time = t, isBlocked = t \<in> set (times_response env st d)\<rparr>)
               (allPossibleSlotsForDay (browser_off env) (doc env) d))"

section \<open>The slot-view invariant\<close>

text \<open>
  The slot view agrees with the blocked set: a displayed slot is marked blocked exactly
  when its time is in \<open>blockedTimeSlots\<close>. Slot labels and the times of in-flight slot
  toggles are never empty (the optimistic update skips an empty time).
\<close>

definition view_consistent :: "modal_state \<Rightarrow> bool" where
  "view_consistent ms \<longleftrightarrow>
     list_all (\<lambda>slot. isBlocked slot = (time slot \<in> blockedTimeSlots ms)) (currentDaySlots ms)"

text \<open>
  The invariant is stated for a set \<open>L\<close> of admissible slot labels: the labels on
  screen, in the slot fetches in flight and in the slot toggles in flight are in \<open>L\<close>.
  \<open>L\<close> is admissible for an environment when it holds every tick the component can
  compute and not the empty string (the optimistic update ignores an empty time).
\<close>

definition req_ok :: "string set \<Rightarrow> request \<Rightarrow> bool" where
  "req_ok L r = (case r of ReqSlots _ ts \<Rightarrow> set ts \<subseteq> L
               | RespSlots _ ts _ \<Rightarrow> set ts \<subseteq> L
               | ReqSlotToggle i \<Rightarrow> tsi_time i \<in> L
               | RespSlotAction i _ \<Rightarrow> tsi_time i \<in> L | _ \<Rightarrow> True)"

definition sys_inv :: "string set \<Rightarrow> sys \<Rightarrow> bool" where
  "sys_inv L s \<longleftrightarrow> view_consistent (ui s) \<and> time ` set (currentDaySlots (ui s)) \<subseteq> L
                   \<and> list_all (req_ok L) (inflight s)"

definition labels_ok :: "modal_env \<Rightarrow> string set \<Rightarrow> bool" where
  "labels_ok env L \<longleftrightarrow>
     [] \<notin> L \<and> (\<forall>d. set (allPossibleSlotsForDay (browser_off env) (doc env) d) \<subseteq> L)"

section \<open>Lemmas on the step function\<close>

lemma slot_loop_labels:
  "t \<in> set (slot_loop off c e acc) \<Longrightarrow> t \<in> set acc \<or> length t = 5"
  by (auto simp: slot_loop_eq format_HHmm_def)

lemma labels_ok_nonempty: "labels_ok env {t. t \<noteq> []}"
  by (auto simp: labels_ok_def allPossibleSlotsForDay_def Let_def dest!: slot_loop_labels)

lemma sys_inv_set_ui_frame:
  assumes "sys_inv L s" "currentDaySlots (f (ui s)) = currentDaySlots (ui s)"
    "blockedTimeSlots (f (ui s)) = blockedTimeSlots (ui s)"
  shows "sys_inv L (set_ui f s)"
  using assms by (simp add: sys_inv_def set_ui_def view_consistent_def)

lemma sys_inv_clear:
  "sys_inv L s \<Longrightarrow> sys_inv L (set_ui (\<lambda>ms. clear_slots (g ms)) s)"
  by (simp add: sys_inv_def set_ui_def clear_slots_def view_consistent_def)

lemma sys_inv_start:
  "sys_inv L s \<Longrightarrow> req_ok L r \<Longrightarrow> sys_inv L (start r s)"
  by (simp add: sys_inv_def start_def)

lemma sys_inv_clear_slots:
  "sys_inv L s \<Longrightarrow> sys_inv L (set_ui clear_slots s)"
  by (simp add: sys_inv_def set_ui_def clear_slots_def view_consistent_def)

lemma sys_inv_fetch_slots:
  "labels_ok env L \<Longrightarrow> sys_inv L s \<Longrightarrow> sys_inv L (fetchBlockedTimeSlotsForSelectedDate env d s)"
  by (simp add: fetchBlockedTimeSlotsForSelectedDate_def sys_inv_clear_slots sys_inv_start
      req_ok_def labels_ok_def)

lemma sys_inv_slots_effect:
  "labels_ok env L \<Longrightarrow> sys_inv L s \<Longrightarrow> sys_inv L (slots_effect env s)"
  by (simp add: slots_effect_def sys_inv_clear_slots sys_inv_fetch_slots split: option.split)

lemma sys_inv_set_dates:
  "labels_ok env L \<Longrightarrow> sys_inv L s \<Longrightarrow> sys_inv L (set_dates env bs as s)"
  by (simp add: set_dates_def sys_inv_slots_effect sys_inv_set_ui_frame)

lemma sys_inv_fetch_dates:
  "labels_ok env L \<Longrightarrow> sys_inv L s \<Longrightarrow> sys_inv L (fetchBlockedAndAdHocDates env s)"
  by (simp add: fetchBlockedAndAdHocDates_def sys_inv_set_dates sys_inv_start req_ok_def)

lemma sys_inv_open_effect:
  "labels_ok env L \<Longrightarrow> sys_inv L s \<Longrightarrow> sys_inv L (open_effect env s)"
  by (simp add: open_effect_def Let_def sys_inv_fetch_dates sys_inv_slots_effect sys_inv_clear)

lemma sys_inv_isOpen:
  "sys_inv L (s\<lparr>isOpen := b\<rparr>) = sys_inv L s"
  by (simp add: sys_inv_def)

lemma sys_inv_handleDatesChange:
  "labels_ok env L \<Longrightarrow> sys_inv L s \<Longrightarrow> sys_inv L (handleDatesChange env d s)"
  by (simp add: handleDatesChange_def Let_def sys_inv_slots_effect sys_inv_set_ui_frame)

lemma optimistic_update_consistent:
  assumes "view_consistent ms" "t \<noteq> []"
  shows "view_consistent (optimistic_update t b ms)"
  using assms by (auto simp: view_consistent_def optimistic_update_def list_all_iff)

lemma apply_slots_response_consistent:
  "view_consistent (apply_slots_response slots bt ms)"
  by (simp add: view_consistent_def apply_slots_response_def list_all_iff)

lemma sys_inv_on_day_action:
  "labels_ok env L \<Longrightarrow> sys_inv L s \<Longrightarrow> sys_inv L (on_day_action_success env r s)"
  by (simp add: on_day_action_success_def sys_inv_fetch_dates sys_inv_set_ui_frame)

lemma list_all_remove_nth:
  "list_all P xs \<Longrightarrow> list_all P (remove_nth k xs)"
  unfolding remove_nth_def list_all_append
  by (simp add: list_all_iff) (meson in_set_dropD in_set_takeD)

lemma optimistic_update_times:
  "time ` set (currentDaySlots (optimistic_update t b ms)) = time ` set (currentDaySlots ms)"
proof -
  have "map time (currentDaySlots (optimistic_update t b ms)) = map time (currentDaySlots ms)"
    by (simp add: optimistic_update_def)
  then show ?thesis by (metis list.set_map)
qed

lemma sys_inv_on_slot_action:
  assumes "sys_inv L s" "tsi_time i \<in> L" "[] \<notin> L"
  shows "sys_inv L (on_slot_action_success i r s)"
proof -
  have "tsi_time i \<noteq> []" using assms(2,3) by auto
  then have "view_consistent (optimistic_update (tsi_time i) (result_flag r) (ui s))"
    using assms(1) by (simp add: sys_inv_def optimistic_update_consistent)
  then have "sys_inv L (set_ui (optimistic_update (tsi_time i) (result_flag r)) s)"
    using assms(1) by (simp add: sys_inv_def set_ui_def optimistic_update_times)
  then show ?thesis
    by (simp add: on_slot_action_success_def assms(1,2) sys_inv_start req_ok_def)
qed

lemma sys_inv_db:
  "sys_inv L (s\<lparr>db := st\<rparr>) = sys_inv L s"
  by (simp add: sys_inv_def)

lemma sys_inv_dequeue:
  "sys_inv L s \<Longrightarrow> sys_inv L (s\<lparr>inflight := remove_nth k (inflight s)\<rparr>)"
  by (simp add: sys_inv_def list_all_remove_nth)

lemma sys_inv_slots_response:
  assumes "sys_inv L s" "set slots \<subseteq> L"
  shows "sys_inv L (set_ui (apply_slots_response slots bt) s)"
  using assms by (simp add: sys_inv_def set_ui_def apply_slots_response_consistent)
     (auto simp: apply_slots_response_def)

lemma sys_inv_deliver:
  assumes "labels_ok env L" "sys_inv L s" "req_ok L r"
  shows "sys_inv L (deliver env r s)"
proof (cases r)
  case (RespDates bs as)
  then show ?thesis using assms by (simp add: deliver_def sys_inv_set_dates)
next
  case (RespSlots d slots bts)
  then show ?thesis
    using assms by (simp add: deliver_def req_ok_def sys_inv_slots_response)
next
  case (RespDayAction res)
  then show ?thesis
    using assms by (simp add: deliver_def sys_inv_on_day_action)
next
  case (RespSlotAction i res)
  then show ?thesis
    using assms by (simp add: deliver_def req_ok_def labels_ok_def sys_inv_on_slot_action)
next
  case (ReqRefresh b)
  then show ?thesis
    using assms by (simp add: deliver_def sys_inv_slots_effect sys_inv_set_ui_frame)
qed (use assms in \<open>simp_all add: deliver_def\<close>)

lemma req_ok_serve:
  "req_ok L r \<Longrightarrow> req_ok L (fst (serve env flt r st))"
  by (cases r) (simp_all add: serve_def req_ok_def split: prod.split)

lemma sys_inv_serve:
  assumes "sys_inv L s" "k < length (inflight s)"
  shows "sys_inv L (s\<lparr>db := snd (serve env flt (inflight s ! k) (db s)),
                   inflight := (inflight s)[k := fst (serve env flt (inflight s ! k) (db s))]\<rparr>)"
proof -
  have "req_ok L (inflight s ! k)" using assms by (simp add: sys_inv_def list_all_iff)
  then have "req_ok L (fst (serve env flt (inflight s ! k) (db s)))" by (rule req_ok_serve)
  then show ?thesis
    using assms by (simp add: sys_inv_def list_all_iff set_update_subset_insert [THEN subsetD])
      (metis in_set_conv_nth length_list_update nth_list_update_eq nth_list_update_neq)
qed

lemma sys_inv_fail:
  "sys_inv L s \<Longrightarrow> sys_inv L (fail_req r s)"
  by (cases r) (simp_all add: fail_req_def sys_inv_def set_ui_def view_consistent_def)

lemma sys_inv_step:
  assumes "labels_ok env L" "sys_inv L s"
  shows "sys_inv L (modal_step env s e)"
proof (cases e)
  case Open
  then show ?thesis using assms by (simp add: sys_inv_open_effect sys_inv_isOpen)
next
  case Close
  then show ?thesis using assms by (simp add: sys_inv_open_effect sys_inv_isOpen)
next
  case (PickDate d)
  then show ?thesis using assms by (simp add: sys_inv_handleDatesChange)
next
  case (TypeReason r)
  then show ?thesis using assms by (simp add: sys_inv_set_ui_frame)
next
  case ClickBlockDay
  then show ?thesis
    using assms by (simp add: handleBlockToggle_def sys_inv_start req_ok_def split: option.split)
next
  case ClickAdHoc
  then show ?thesis
    using assms by (simp add: handleAdHocToggle_def sys_inv_start req_ok_def split: option.split)
next
  case (ClickSlot t)
  have "t \<in> time ` set (currentDaySlots (ui s)) \<Longrightarrow> t \<in> L"
    using assms(2) by (auto simp: sys_inv_def)
  with ClickSlot show ?thesis
    using assms(2) by (auto simp: handleTimeSlotToggle_def sys_inv_start req_ok_def split: option.split)
next
  case (Serve k)
  then show ?thesis
    using assms sys_inv_serve [OF assms(2), of k env NoFault]
    by (simp split: prod.split) (metis fst_conv snd_conv)
next
  case (ServeFault k flt)
  then show ?thesis
    using assms sys_inv_serve [OF assms(2), of k env flt]
    by (simp split: prod.split) (metis fst_conv snd_conv)
next
  case (Deliver k)
  have "k < length (inflight s) \<Longrightarrow> req_ok L (inflight s ! k)"
    using assms(2) by (simp add: sys_inv_def list_all_iff)
  with Deliver show ?thesis
    using assms by (simp add: sys_inv_deliver sys_inv_dequeue)
next
  case (Fail k)
  then show ?thesis using assms(2) by (simp add: sys_inv_fail sys_inv_dequeue)
qed

lemma sys_inv_run:
  "labels_ok env L \<Longrightarrow> sys_inv L s \<Longrightarrow> sys_inv L (modal_run env s es)"
  by (induction es arbitrary: s) (simp_all add: sys_inv_step)

lemma sys_inv_initial:
  "sys_inv L (initial_sys st)"
  by (simp add: sys_inv_def initial_sys_def initial_modal_state_def view_consistent_def)

text \<open>The definitions a symbolic run of the component unfolds.\<close>

lemmas run_core = initial_modal_state_def fetchBlockedAndAdHocDates_def doctor_missing_def
  start_def set_ui_def set_dates_def slots_effect_def fetchBlockedTimeSlotsForSelectedDate_def
  clear_slots_def serve_def deliver_def needs_serving_def remove_nth_def action_pending_def
  on_day_action_success_def succeeded_result_def succeeded_def handleDatesChange_def
  apply_slots_response_def

section \<open>Lemmas on the day predicates and the optimistic update\<close>

lemma modal_run_append:
  "modal_run env s (xs @ ys) = modal_run env (modal_run env s xs) ys"
  by (induction xs arbitrary: s) simp_all

lemma isDateBlocked_local_day:
  "isDateBlocked ms d \<longleftrightarrow> list_ex (\<lambda>b. local_day app_timezone b = local_day app_timezone d) (blockedDates ms)"
  by (simp add: isDateBlocked_def is_same_day_def local_day_start_of_day)

lemma isDateAdHocAvailable_local_day:
  "isDateAdHocAvailable ms d \<longleftrightarrow>
     list_ex (\<lambda>a. local_day app_timezone a = local_day app_timezone d) (adHocAvailableDates ms)"
  by (simp add: isDateAdHocAvailable_def is_same_day_def local_day_start_of_day)

lemma optimistic_twice_slots:
  assumes "\<forall>slot \<in> set xs. time slot = t \<longrightarrow> \<not> isBlocked slot"
  shows "map (\<lambda>slot. if time slot = t then slot\<lparr>isBlocked := False\<rparr> else slot)
           (map (\<lambda>slot. if time slot = t then slot\<lparr>isBlocked := True\<rparr> else slot) xs) = xs"
  using assms by (induction xs) auto

lemma optimistic_roundtrip_state:
  assumes "view_consistent ms" "t \<notin> blockedTimeSlots ms" "t \<noteq> []"
  shows "optimistic_update t False (optimistic_update t True ms) = ms"
proof -
  have "\<forall>slot \<in> set (currentDaySlots ms). time slot = t \<longrightarrow> \<not> isBlocked slot"
    using assms(1,2) by (auto simp: view_consistent_def list_all_iff)
  then have "map (\<lambda>slot. if time slot = t then slot\<lparr>isBlocked := False\<rparr> else slot)
              (map (\<lambda>slot. if time slot = t then slot\<lparr>isBlocked := True\<rparr> else slot)
                (currentDaySlots ms)) = currentDaySlots ms"
    by (rule optimistic_twice_slots)
  moreover have "insert t (blockedTimeSlots ms) - {t} = blockedTimeSlots ms"
    using assms(2) by auto
  ultimately show ?thesis
    using assms(3) by (simp add: optimistic_update_def)
qed

lemma labels_ok_ticks:
  assumes "valid_clock (availableFromTime (doc env))" "valid_clock (availableToTime (doc env))"
  shows "labels_ok env (set (generateSlotTicks (availableFromTime (doc env)) (availableToTime (doc env))))"
proof -
  have "[] \<notin> set (generateSlotTicks f t)" for f t
    by (auto simp: generateSlotTicks_def dest: arg_cong [where f = length])
  then show ?thesis
    using assms by (simp add: labels_ok_def allPossibleSlotsForDay_def getDayJsAvailability_def
        slot_loop_generate)
qed

section \<open>Properties of the reconciliation engine\<close>

text \<open>
  C16. Invariant: on every run of the modal from its initial state, whatever the user
  does and in whatever order the server serves and the browser delivers the responses,
  each displayed slot is marked blocked exactly when its time is in
  \<open>blockedTimeSlots\<close>.
\<close>

theorem view_consistent_run:
  "view_consistent (ui (modal_run env (initial_sys st) es))"
  using sys_inv_run [OF labels_ok_nonempty sys_inv_initial] by (simp add: sys_inv_def)

text \<open>
  C17. A day blocked as a whole has no slot view: when a day-list response in which the
  selected day is blocked is delivered, the slot view and the blocked-time set are
  emptied, whatever slot blocks they showed before; the view is then the specification's
  \<open>computeDaySlots\<close>.
\<close>

theorem blocked_day_clears_slots:
  assumes "k < length (inflight s)" "inflight s ! k = RespDates bs as"
    and "selectedDate (ui s) = Some d"
    and "list_ex (\<lambda>b. local_day app_timezone b = local_day app_timezone d) bs"
  shows "currentDaySlots (ui (modal_step env s (Deliver k))) = [] \<and>
         blockedTimeSlots (ui (modal_step env s (Deliver k))) = {} \<and>
         currentDaySlots (ui (modal_step env s (Deliver k)))
           = computeDaySlots env (ui (modal_step env s (Deliver k))) (db s) d"
proof -
  let ?s' = "set_ui (\<lambda>ms. ms\<lparr>blockedDates := bs, adHocAvailableDates := as\<rparr>)
               (s\<lparr>inflight := remove_nth k (inflight s)\<rparr>)"
  have blocked: "isDateBlocked (ui ?s') d"
    using assms(4) by (simp add: isDateBlocked_local_day set_ui_def)
  have step: "modal_step env s (Deliver k) = set_ui clear_slots ?s'"
    using assms(1,2,3) blocked
    by (simp add: needs_serving_def deliver_def set_dates_def slots_effect_def set_ui_def)
  show ?thesis
    unfolding step using blocked
    by (simp add: computeDaySlots_def clear_slots_def set_ui_def isDateBlocked_def)
qed

text \<open>
  C18. On a day blocked as a whole the selected day is not manageable, even inside the
  weekly window, and a click on any slot changes nothing: no request is sent.
\<close>

theorem blocked_day_slot_click_noop:
  assumes "selectedDate (ui s) = Some d" "isDateBlocked (ui s) d"
  shows "\<not> isSelectedDayManagable env (ui s) \<and> modal_step env s (ClickSlot t) = s"
  using assms by (simp add: isSelectedDayManagable_def)

text \<open>
  C19. Round trip of the optimistic update: blocking a slot that the consistent view shows
  free and then unblocking it, both confirmed by the server, restores the component's
  state exactly; only the two delayed refetches remain scheduled.
\<close>

theorem optimistic_block_unblock_roundtrip:
  assumes "view_consistent (ui s)" "t \<notin> blockedTimeSlots (ui s)" "t \<noteq> []"
    and "tsi_time i1 = t" "tsi_time i2 = t"
    and "succeeded_result r1" "result_flag r1" "succeeded_result r2" "\<not> result_flag r2"
  shows "ui (deliver env (RespSlotAction i2 r2) (deliver env (RespSlotAction i1 r1) s)) = ui s \<and>
         inflight (deliver env (RespSlotAction i2 r2) (deliver env (RespSlotAction i1 r1) s))
           = inflight s @ [ReqRefresh (selectedDate (ui s) \<noteq> None),
                           ReqRefresh (selectedDate (ui s) \<noteq> None)]"
proof -
  note vc = assms(1)
  have sel: "selectedDate (optimistic_update t b ms) = selectedDate ms" for b ms
    by (simp add: optimistic_update_def)
  show ?thesis
    using assms(4-9) optimistic_roundtrip_state [OF vc assms(2,3)]
    by (simp add: deliver_def on_slot_action_success_def start_def set_ui_def sel)
qed

text \<open>
  C20. The delayed refetch is authoritative: when the 50 ms timer fires for a selected day
  that is not blocked, and the slot fetch it starts is served and delivered, the view is
  exactly the specification's \<open>computeDaySlots\<close> of the store at the time it was served,
  and nothing remains in flight.
\<close>

theorem refresh_reconciles:
  assumes "inflight s = [ReqRefresh True]" "selectedDate (ui s) = Some d"
    and "\<not> isDateBlocked (ui s) d" "\<not> doctor_missing env"
  shows "inflight (modal_run env s [Deliver 0, Serve 0, Deliver 0]) = [] \<and>
         currentDaySlots (ui (modal_run env s [Deliver 0, Serve 0, Deliver 0]))
           = computeDaySlots env (ui s) (db s) d \<and>
         blockedTimeSlots (ui (modal_run env s [Deliver 0, Serve 0, Deliver 0]))
           = set (times_response env (db s) d)"
  using assms
  by (simp add: needs_serving_def deliver_def slots_effect_def set_ui_def
      fetchBlockedTimeSlotsForSelectedDate_def start_def remove_nth_def serve_def
      apply_slots_response_def computeDaySlots_def isDateBlocked_def)

text \<open>
  C21. The browser's zone against the operating zone: in a browser east of
  America/Fortaleza (by at most a day), the date the administrator picks is the browser's
  local midnight, which is still the previous day in Fortaleza. \<open>isDateBlocked\<close>
  compares in Fortaleza, so a day is never shown blocked by the rows of its own calendar
  date, the rows that \<open>blockDate\<close> writes for it.
\<close>

theorem east_browser_day_never_blocked:
  assumes "app_timezone < browser_off env" "browser_off env - app_timezone \<le> ms_per_day"
    and "time_of_day (browser_off env) d = 0"
    and "\<forall>b \<in> set (blockedDates ms). local_day app_timezone b = local_day (browser_off env) d"
  shows "\<not> isDateBlocked ms d"
proof -
  have "local_day app_timezone d = local_day (browser_off env) d - 1"
    using local_day_zone_shift [OF assms(1,2,3)] .
  then show ?thesis
    using assms(4) by (auto simp: isDateBlocked_local_day list_ex_iff)
qed

text \<open>
  C25. Today cannot be managed: the calendar disables every date before \<open>new Date()\<close>,
  and the date it offers for today is the browser's midnight, which is already past
  unless the clock reads exactly midnight; picking it changes nothing.
\<close>

theorem today_not_selectable:
  assumes "start_of_day (browser_off env) (env_now env) < env_now env"
  shows "modal_step env s (PickDate (Some (start_of_day (browser_off env) (env_now env)))) = s"
  using assms by simp

text \<open>
  C29. Every slot label the modal ever displays is a tick of the doctor's window, on every
  run and under any interleaving: stale responses, optimistic updates and refetches
  only ever carry labels computed by the slot loop.
\<close>

theorem slot_labels_are_ticks:
  assumes "valid_clock (availableFromTime (doc env))" "valid_clock (availableToTime (doc env))"
  shows "time ` set (currentDaySlots (ui (modal_run env (initial_sys st) es)))
           \<subseteq> set (generateSlotTicks (availableFromTime (doc env)) (availableToTime (doc env)))"
  using sys_inv_run [OF labels_ok_ticks [OF assms] sys_inv_initial] by (simp add: sys_inv_def)

end
