(* ===== verification/Appointments.thy ===== *)
theory Appointments
  imports Prelude
begin

text \<open>
  \<open>getAppointmentDetailsAction\<close> (\<open>src/actions/get-appointment-details/index.ts\<close>):
  one appointment joined with its patient, its doctor and its clinic by three inner
  joins, filtered by the appointment's id, limited to one row; the first row or
  \<open>null\<close>, and \<open>null\<close> when the query throws. The tables are lists, and the join
  enumerates them in the order of a nested-loop plan; the properties below hold for any
  order in which the rows are enumerated, since they speak of membership or of unique keys.
\<close>

section \<open>Rows and the result\<close>

datatype modality = Remoto | Presencial

record appointment =
  appt_id :: uuid
  appt_date :: instant
  appt_priceInCents :: int
  appt_patientId :: uuid
  appt_doctorId :: uuid
  appt_clinicId :: uuid
  appt_modality :: modality

record patient =
  patient_id :: uuid
  patient_name :: string
  patient_email :: string

record doctor_row =
  dr_id :: uuid
  dr_name :: string
  dr_specialty :: string

record clinic_row =
  cl_id :: uuid
  cl_phoneNumber :: "string option"
  cl_address :: "string option"

record tables =
  appointmentsTable :: "appointment list"
  patientsTable :: "patient list"
  doctorsTable :: "doctor_row list"
  clinicsTable :: "clinic_row list"

record appointment_details =
  ad_id :: uuid
  ad_date :: instant
  ad_appointmentPriceInCents :: int
  ad_patientName :: string
  ad_patientEmail :: string
  ad_doctorName :: string
  ad_doctorSpecialty :: string
  ad_modality :: modality
  ad_clinicPhoneNumber :: "string option"
  ad_clinicAddress :: "string option"

section \<open>The query\<close>

text \<open>The projection of the \<open>select\<close>.\<close>

definition details ::
  "appointment \<Rightarrow> patient \<Rightarrow> doctor_row \<Rightarrow> clinic_row \<Rightarrow> appointment_details" where
  "details a p d c =
     \<lparr>ad_id = appt_id a, ad_date = appt_date a, ad_appointmentPriceInCents = appt_priceInCents a,
      ad_patientName = patient_name p, ad_patientEmail = patient_email p,
      ad_doctorName = dr_name d, ad_doctorSpecialty = dr_specialty d,
      ad_modality = appt_modality a, ad_clinicPhoneNumber = cl_phoneNumber c,
      ad_clinicAddress = cl_address c\<rparr>"

text \<open>\<open>from(appointments) innerJoin(patients) innerJoin(doctors) innerJoin(clinics) where\<close>.\<close>

definition appointment_join :: "tables \<Rightarrow> uuid \<Rightarrow> appointment_details list" where
  "appointment_join t aid =
     concat (map (\<lambda>a.
       concat (map (\<lambda>p.
         concat (map (\<lambda>d.
           map (\<lambda>c. details a p d c)
               (filter (\<lambda>c. appt_clinicId a = cl_id c) (clinicsTable t)))
             (filter (\<lambda>d. appt_doctorId a = dr_id d) (doctorsTable t))))
           (filter (\<lambda>p. appt_patientId a = patient_id p) (patientsTable t))))
       (filter (\<lambda>a. appt_id a = aid) (appointmentsTable t)))"

text \<open>
  The action. \<open>fails\<close> says whether the query throws; \<open>.limit(1)\<close> keeps the first
  row and \<open>appointment[0] || null\<close> turns an empty result into \<open>null\<close>.
\<close>

definition getAppointmentDetailsAction :: "bool \<Rightarrow> tables \<Rightarrow> uuid \<Rightarrow> appointment_details option" where
  "getAppointmentDetailsAction fails t aid =
     (if fails then None
      else case take 1 (appointment_join t aid) of [] \<Rightarrow> None | r # _ \<Rightarrow> Some r)"

section \<open>Reference: lookup by primary key\<close>

text \<open>
  With the ids unique in every table, the join is the composition of four key lookups:
  find the appointment, then its patient, its doctor and its clinic.
\<close>

definition lookup_details :: "tables \<Rightarrow> uuid \<Rightarrow> appointment_details option" where
  "lookup_details t aid =
     (case find (\<lambda>a. appt_id a = aid) (appointmentsTable t) of
        None \<Rightarrow> None
      | Some a \<Rightarrow>
          (case (find (\<lambda>p. patient_id p = appt_patientId a) (patientsTable t),
                 find (\<lambda>d. dr_id d = appt_doctorId a) (doctorsTable t),
                 find (\<lambda>c. cl_id c = appt_clinicId a) (clinicsTable t)) of
             (Some p, Some d, Some c) \<Rightarrow> Some (details a p d c)
           | _ \<Rightarrow> None))"

definition keys_unique :: "tables \<Rightarrow> bool" where
  "keys_unique t \<longleftrightarrow>
     distinct (map appt_id (appointmentsTable t)) \<and> distinct (map patient_id (patientsTable t)) \<and>
     distinct (map dr_id (doctorsTable t)) \<and> distinct (map cl_id (clinicsTable t))"

section \<open>Lemmas\<close>

lemma set_appointment_join:
  "x \<in> set (appointment_join t aid) \<longleftrightarrow>
     (\<exists>a \<in> set (appointmentsTable t). appt_id a = aid \<and>
        (\<exists>p \<in> set (patientsTable t). patient_id p = appt_patientId a \<and>
        (\<exists>d \<in> set (doctorsTable t). dr_id d = appt_doctorId a \<and>
        (\<exists>c \<in> set (clinicsTable t). cl_id c = appt_clinicId a \<and> x = details a p d c))))"
  unfolding appointment_join_def by force

lemma getAppointmentDetails_ok:
  "getAppointmentDetailsAction False t aid =
     (case appointment_join t aid of [] \<Rightarrow> None | r # _ \<Rightarrow> Some r)"
  by (cases "appointment_join t aid") (simp_all add: getAppointmentDetailsAction_def)

lemma find_SomeD': "find P xs = Some x \<Longrightarrow> P x \<and> x \<in> set xs"
  by (induction xs) (auto split: if_splits)

lemma find_unique_Some:
  assumes "distinct (map k xs)" "x \<in> set xs" "k x = v"
  shows "find (\<lambda>y. k y = v) xs = Some x"
  using assms by (induction xs) (auto simp: image_iff)

lemma lookup_details_member:
  assumes "keys_unique t" "x \<in> set (appointment_join t aid)"
  shows "lookup_details t aid = Some x"
proof -
  from assms(2) obtain a p d c where
    a: "a \<in> set (appointmentsTable t)" "appt_id a = aid" and
    p: "p \<in> set (patientsTable t)" "patient_id p = appt_patientId a" and
    d: "d \<in> set (doctorsTable t)" "dr_id d = appt_doctorId a" and
    c: "c \<in> set (clinicsTable t)" "cl_id c = appt_clinicId a" and
    x: "x = details a p d c"
    by (auto simp: set_appointment_join)
  have "find (\<lambda>a. appt_id a = aid) (appointmentsTable t) = Some a"
    "find (\<lambda>p. patient_id p = appt_patientId a) (patientsTable t) = Some p"
    "find (\<lambda>d. dr_id d = appt_doctorId a) (doctorsTable t) = Some d"
    "find (\<lambda>c. cl_id c = appt_clinicId a) (clinicsTable t) = Some c"
    using assms(1) a p d c by (simp_all add: keys_unique_def find_unique_Some)
  then show ?thesis by (simp add: lookup_details_def x)
qed

lemma lookup_details_empty:
  assumes "appointment_join t aid = []"
  shows "lookup_details t aid = None"
proof (rule ccontr)
  assume "lookup_details t aid \<noteq> None"
  then obtain a p d c where
    "find (\<lambda>a. appt_id a = aid) (appointmentsTable t) = Some a"
    "find (\<lambda>p. patient_id p = appt_patientId a) (patientsTable t) = Some p"
    "find (\<lambda>d. dr_id d = appt_doctorId a) (doctorsTable t) = Some d"
    "find (\<lambda>c. cl_id c = appt_clinicId a) (clinicsTable t) = Some c"
    by (auto simp: lookup_details_def split: option.splits)
  then have "details a p d c \<in> set (appointment_join t aid)"
    unfolding set_appointment_join by (blast dest: find_SomeD')
  with assms show False by simp
qed

lemma appointment_join_nonempty:
  "(\<exists>x. x \<in> set (appointment_join t aid)) \<longleftrightarrow>
     (\<exists>a \<in> set (appointmentsTable t). appt_id a = aid \<and>
        appt_patientId a \<in> patient_id ` set (patientsTable t) \<and>
        appt_doctorId a \<in> dr_id ` set (doctorsTable t) \<and>
        appt_clinicId a \<in> cl_id ` set (clinicsTable t))"
proof
  assume "\<exists>x. x \<in> set (appointment_join t aid)"
  then obtain a p d c where a: "a \<in> set (appointmentsTable t)" "appt_id a = aid"
    and p: "p \<in> set (patientsTable t)" "patient_id p = appt_patientId a"
    and d: "d \<in> set (doctorsTable t)" "dr_id d = appt_doctorId a"
    and c: "c \<in> set (clinicsTable t)" "cl_id c = appt_clinicId a"
    by (auto simp: set_appointment_join)
  have "appt_patientId a \<in> patient_id ` set (patientsTable t)"
    using p by (auto intro: image_eqI [where x = p])
  moreover have "appt_doctorId a \<in> dr_id ` set (doctorsTable t)"
    using d by (auto intro: image_eqI [where x = d])
  moreover have "appt_clinicId a \<in> cl_id ` set (clinicsTable t)"
    using c by (auto intro: image_eqI [where x = c])
  ultimately show "\<exists>a \<in> set (appointmentsTable t). appt_id a = aid \<and>
      appt_patientId a \<in> patient_id ` set (patientsTable t) \<and>
      appt_doctorId a \<in> dr_id ` set (doctorsTable t) \<and>
      appt_clinicId a \<in> cl_id ` set (clinicsTable t)"
    using a by blast
next
  assume "\<exists>a \<in> set (appointmentsTable t). appt_id a = aid \<and>
      appt_patientId a \<in> patient_id ` set (patientsTable t) \<and>
      appt_doctorId a \<in> dr_id ` set (doctorsTable t) \<and>
      appt_clinicId a \<in> cl_id ` set (clinicsTable t)"
  then obtain a where a: "a \<in> set (appointmentsTable t)" "appt_id a = aid"
    and i: "appt_patientId a \<in> patient_id ` set (patientsTable t)"
      "appt_doctorId a \<in> dr_id ` set (doctorsTable t)"
      "appt_clinicId a \<in> cl_id ` set (clinicsTable t)"
    by blast
  from i obtain p d c where "p \<in> set (patientsTable t)" "patient_id p = appt_patientId a"
    "d \<in> set (doctorsTable t)" "dr_id d = appt_doctorId a"
    "c \<in> set (clinicsTable t)" "cl_id c = appt_clinicId a"
    by (auto simp: image_iff)
  with a have "details a p d c \<in> set (appointment_join t aid)"
    by (auto simp: set_appointment_join)
  then show "\<exists>x. x \<in> set (appointment_join t aid)" ..
qed

section \<open>Properties of the read\<close>

text \<open>
  C26. The read finds an appointment exactly when a row with that id exists whose
  patient, doctor and clinic rows all exist: an appointment with a dangling reference
  reads as absent, like an unknown id.
\<close>

theorem getAppointmentDetails_found_iff:
  "getAppointmentDetailsAction False t aid \<noteq> None \<longleftrightarrow>
     (\<exists>a \<in> set (appointmentsTable t). appt_id a = aid \<and>
        appt_patientId a \<in> patient_id ` set (patientsTable t) \<and>
        appt_doctorId a \<in> dr_id ` set (doctorsTable t) \<and>
        appt_clinicId a \<in> cl_id ` set (clinicsTable t))"
proof -
  have "getAppointmentDetailsAction False t aid \<noteq> None \<longleftrightarrow>
          (\<exists>x. x \<in> set (appointment_join t aid))"
    by (cases "appointment_join t aid") (auto simp: getAppointmentDetails_ok)
  then show ?thesis by (simp only: appointment_join_nonempty)
qed

text \<open>
  C27. What the read returns is the projection of one appointment with the requested id
  and of its own patient, doctor and clinic rows.
\<close>

theorem getAppointmentDetails_sound:
  assumes "getAppointmentDetailsAction fails t aid = Some r"
  shows "ad_id r = aid \<and>
    (\<exists>a \<in> set (appointmentsTable t). \<exists>p \<in> set (patientsTable t). \<exists>d \<in> set (doctorsTable t).
     \<exists>c \<in> set (clinicsTable t). patient_id p = appt_patientId a \<and> dr_id d = appt_doctorId a \<and>
       cl_id c = appt_clinicId a \<and> r = details a p d c)"
proof -
  have "\<not> fails" using assms by (auto simp: getAppointmentDetailsAction_def)
  then have "r \<in> set (appointment_join t aid)"
    using assms by (auto simp: getAppointmentDetails_ok split: list.splits)
  then show ?thesis
    unfolding set_appointment_join by (auto simp: details_def)
qed

text \<open>
  C28. Refinement: when the ids are unique in every table, the join with
  \<open>limit(1)\<close> is the composition of four primary-key lookups, whatever order the rows
  are stored in.
\<close>

theorem getAppointmentDetails_refines_lookup:
  assumes "keys_unique t"
  shows "getAppointmentDetailsAction False t aid = lookup_details t aid"
proof (cases "appointment_join t aid")
  case Nil
  then show ?thesis by (simp add: getAppointmentDetails_ok lookup_details_empty)
next
  case (Cons x xs)
  then have "lookup_details t aid = Some x"
    using lookup_details_member [OF assms, of x aid] by simp
  with Cons show ?thesis by (simp add: getAppointmentDetails_ok)
qed

end
