(* ===== verification/Scenarios.thy ===== *)
theory Scenarios
  imports Modal Appointments
begin

text \<open>
  Concrete scenarios: a clinic, a second clinic, a doctor working Monday to Friday from
  09:00 to 10:00 (the specification's end-to-end example), the Saturday 2024-06-01, and
  the stores the examples start from. Each property with hypotheses is applied here at
  these inputs, with the hypotheses discharged by evaluation.
\<close>

section \<open>Fixtures\<close>

definition clinic_a :: uuid where
  "clinic_a = ''aaaaaaaa-aaaa-4aaa-8aaa-aaaaaaaaaaaa''"

definition clinic_b :: uuid where
  "clinic_b = ''bbbbbbbb-bbbb-4bbb-8bbb-bbbbbbbbbbbb''"

definition doctor_x :: uuid where
  "doctor_x = ''dddddddd-dddd-4ddd-8ddd-dddddddddddd''"

definition nine :: clock where
  "nine = \<lparr>hour = 9, minute = 0, second = 0\<rparr>"

definition ten :: clock where
  "ten = \<lparr>hour = 10, minute = 0, second = 0\<rparr>"

definition noon :: clock where
  "noon = \<lparr>hour = 12, minute = 0, second = 0\<rparr>"

definition sample_doctor :: doctor where
  "sample_doctor =
     \<lparr>doctor_id = doctor_x, doctor_name = ''Dr. X'', availableFromWeekDay = 1,
      availableToWeekDay = 5, availableFromTime = nine, availableToTime = ten,
      doctor_clinicId = clinic_a\<rparr>"

text \<open>2024-06-01, a Saturday, at midnight in the operating zone (03:00 UTC).\<close>

definition june1 :: instant where
  "june1 = 1717210800000"

definition saturday_block :: block_date_input where
  "saturday_block =
     \<lparr>bdi_doctorId = doctor_x, bdi_clinicId = clinic_a, bdi_date = ''2024-06-01'',
      bdi_block = True, bdi_reason = None\<rparr>"

definition empty_store :: store where
  "empty_store = \<lparr>blockedDatesTable = [], adHocTable = [], timeSlotsTable = []\<rparr>"

definition foreign_row :: override_row where
  "foreign_row =
     \<lparr>row_clinicId = clinic_b, row_doctorId = doctor_x, row_date = june1, row_time = None,
      row_reason = None, row_createdAt = 0, row_updatedAt = 0\<rparr>"

definition env0 :: modal_env where
  "env0 = \<lparr>browser_off = app_timezone, doc = sample_doctor, session_clinic = Some clinic_a,
           env_now = 0\<rparr>"

text \<open>2024-06-03, the Monday after, at midnight in the operating zone.\<close>

definition monday :: instant where
  "monday = june1 + 2 * ms_per_day"

definition slot_row :: override_row where
  "slot_row =
     \<lparr>row_clinicId = clinic_a, row_doctorId = doctor_x, row_date = monday,
      row_time = Some ''09:00'', row_reason = None, row_createdAt = 0, row_updatedAt = 0\<rparr>"

definition slot_store :: store where
  "slot_store = empty_store\<lparr>timeSlotsTable := [slot_row]\<rparr>"

definition monday_view :: modal_state where
  "monday_view =
     initial_modal_state\<lparr>selectedDate := Some monday,
       currentDaySlots := [\<lparr>time = ''09:00'', isBlocked = False\<rparr>, \<lparr>time = ''09:30'', isBlocked = False\<rparr>]\<rparr>"

definition saturday_view :: modal_state where
  "saturday_view =
     initial_modal_state\<lparr>selectedDate := Some june1,
       currentDaySlots := [\<lparr>time = ''09:00'', isBlocked = True\<rparr>], blockedTimeSlots := {''09:00''}\<rparr>"

definition slot_block_in :: slot_input where
  "slot_block_in =
     \<lparr>tsi_doctorId = doctor_x, tsi_clinicId = clinic_a, tsi_date = ''2024-06-03'',
      tsi_time = ''09:00'', tsi_block = True, tsi_reason = None\<rparr>"

definition confirmed :: "bool \<Rightarrow> toggle_result safe_result" where
  "confirmed b = Data \<lparr>success = True, error = None, flag = b\<rparr>"

text \<open>
  A browser one hour east of UTC (UTC+1), and the midnight of 2024-06-03 there
  (2024-06-02 23:00 UTC, still Sunday 20:00 in the operating zone).
\<close>

definition env_east :: modal_env where
  "env_east = env0\<lparr>browser_off := 3600000\<rparr>"

definition monday_east :: instant where
  "monday_east = monday - 14400000"

definition east_view :: modal_state where
  "east_view =
     initial_modal_state\<lparr>selectedDate := Some monday_east,
       currentDaySlots := [\<lparr>time = ''09:00'', isBlocked = True\<rparr>, \<lparr>time = ''09:30'', isBlocked = False\<rparr>],
       blockedTimeSlots := {''09:00''}\<rparr>"

definition june1_view :: modal_state where
  "june1_view =
     initial_modal_state\<lparr>selectedDate := Some june1,
       currentDaySlots := [\<lparr>time = ''09:00'', isBlocked = False\<rparr>, \<lparr>time = ''09:30'', isBlocked = False\<rparr>]\<rparr>"

definition tuesday :: instant where
  "tuesday = monday + ms_per_day"

text \<open>An appointment of the sample doctor, and one whose clinic row is missing.\<close>

definition appt1 :: appointment where
  "appt1 = \<lparr>appt_id = ''a1'', appt_date = monday + 32400000, appt_priceInCents = 15000,
            appt_patientId = ''p1'', appt_doctorId = doctor_x, appt_clinicId = clinic_a,
            appt_modality = Presencial\<rparr>"

definition sample_tables :: tables where
  "sample_tables =
     \<lparr>appointmentsTable = [appt1, appt1\<lparr>appt_id := ''a2'', appt_clinicId := clinic_b\<rparr>],
      patientsTable = [\<lparr>patient_id = ''p1'', patient_name = ''Ana'', patient_email = ''ana@x.br''\<rparr>],
      doctorsTable = [\<lparr>dr_id = doctor_x, dr_name = ''Dr. X'', dr_specialty = ''Cardiologia''\<rparr>],
      clinicsTable = [\<lparr>cl_id = clinic_a, cl_phoneNumber = None, cl_address = Some ''Rua 1''\<rparr>]\<rparr>"

section \<open>Evaluation facts\<close>

lemma saturday_start: "dayjs_tz_start app_timezone ''2024-06-01'' = june1"
  by (simp add: dayjs_tz_start_def date_fields_def digits_val_def digit_val_def make_day_def
      days_from_civil_def start_of_day_def time_of_day_def ms_per_day_def app_timezone_def
      june1_def)

lemma saturday_block_valid: "valid_block_date_input saturday_block"
  by (simp add: valid_block_date_input_def saturday_block_def doctor_x_def clinic_a_def
      is_uuid_def is_hex_def is_digit_def)

lemma sample_clocks_valid:
  "valid_clock (availableFromTime sample_doctor)" "valid_clock (availableToTime sample_doctor)"
  by (simp_all add: sample_doctor_def nine_def ten_def valid_clock_def)

lemma clinic_a_ne_b: "clinic_a \<noteq> clinic_b"
  by (simp add: clinic_a_def clinic_b_def)

lemma sample_doctor_fields [simp]:
  "doctor_id sample_doctor = doctor_x" "doctor_clinicId sample_doctor = clinic_a"
  by (simp_all add: sample_doctor_def)

lemma format_monday: "format_date app_timezone monday = ''2024-06-03''"
  by code_simp

lemma parse_monday: "dayjs_tz_start app_timezone ''2024-06-03'' = monday"
  by code_simp

lemma slots_monday:
  "allPossibleSlotsForDay app_timezone sample_doctor monday = [''09:00'', ''09:30'']"
  using slot_loop_generate [OF sample_clocks_valid, of app_timezone monday]
  by (simp add: allPossibleSlotsForDay_def getDayJsAvailability_def sample_doctor_def
      generateSlotTicks_def tick_count_def clock_ms_def slot_step_def clock_minutes_def
      nine_def ten_def upt_rec fmt_minutes_def two_digits_def digit_char_def)

lemma env0_fields [simp]:
  "browser_off env0 = app_timezone" "doc env0 = sample_doctor"
  "session_clinic env0 = Some clinic_a" "env_now env0 = 0"
  by (simp_all add: env0_def)

lemma env0_doctor_present: "\<not> doctor_missing env0"
  by (simp add: doctor_missing_def doctor_x_def clinic_a_def)

lemma env_east_fields [simp]:
  "browser_off env_east = 3600000" "doc env_east = sample_doctor"
  "session_clinic env_east = Some clinic_a" "env_now env_east = 0"
  by (simp_all add: env_east_def)

lemma fixture_dates_not_past [simp]:
  "\<not> june1 < 0" "\<not> monday < 0" "\<not> tuesday < 0" "\<not> monday_east < 0"
  by (simp_all add: june1_def monday_def tuesday_def monday_east_def ms_per_day_def)

lemma civil_monday_east: "civil_from_days (local_day 3600000 monday_east) = (2024, 6, 3)"
  by code_simp

lemma monday_east_midnight: "time_of_day 3600000 monday_east = 0"
  by (simp add: monday_east_def monday_def june1_def time_of_day_def ms_per_day_def)

lemma june1_midnight: "time_of_day app_timezone june1 = 0"
  by (simp add: june1_def time_of_day_def app_timezone_def ms_per_day_def)

lemma saturday_outside: "\<not> isDateWithinDoctorAvailability app_timezone sample_doctor june1"
  by (simp add: isDateWithinDoctorAvailability_def get_day_def local_day_def sample_doctor_def
      june1_def ms_per_day_def app_timezone_def)

lemma civil_june1: "civil_from_days (local_day app_timezone june1) = (2024, 6, 1)"
  by code_simp

lemma sample_ids_valid: "is_uuid doctor_x" "is_uuid clinic_a"
  by (simp_all add: doctor_x_def clinic_a_def is_uuid_def is_hex_def is_digit_def)

lemmas run_defs = initial_sys_def initial_modal_state_def open_effect_def
  fetchBlockedAndAdHocDates_def doctor_missing_def start_def set_ui_def set_dates_def
  slots_effect_def fetchBlockedTimeSlotsForSelectedDate_def clear_slots_def
  handleDatesChange_def serve_def deliver_def needs_serving_def remove_nth_def
  dates_response_def times_response_def list_dates_def list_times_for_date_def
  apply_slots_response_def isDateBlocked_def

section \<open>Witnesses of the resolver's properties\<close>

theorem allPossibleSlots_refines_generate_witness:
  "valid_clock (availableFromTime sample_doctor) \<and> valid_clock (availableToTime sample_doctor) \<and>
   allPossibleSlotsForDay app_timezone sample_doctor june1 = generateSlotTicks nine ten"
  using allPossibleSlots_refines_generate [OF sample_clocks_valid, of app_timezone june1]
    sample_clocks_valid
  by (simp add: sample_doctor_def)

theorem isDateWithinDoctorAvailability_window_witness:
  "0 \<le> availableFromWeekDay sample_doctor \<and> availableFromWeekDay sample_doctor \<le> 6 \<and>
   0 \<le> availableToWeekDay sample_doctor \<and> availableToWeekDay sample_doctor \<le> 6 \<and>
   (isDateWithinDoctorAvailability app_timezone sample_doctor june1 \<longleftrightarrow>
    get_day app_timezone june1 \<in> weekly_window 1 5)"
  using isDateWithinDoctorAvailability_window [of sample_doctor app_timezone june1]
  by (simp add: sample_doctor_def)

theorem slot_ticks_distinct_witness:
  "valid_clock (availableFromTime sample_doctor) \<and> valid_clock (availableToTime sample_doctor) \<and>
   distinct (allPossibleSlotsForDay app_timezone sample_doctor june1)"
  using slot_ticks_distinct [OF sample_clocks_valid, of app_timezone june1] sample_clocks_valid
  by simp

theorem slot_ticks_in_window_witness:
  "''09:30'' \<in> set (allPossibleSlotsForDay app_timezone sample_doctor june1) \<and>
   (\<exists>m. parse_HHmm ''09:30'' = Some m \<and> clock_minutes nine \<le> m \<and> int m * 60000 < clock_ms ten)"
proof -
  have ticks: "allPossibleSlotsForDay app_timezone sample_doctor june1 = [''09:00'', ''09:30'']"
    using slot_loop_generate [OF sample_clocks_valid, of app_timezone june1]
    by (simp add: allPossibleSlotsForDay_def getDayJsAvailability_def sample_doctor_def
        generateSlotTicks_def tick_count_def clock_ms_def slot_step_def clock_minutes_def
        nine_def ten_def upt_rec fmt_minutes_def two_digits_def digit_char_def)
  then have mem: "''09:30'' \<in> set (allPossibleSlotsForDay app_timezone sample_doctor june1)"
    by simp
  show ?thesis
    using slot_ticks_in_window [OF sample_clocks_valid mem] mem
    by (simp add: sample_doctor_def)
qed

theorem slot_ticks_empty_when_inverted_witness:
  "clock_ms (availableToTime (sample_doctor\<lparr>availableFromTime := ten, availableToTime := nine\<rparr>))
     \<le> clock_ms (availableFromTime (sample_doctor\<lparr>availableFromTime := ten, availableToTime := nine\<rparr>))
   \<and> allPossibleSlotsForDay app_timezone
       (sample_doctor\<lparr>availableFromTime := ten, availableToTime := nine\<rparr>) june1 = []"
proof -
  have h: "clock_ms (availableToTime (sample_doctor\<lparr>availableFromTime := ten, availableToTime := nine\<rparr>))
     \<le> clock_ms (availableFromTime (sample_doctor\<lparr>availableFromTime := ten, availableToTime := nine\<rparr>))"
    by (simp add: clock_ms_def nine_def ten_def)
  show ?thesis using slot_ticks_empty_when_inverted [OF h] h by simp
qed

theorem slot_ticks_nine_to_noon_witness:
  "availableFromTime (sample_doctor\<lparr>availableToTime := noon\<rparr>) = \<lparr>hour = 9, minute = 0, second = 0\<rparr> \<and>
   availableToTime (sample_doctor\<lparr>availableToTime := noon\<rparr>) = \<lparr>hour = 12, minute = 0, second = 0\<rparr> \<and>
   allPossibleSlotsForDay app_timezone (sample_doctor\<lparr>availableToTime := noon\<rparr>) june1
     = [''09:00'', ''09:30'', ''10:00'', ''10:30'', ''11:00'', ''11:30'']"
proof -
  have f: "availableFromTime (sample_doctor\<lparr>availableToTime := noon\<rparr>) = \<lparr>hour = 9, minute = 0, second = 0\<rparr>"
    and t: "availableToTime (sample_doctor\<lparr>availableToTime := noon\<rparr>) = \<lparr>hour = 12, minute = 0, second = 0\<rparr>"
    by (simp_all add: sample_doctor_def nine_def noon_def)
  show ?thesis using slot_ticks_nine_to_noon [OF f t] f t by simp
qed

section \<open>Witnesses of the action's properties\<close>

theorem blockDate_unauthorized_no_effect_witness:
  "valid_block_date_input saturday_block \<and> Some clinic_b \<noteq> Some (bdi_clinicId saturday_block) \<and>
   (\<exists>m \<in> {Msg_NoClinic, Msg_ClinicMismatch}.
      blockDate (Some clinic_b) 0 NoFault saturday_block empty_store
      = (Data (failed m True), empty_store, []))"
proof -
  have ne: "Some clinic_b \<noteq> Some (bdi_clinicId saturday_block)"
    using clinic_a_ne_b by (simp add: saturday_block_def)
  show ?thesis
    using blockDate_unauthorized_no_effect [OF saturday_block_valid ne, of 0 NoFault empty_store]
      saturday_block_valid ne
    by (simp add: saturday_block_def)
qed

theorem blockDate_implements_toggle_witness:
  "valid_block_date_input saturday_block \<and>
   blockDate (Some clinic_a) 0 NoFault saturday_block empty_store =
    (case toggle_override blockedDatesTable_update day_key (block_row 0 saturday_block june1)
            (matches_day clinic_a doctor_x june1) True clinic_a (Some clinic_a) NoFault empty_store
     of (r, st', ps) \<Rightarrow> (Data r, st', ps))"
  using blockDate_implements_toggle [OF saturday_block_valid, of "Some clinic_a" 0 NoFault empty_store]
    saturday_block_valid
  by (simp add: saturday_start saturday_block_def)

theorem blockDate_block_twice_one_row_witness:
  "valid_block_date_input saturday_block \<and> bdi_block saturday_block \<and>
   unique_on day_key (blockedDatesTable empty_store) \<and>
   length (filter (\<lambda>r. day_key r = (doctor_x, june1))
     (blockedDatesTable (fst (snd (blockDate (Some clinic_a) 1 NoFault saturday_block
        (fst (snd (blockDate (Some clinic_a) 0 NoFault saturday_block empty_store)))))))) = 1"
proof -
  let ?x1 = "blockDate (Some (bdi_clinicId saturday_block)) 0 NoFault saturday_block empty_store"
  let ?x2 = "blockDate (Some (bdi_clinicId saturday_block)) 1 NoFault saturday_block (fst (snd ?x1))"
  have b: "bdi_block saturday_block" by (simp add: saturday_block_def)
  have u: "unique_on day_key (blockedDatesTable empty_store)" by (simp add: empty_store_def unique_on_def)
  have e1: "?x1 = (fst ?x1, fst (snd ?x1), snd (snd ?x1))" by simp
  have e2: "?x2 = (fst ?x2, fst (snd ?x2), snd (snd ?x2))" by simp
  have "length (filter (\<lambda>r. day_key r = (bdi_doctorId saturday_block,
            dayjs_tz_start app_timezone (bdi_date saturday_block))) (blockedDatesTable (fst (snd ?x2)))) = 1"
    using blockDate_block_twice_one_row [OF saturday_block_valid b u e1 e2] by blast
  then show ?thesis
    using saturday_block_valid b u by (simp add: saturday_start saturday_block_def)
qed

theorem blockDate_unblock_absent_noop_witness:
  "valid_block_date_input (saturday_block\<lparr>bdi_block := False\<rparr>) \<and>
   \<not> bdi_block (saturday_block\<lparr>bdi_block := False\<rparr>) \<and>
   \<not> list_ex (matches_day clinic_a doctor_x june1) (blockedDatesTable empty_store) \<and>
   blockDate (Some clinic_a) 0 NoFault (saturday_block\<lparr>bdi_block := False\<rparr>) empty_store
     = (Data (succeeded False), empty_store, revalidated_paths)"
proof -
  have v: "valid_block_date_input (saturday_block\<lparr>bdi_block := False\<rparr>)"
    using saturday_block_valid by simp
  have n: "\<not> bdi_block (saturday_block\<lparr>bdi_block := False\<rparr>)" by simp
  have l: "\<not> list_ex (matches_day (bdi_clinicId (saturday_block\<lparr>bdi_block := False\<rparr>))
             (bdi_doctorId (saturday_block\<lparr>bdi_block := False\<rparr>))
             (dayjs_tz_start app_timezone (bdi_date (saturday_block\<lparr>bdi_block := False\<rparr>))))
             (blockedDatesTable empty_store)"
    by (simp add: empty_store_def)
  show ?thesis
    using blockDate_unblock_absent_noop [OF v n l, of 0] v
    by (simp add: empty_store_def saturday_block_def)
qed

theorem blockDate_block_unblock_roundtrip_witness:
  "valid_block_date_input saturday_block \<and> bdi_block saturday_block \<and>
   (doctor_x, june1) \<notin> day_key ` set (blockedDatesTable empty_store) \<and>
   fst (snd (blockDate (Some clinic_a) 1 NoFault (saturday_block\<lparr>bdi_block := False\<rparr>)
      (fst (snd (blockDate (Some clinic_a) 0 NoFault saturday_block empty_store))))) = empty_store"
proof -
  have b: "bdi_block saturday_block" by (simp add: saturday_block_def)
  have f: "(bdi_doctorId saturday_block, dayjs_tz_start app_timezone (bdi_date saturday_block))
           \<notin> day_key ` set (blockedDatesTable empty_store)"
    by (simp add: empty_store_def)
  show ?thesis
    using blockDate_block_unblock_roundtrip [OF saturday_block_valid b f, of 1 0] saturday_block_valid b
    by (simp add: empty_store_def saturday_block_def)
qed

theorem blockDate_preserves_store_inv_witness:
  "store_inv empty_store \<and>
   store_inv (fst (snd (blockDate (Some clinic_a) 0 NoFault saturday_block empty_store)))"
proof -
  have i: "store_inv empty_store" by (simp add: store_inv_def empty_store_def unique_on_def)
  show ?thesis using blockDate_preserves_store_inv [OF i] i by blast
qed

theorem blockDate_failure_after_write_witness:
  "valid_block_date_input saturday_block \<and> bdi_block saturday_block \<and>
   blockDate (Some clinic_a) 0 (RevalidateFault Doctors (Error_obj ''cache'')) saturday_block empty_store
   = (Data (failed (Msg_Exception ''cache'') True),
      empty_store\<lparr>blockedDatesTable := [block_row 0 saturday_block june1]\<rparr>, [''/public-booking''])"
proof -
  have b: "bdi_block saturday_block" by (simp add: saturday_block_def)
  have f: "(bdi_doctorId saturday_block, dayjs_tz_start app_timezone (bdi_date saturday_block))
           \<notin> day_key ` set (blockedDatesTable empty_store)"
    by (simp add: empty_store_def)
  show ?thesis
    using blockDate_failure_after_write [OF saturday_block_valid b f, of 0 Doctors "Error_obj ''cache''"]
      saturday_block_valid b
    by (simp add: exn_message_def empty_store_def saturday_start saturday_block_def paths_before_def
        revalidated_paths_def)
qed

theorem blockDate_conflict_other_clinic_witness:
  "foreign_row \<in> set (blockedDatesTable (empty_store\<lparr>blockedDatesTable := [foreign_row]\<rparr>)) \<and>
   row_clinicId foreign_row \<noteq> clinic_a \<and>
   blockDate (Some clinic_a) 0 NoFault saturday_block (empty_store\<lparr>blockedDatesTable := [foreign_row]\<rparr>)
     = (Data (succeeded True), empty_store\<lparr>blockedDatesTable := [foreign_row]\<rparr>, revalidated_paths) \<and>
   june1 \<notin> set (list_dates [foreign_row] doctor_x clinic_a)"
proof -
  let ?st = "empty_store\<lparr>blockedDatesTable := [foreign_row]\<rparr>"
  have b: "bdi_block saturday_block" by (simp add: saturday_block_def)
  have u: "unique_on day_key (blockedDatesTable ?st)" by (simp add: unique_on_def)
  have m: "foreign_row \<in> set (blockedDatesTable ?st)" by simp
  have k: "day_key foreign_row = (bdi_doctorId saturday_block,
             dayjs_tz_start app_timezone (bdi_date saturday_block))"
    by (simp add: saturday_start day_key_def foreign_row_def saturday_block_def)
  have c: "row_clinicId foreign_row \<noteq> bdi_clinicId saturday_block"
    using clinic_a_ne_b by (simp add: foreign_row_def saturday_block_def)
  show ?thesis
    using blockDate_conflict_other_clinic [OF saturday_block_valid b u m k c, of 0] c
    by (simp add: saturday_start saturday_block_def)
qed

section \<open>Witnesses of the reconciliation engine's properties\<close>

theorem blocked_day_clears_slots_witness:
  "currentDaySlots (ui (modal_step env0
       \<lparr>db = empty_store, ui = saturday_view, inflight = [RespDates [june1] []], isOpen = True\<rparr>
       (Deliver 0))) = [] \<and>
   blockedTimeSlots (ui (modal_step env0
       \<lparr>db = empty_store, ui = saturday_view, inflight = [RespDates [june1] []], isOpen = True\<rparr>
       (Deliver 0))) = {}"
  using blocked_day_clears_slots [of 0 "\<lparr>db = empty_store, ui = saturday_view,
      inflight = [RespDates [june1] []], isOpen = True\<rparr>" "[june1]" "[]" june1 env0]
  by (simp add: saturday_view_def)

theorem blocked_day_slot_click_noop_witness:
  "\<not> isSelectedDayManagable env0 (saturday_view\<lparr>blockedDates := [june1]\<rparr>) \<and>
   modal_step env0 \<lparr>db = empty_store, ui = saturday_view\<lparr>blockedDates := [june1]\<rparr>,
       inflight = [], isOpen = True\<rparr> (ClickSlot ''09:00'')
     = \<lparr>db = empty_store, ui = saturday_view\<lparr>blockedDates := [june1]\<rparr>, inflight = [], isOpen = True\<rparr>"
  using blocked_day_slot_click_noop [of "\<lparr>db = empty_store, ui = saturday_view\<lparr>blockedDates := [june1]\<rparr>,
      inflight = [], isOpen = True\<rparr>" june1 env0 "''09:00''"]
  by (simp add: saturday_view_def isDateBlocked_def is_same_day_def)

theorem optimistic_block_unblock_roundtrip_witness:
  "ui (deliver env0 (RespSlotAction (slot_block_in\<lparr>tsi_block := False\<rparr>) (confirmed False))
        (deliver env0 (RespSlotAction slot_block_in (confirmed True))
          \<lparr>db = slot_store, ui = monday_view, inflight = [], isOpen = True\<rparr>)) = monday_view"
  using optimistic_block_unblock_roundtrip [of "\<lparr>db = slot_store, ui = monday_view, inflight = [],
      isOpen = True\<rparr>" "''09:00''" slot_block_in "slot_block_in\<lparr>tsi_block := False\<rparr>"
      "confirmed True" "confirmed False" env0]
  by (simp add: sys_inv_def view_consistent_def monday_view_def initial_modal_state_def
      slot_block_in_def confirmed_def succeeded_result_def result_flag_def)

theorem refresh_reconciles_witness:
  "currentDaySlots (ui (modal_run env0 \<lparr>db = slot_store, ui = monday_view,
       inflight = [ReqRefresh True], isOpen = True\<rparr> [Deliver 0, Serve 0, Deliver 0]))
     = [\<lparr>time = ''09:00'', isBlocked = True\<rparr>, \<lparr>time = ''09:30'', isBlocked = False\<rparr>]"
  using refresh_reconciles [of "\<lparr>db = slot_store, ui = monday_view, inflight = [ReqRefresh True],
      isOpen = True\<rparr>" monday env0] env0_doctor_present
  by (simp add: monday_view_def initial_modal_state_def isDateBlocked_def computeDaySlots_def
      times_response_def format_monday parse_monday slots_monday list_times_for_date_def
      slot_store_def empty_store_def slot_row_def owned_by_def)

theorem east_browser_day_never_blocked_witness:
  "\<not> isDateBlocked (east_view\<lparr>blockedDates := [monday]\<rparr>) monday_east"
  using east_browser_day_never_blocked [of env_east monday_east "east_view\<lparr>blockedDates := [monday]\<rparr>"]
  by (simp add: monday_east_def monday_def june1_def app_timezone_def ms_per_day_def
      time_of_day_def local_day_def)

theorem today_not_selectable_witness:
  "modal_step (env0\<lparr>env_now := june1 + 36000000\<rparr>)
     \<lparr>db = empty_store, ui = initial_modal_state, inflight = [], isOpen = True\<rparr>
     (PickDate (Some june1))
   = \<lparr>db = empty_store, ui = initial_modal_state, inflight = [], isOpen = True\<rparr>"
proof -
  have m: "start_of_day app_timezone (june1 + 36000000) = june1"
    by (simp add: start_of_day_def time_of_day_def june1_def app_timezone_def ms_per_day_def)
  show ?thesis
    using today_not_selectable [of "env0\<lparr>env_now := june1 + 36000000\<rparr>"
        "\<lparr>db = empty_store, ui = initial_modal_state, inflight = [], isOpen = True\<rparr>"]
    by (simp add: env0_def m)
qed

section \<open>Witnesses of the appointment read's properties\<close>

theorem getAppointmentDetails_found_iff_witness:
  "getAppointmentDetailsAction False sample_tables ''a1'' \<noteq> None \<and>
   getAppointmentDetailsAction False sample_tables ''a2'' = None"
proof -
  have "getAppointmentDetailsAction False sample_tables ''a1'' \<noteq> None"
    using getAppointmentDetails_found_iff [of sample_tables "''a1''"]
    by (simp add: sample_tables_def appt1_def)
  moreover have "getAppointmentDetailsAction False sample_tables ''a2'' = None"
    using getAppointmentDetails_found_iff [of sample_tables "''a2''"] clinic_a_ne_b
    by (auto simp: sample_tables_def appt1_def)
  ultimately show ?thesis ..
qed

theorem getAppointmentDetails_sound_witness:
  "ad_id (the (getAppointmentDetailsAction False sample_tables ''a1'')) = ''a1''"
proof -
  have r: "getAppointmentDetailsAction False sample_tables ''a1''
      = Some (details appt1 \<lparr>patient_id = ''p1'', patient_name = ''Ana'', patient_email = ''ana@x.br''\<rparr>
          \<lparr>dr_id = doctor_x, dr_name = ''Dr. X'', dr_specialty = ''Cardiologia''\<rparr>
          \<lparr>cl_id = clinic_a, cl_phoneNumber = None, cl_address = Some ''Rua 1''\<rparr>)"
    using clinic_a_ne_b
    by (simp add: getAppointmentDetailsAction_def appointment_join_def sample_tables_def appt1_def)
  show ?thesis
    using getAppointmentDetails_sound [OF r] by (simp only: r option.sel)
qed

theorem getAppointmentDetails_refines_lookup_witness:
  "getAppointmentDetailsAction False sample_tables ''a2'' = lookup_details sample_tables ''a2''"
  using getAppointmentDetails_refines_lookup [of sample_tables "''a2''"] clinic_a_ne_b
  by (simp add: keys_unique_def sample_tables_def appt1_def)

theorem slot_labels_are_ticks_witness:
  "time ` set (currentDaySlots (ui (modal_run env0 (initial_sys slot_store)
      [Open, Serve 0, Deliver 0, PickDate (Some monday), Serve 0, Deliver 0])))
     \<subseteq> set (generateSlotTicks (availableFromTime sample_doctor) (availableToTime sample_doctor))"
  using slot_labels_are_ticks [of env0 slot_store
      "[Open, Serve 0, Deliver 0, PickDate (Some monday), Serve 0, Deliver 0]"] sample_clocks_valid
  by simp

section \<open>Witness of the wire date round trip\<close>

theorem format_date_roundtrip_witness:
  "is_date_format (format_date 3600000 monday_east) \<and>
   local_day app_timezone (dayjs_tz_start app_timezone (format_date 3600000 monday_east))
     = local_day 3600000 monday_east \<and>
   dayjs_tz_start 3600000 (format_date 3600000 monday_east) = start_of_day 3600000 monday_east"
  by (rule format_date_roundtrip) (simp_all add: civil_monday_east)

end
