(* ===== verification/Spec2Isabelle.thy ===== *)
theory Spec2Isabelle
  imports Scenarios Appointments
begin

text \<open>
  \<^bold>\<open>A verification library for the clinic scheduling calendar, syncli-agenda.\<close>

  \<^bold>\<open>The program.\<close> An administrator opens the block calendar of a doctor,
  the component \<open>src/app/(protected)/doctors/_components/doctor-block-calendar-modal.tsx\<close>,
  which paints the doctor's recurring weekly window, the full-day blocks and the ad-hoc
  grants, expands a selected date into 30-minute slot ticks and marks the blocked
  ones, and sends toggles to three server actions; the one among the sources,
  \<open>blockDate\<close> (\<open>src/actions/block-date.ts/index.ts\<close>), checks the
  session's clinic, normalises the date to the start of its day in America/Fortaleza and
  inserts (ignoring a conflict) or deletes a row of the full-day-block table. A third
  source, \<open>src/actions/get-appointment-details/index.ts\<close>, reads one
  appointment joined with its patient, doctor and clinic.

  \<^bold>\<open>The theories.\<close>
  \<^item> \<open>Prelude\<close>: the model's type names (uuids as strings, instants and
    zone offsets as integer milliseconds), the rule collections
    \<open>clock_simps\<close> and \<open>store_simps\<close>, and list facts shared by
    the components.
  \<^item> \<open>Clock\<close>: what dayjs and date-fns compute: local day, start of day,
    weekday (\<open>Date.getDay\<close>), \<open>isSame(_, "day")\<close>,
    \<open>.hour().minute().second()\<close>, and the \<open>HH:mm\<close> rendering with
    its parser; rendering is injective on the minutes of a day, and a zone east of
    another by at most a day puts a midnight on the previous day there.
  \<^item> \<open>Wire_Date\<close>: the \<open>YYYY-MM-DD\<close> check of the action's
    zod schema, \<open>dayjs.tz(date, APP_TIMEZONE).startOf("day")\<close> with
    ECMAScript's \<open>Date.UTC\<close> overflow rules and Hinnant's civil-day count, and
    date-fns' \<open>format(_, "yyyy-MM-dd")\<close>.
  \<^item> \<open>Resolver\<close> (the modal's
    \<open>isDateWithinDoctorAvailability\<close> and the slot loop of
    \<open>fetchBlockedTimeSlotsForSelectedDate\<close>, lines 97--110 and 277--292): the
    \<open>while\<close> loop is the terminating \<^theory_text>\<open>function\<close>
    \<open>slot_loop\<close> (measure: the distance to the end of the window), proved
    equal to the specification's closed form \<open>generateSlotTicks\<close> (C1); the
    weekly test is the cyclic interval of the specification (C9); the labels are distinct
    (C10), inside the window (C11), empty for an inverted window (C12), and the example
    09:00--12:00 gives six ticks (C13).
  \<^item> \<open>Store\<close>: the three override tables as row lists, drizzle's
    \<open>onConflictDoNothing\<close> insert and scoped delete, generic in the conflict
    key, the key-uniqueness invariant, and the tenant-scoped reads of the API routes.
  \<^item> \<open>Actions\<close>: \<open>blockDate\<close> with every branch of the
    source (schema, missing session clinic, clinic mismatch, write failure, failure after
    the write, success). Its properties: an unauthorized request changes nothing (C2); it
    implements the specification's toggle contract \<open>toggle_override\<close> (C3),
    which also models the two sibling actions that are not among the sources; it is
    idempotent (C4); blocking twice leaves one row (C5); unblocking an absent day is a
    successful no-op (C6); block then unblock restores the store (C7); the uniqueness
    invariant is kept (C8). C14 and C15 record two behaviours the specification does not
    describe.
  \<^item> \<open>Modal\<close>: the component itself. Its seven \<open>useState\<close>
    hooks are the record \<open>modal_state\<close>; the props and the browser's zone are
    \<open>modal_env\<close>. Each callback, effect and handler is a definition that
    returns the new state: \<open>isDateBlocked\<close>,
    \<open>isDateAdHocAvailable\<close>, \<open>isDefaultUnavailable\<close>,
    \<open>isSelectedDayManagable\<close>, the two fetches, the effect on
    \<open>isOpen\<close> (\<open>open_effect\<close>) and the effect on the selected
    date, \<open>isDateBlocked\<close> and \<open>refreshKey\<close>
    (\<open>slots_effect\<close>, rerun by \<open>set_dates\<close> when the day lists
    change), the four handlers, and the \<open>onSuccess\<close> callbacks with the
    optimistic update and the 50 ms timer. Asynchrony is explicit: the system state
    \<open>sys\<close> holds the store and a list of in-flight requests; the event type
    \<open>ui_event\<close> has the user's actions, guarded as the JSX disables them, and
    the environment's \<open>Serve k\<close> (the server reads or writes the store and
    fixes the response), \<open>Deliver k\<close> (the response reaches the component) and
    \<open>Fail k\<close>, so \<open>modal_run\<close> covers every order in which
    requests are answered. Its properties: the view is consistent on every run (C16, by an
    invariant preserved by every step); a day blocked as a whole empties the slot view
    (C17) and makes slot clicks inert (C18); the optimistic block/unblock round trip
    restores the state (C19); the delayed refetch yields the specification's
    \<open>computeDaySlots\<close> (C20); in a browser east of the operating zone the
    picked day is never seen blocked (C21); today cannot be picked (C25).
  \<^item> \<open>Scenarios\<close>: fixtures (two clinics, a doctor working
    Monday--Friday 09:00--10:00, the Saturday 2024-06-01 and the Monday and Tuesday after,
    a UTC+1 browser), runs of the modal evaluated stage by stage, and the witnesses
    that apply each property.
  \<^item> This theory: the properties that cross the components, proved on complete
    runs of the modal against the store and the actions: a stale slot response shown at
    quiescence (C22), the UTC+1 block that the modal does not show (C23), and
    the specification's Saturday scenario end to end (C24).

  \<^bold>\<open>Modelling choices.\<close> Instants are JavaScript milliseconds; a
  zone is a fixed offset (America/Fortaleza is UTC-3 with no daylight saving; the
  browser's zone is a parameter, so results that hold for every zone say so). A store
  failure is an explicit \<open>fault\<close> argument that says where the
  \<open>try\<close> block throws. The session is the value of
  \<open>session?.user?.clinic?.id\<close>. The slot loop needs no fuel: it terminates
  because each round adds 30 minutes towards a fixed end; \<open>modal_run\<close> is
  structural on the event list. React's batching is modelled by applying a handler's state
  updates together and then the effects whose dependencies changed. The server side of
  the two GET routes and of the two sibling actions is modelled from the specification.

  \<^bold>\<open>Not modelled.\<close> Rendering (JSX layout, class names, toasts, console
  output), next-safe-action's transport, Next.js' cache beyond the list of revalidated
  paths, the drizzle client and the database engine (the tables are lists),
  \<open>auth.api.getSession\<close> itself (its result is an input), the calendar's
  \<open>modifiers\<close> (display only), and \<open>getAppointmentDetailsAction\<close>
  (planned).

  \<^bold>\<open>Plan for the next sittings.\<close> (1) The civil date round trip: the
  server's normalisation of the client's \<open>yyyy-MM-dd\<close> string gives back the
  client's day. (2) The slot labels on screen are always ticks of the doctor's window. (3)
  Convergence: once the user stops and every request is delivered in order, the view
  equals \<open>computeDaySlots\<close>. (4) The appointment-details join.
\<close>

section \<open>Properties across the components\<close>

text \<open>
  C22. The order in which the two slot fetches of a quick re-selection are answered decides
  what the modal shows. For every state of an open, idle modal, every doctor and store,
  and every two selectable days that are not blocked: if the fetch for the second day is
  delivered last, the quiescent modal shows the specification's view of the second day;
  if the fetch for the first day is delivered last, it shows the first day's view while
  the second day is selected, since a slot response is applied without checking its date.
\<close>

theorem slot_response_order_decides_view:
  assumes "isOpen s" "inflight s = []" "\<not> doctor_missing env"
    and "\<not> d1 < env_now env" "\<not> d2 < env_now env"
    and "\<not> isDateBlocked (ui s) d1" "\<not> isDateBlocked (ui s) d2"
  shows "(let s' = modal_run env s [PickDate (Some d1), PickDate (Some d2),
                                    Serve 0, Deliver 0, Serve 0, Deliver 0]
          in inflight s' = [] \<and> selectedDate (ui s') = Some d2 \<and>
             currentDaySlots (ui s') = computeDaySlots env (ui s') (db s) d2) \<and>
         (let s' = modal_run env s [PickDate (Some d1), PickDate (Some d2),
                                    Serve 1, Deliver 1, Serve 0, Deliver 0]
          in inflight s' = [] \<and> selectedDate (ui s') = Some d2 \<and>
             currentDaySlots (ui s') = computeDaySlots env (ui s') (db s) d1)"
  using assms
  by (simp add: run_core computeDaySlots_def isDateBlocked_local_day)

text \<open>
  C23. In a browser east of America/Fortaleza (by at most a day), blocking the selected day
  writes the block for its calendar date and the reloaded day list carries it, yet the modal
  does not show the day blocked and fetches its slot grid again. It holds for every store
  without a block on that key and without a block on the previous Fortaleza day, every
  selected browser midnight with a year between 100 and 9999, and doctor and clinic ids
  that pass the schema.
\<close>

theorem east_block_read_back_not_shown:
  assumes idle: "isOpen s" "inflight s = []" "selectedDate (ui s) = Some d"
      "\<not> isDateBlocked (ui s) d"
    and zone: "app_timezone < browser_off env" "browser_off env - app_timezone \<le> ms_per_day"
      "time_of_day (browser_off env) d = 0"
    and year: "100 \<le> fst (civil_from_days (local_day (browser_off env) d))"
      "fst (civil_from_days (local_day (browser_off env) d)) \<le> 9999"
    and ids: "is_uuid (doctor_id (doc env))" "is_uuid (doctor_clinicId (doc env))"
      "session_clinic env = Some (doctor_clinicId (doc env))"
    and fresh: "(doctor_id (doc env), dayjs_tz_start app_timezone (format_date (browser_off env) d))
                  \<notin> day_key ` set (blockedDatesTable (db s))"
    and noblock: "\<not> list_ex (\<lambda>b. local_day app_timezone b = local_day app_timezone d)
                    (dates_response env (blockedDatesTable (db s)))"
  shows "let s' = modal_run env s [ClickBlockDay, Serve 0, Deliver 0, Serve 0, Deliver 0]
         in list_ex (\<lambda>b. local_day app_timezone b = local_day (browser_off env) d) (blockedDates (ui s')) \<and>
            \<not> isDateBlocked (ui s') d \<and>
            inflight s' = [ReqSlots d (allPossibleSlotsForDay (browser_off env) (doc env) d)]"
proof -
  define i where "i = \<lparr>bdi_doctorId = doctor_id (doc env), bdi_clinicId = doctor_clinicId (doc env),
       bdi_date = format_date (browser_off env) d, bdi_block = True, bdi_reason = Some (reason (ui s))\<rparr>"
  define R where "R = block_row (env_now env) i (dayjs_tz_start app_timezone (bdi_date i))"
  define st' where "st' = db s\<lparr>blockedDatesTable := blockedDatesTable (db s) @ [R]\<rparr>"
  have w: "is_date_format (format_date (browser_off env) d)"
      "local_day app_timezone (row_date R) = local_day (browser_off env) d"
    using format_date_wire [OF year] by (simp_all add: R_def block_row_def i_def)
  have prev: "local_day app_timezone d = local_day (browser_off env) d - 1"
    using zone by (simp add: local_day_zone_shift)
  have "civil_from_days (local_day app_timezone (row_date R)) =
        civil_from_days (local_day (browser_off env) d)"
    using w(2) by simp
  then have readback: "local_day app_timezone (dayjs_tz_start app_timezone
                     (format_date app_timezone (row_date R))) = local_day (browser_off env) d"
    using format_date_wire [of app_timezone "row_date R" app_timezone] year w(2) by simp
  have valid: "valid_block_date_input i"
    using ids w(1) by (simp add: valid_block_date_input_def i_def)
  have auth: "authorize (session_clinic env) (bdi_clinicId i) = None"
    using authorize_own_clinic [OF valid] ids(3) by (simp add: i_def)
  have block: "blockDate (session_clinic env) (env_now env) NoFault i (db s)
      = (Data (succeeded True), st', revalidated_paths)"
    using blockDate_no_fault [OF valid auth, of "env_now env" "db s"] fresh
    by (simp add: block_write_def st'_def R_def insert_fresh i_def)
  have present: "\<not> doctor_missing env" using ids by (auto simp: doctor_missing_def is_uuid_def)
  have nb: "\<not> list_ex (\<lambda>b. local_day app_timezone b = local_day app_timezone d)
                    (dates_response env (blockedDatesTable st'))"
    using noblock readback prev by (simp add: dates_response_def list_dates_def st'_def)
  have run: "modal_run env s [ClickBlockDay, Serve 0, Deliver 0, Serve 0, Deliver 0] =
     \<lparr>db = st', ui = ui s\<lparr>reason := [], blockedDates := dates_response env (blockedDatesTable st'),
                           adHocAvailableDates := dates_response env (adHocTable (db s))\<rparr>,
      inflight = [ReqSlots d (allPossibleSlotsForDay (browser_off env) (doc env) d)], isOpen = True\<rparr>"
    using idle nb present block
    by (simp add: run_core handleBlockToggle_def isDateBlocked_local_day st'_def i_def)
  have shown: "list_ex (\<lambda>b. local_day app_timezone b = local_day (browser_off env) d)
                 (dates_response env (blockedDatesTable st'))"
    using readback by (simp add: dates_response_def list_dates_def st'_def R_def block_row_def
        i_def owned_by_def)
  show ?thesis
    unfolding Let_def run using shown nb by (simp add: isDateBlocked_local_day)
qed

text \<open>
  C24. The specification's end-to-end scenario, for any day outside the doctor's weekly
  window: the day is unavailable by default and not manageable, and a slot click does
  nothing; after the ad-hoc grant is written and the day lists are reloaded, the day is
  manageable and its slot grid is fetched. It holds in any browser at or west of the
  operating zone (by less than a day), for every store without an ad-hoc row on that key
  and without a block on that day.
\<close>

theorem adhoc_grant_opens_day:
  assumes idle: "isOpen s" "inflight s = []" "selectedDate (ui s) = Some d"
    and days: "\<not> isDateWithinDoctorAvailability (browser_off env) (doc env) d"
      "\<not> isDateAdHocAvailable (ui s) d"
    and zone: "browser_off env \<le> app_timezone" "app_timezone - browser_off env < ms_per_day"
      "time_of_day (browser_off env) d = 0"
    and year: "100 \<le> fst (civil_from_days (local_day (browser_off env) d))"
      "fst (civil_from_days (local_day (browser_off env) d)) \<le> 9999"
    and ids: "is_uuid (doctor_id (doc env))" "is_uuid (doctor_clinicId (doc env))"
      "session_clinic env = Some (doctor_clinicId (doc env))"
    and fresh: "(doctor_id (doc env), dayjs_tz_start app_timezone (format_date (browser_off env) d))
                  \<notin> day_key ` set (adHocTable (db s))"
    and noblock: "\<not> list_ex (\<lambda>b. local_day app_timezone b = local_day app_timezone d)
                    (dates_response env (blockedDatesTable (db s)))"
  shows "isDefaultUnavailable env (ui s) d \<and> \<not> isSelectedDayManagable env (ui s) \<and>
    modal_step env s (ClickSlot t) = s \<and>
    (let s' = modal_run env s [ClickAdHoc, Serve 0, Deliver 0, Serve 0, Deliver 0]
     in isSelectedDayManagable env (ui s') \<and> \<not> isDefaultUnavailable env (ui s') d \<and>
        inflight s' = [ReqSlots d (allPossibleSlotsForDay (browser_off env) (doc env) d)])"
proof -
  define off where "off = browser_off env"
  define W where "W = format_date off d"
  define R where "R = \<lparr>row_clinicId = doctor_clinicId (doc env), row_doctorId = doctor_id (doc env),
         row_date = dayjs_tz_start app_timezone W, row_time = None,
         row_reason = reason_or_null (Some (reason (ui s))), row_createdAt = env_now env,
         row_updatedAt = env_now env\<rparr>"
  define st' where "st' = db s\<lparr>adHocTable := adHocTable (db s) @ [R]\<rparr>"
  have w: "is_date_format W" "local_day app_timezone (row_date R) = local_day off d"
    using format_date_wire [OF year] by (simp_all add: W_def R_def off_def)
  have same: "local_day app_timezone d = local_day off d"
    using zone by (simp add: off_def local_day_zone_west)
  have "civil_from_days (local_day app_timezone (row_date R)) = civil_from_days (local_day off d)"
    using w(2) by simp
  then have readback: "local_day app_timezone (dayjs_tz_start app_timezone
                     (format_date app_timezone (row_date R))) = local_day app_timezone d"
    using format_date_wire [of app_timezone "row_date R" app_timezone] year w(2) same
    by (simp add: off_def)
  have grant: "adHocAvailability (session_clinic env) (env_now env) NoFault
      \<lparr>ahi_doctorId = doctor_id (doc env), ahi_clinicId = doctor_clinicId (doc env),
       ahi_date = format_date (browser_off env) d, ahi_available = True, ahi_reason = Some (reason (ui s))\<rparr> (db s)
      = (Data (succeeded True), st', revalidated_paths)"
    using adHocAvailability_grant [of "\<lparr>ahi_doctorId = doctor_id (doc env),
        ahi_clinicId = doctor_clinicId (doc env), ahi_date = W, ahi_available = True,
        ahi_reason = Some (reason (ui s))\<rparr>" "env_now env" "db s"] ids w(1) fresh
    by (simp add: st'_def R_def insert_fresh W_def off_def day_key_def)
  have present: "\<not> doctor_missing env" using ids by (auto simp: doctor_missing_def is_uuid_def)
  have run: "modal_run env s [ClickAdHoc, Serve 0, Deliver 0, Serve 0, Deliver 0] =
     \<lparr>db = st', ui = ui s\<lparr>reason := [], blockedDates := dates_response env (blockedDatesTable (db s)),
                           adHocAvailableDates := dates_response env (adHocTable st')\<rparr>,
      inflight = [ReqSlots d (allPossibleSlotsForDay (browser_off env) (doc env) d)], isOpen = True\<rparr>"
    using idle days(2) noblock present grant
    by (simp add: run_core handleAdHocToggle_def isDateBlocked_local_day st'_def)
  have adhoc: "list_ex (\<lambda>a. local_day app_timezone a = local_day app_timezone d)
                 (dates_response env (adHocTable st'))"
    using readback by (simp add: dates_response_def list_dates_def st'_def R_def owned_by_def)
  show ?thesis
    unfolding Let_def run
    using idle days adhoc noblock
    by (simp add: isDefaultUnavailable_def isSelectedDayManagable_def isDateBlocked_local_day
        isDateAdHocAvailable_local_day)
qed

text \<open>
  C31. A failure after the write leaves the modal stale: when the administrator blocks the
  selected day and one of the \<open>revalidatePath\<close> calls throws, the store gains the block
  row, but the action reports failure, so the component reloads nothing: its state is
  exactly what it was, nothing is in flight, and the day stays shown unblocked.
\<close>

theorem reval_failure_leaves_modal_stale:
  assumes idle: "isOpen s" "inflight s = []" "selectedDate (ui s) = Some d"
      "\<not> isDateBlocked (ui s) d"
    and year: "100 \<le> fst (civil_from_days (local_day (browser_off env) d))"
      "fst (civil_from_days (local_day (browser_off env) d)) \<le> 9999"
    and ids: "is_uuid (doctor_id (doc env))" "is_uuid (doctor_clinicId (doc env))"
      "session_clinic env = Some (doctor_clinicId (doc env))"
    and fresh: "(doctor_id (doc env), dayjs_tz_start app_timezone (format_date (browser_off env) d))
                  \<notin> day_key ` set (blockedDatesTable (db s))"
  shows "let s' = modal_run env s [ClickBlockDay, ServeFault 0 (RevalidateFault c e), Deliver 0]
         in blockedDatesTable (db s') = blockedDatesTable (db s) @
              [block_row (env_now env)
                 \<lparr>bdi_doctorId = doctor_id (doc env), bdi_clinicId = doctor_clinicId (doc env),
                  bdi_date = format_date (browser_off env) d, bdi_block = True,
                  bdi_reason = Some (reason (ui s))\<rparr>
                 (dayjs_tz_start app_timezone (format_date (browser_off env) d))] \<and>
            ui s' = ui s \<and> inflight s' = [] \<and> \<not> isDateBlocked (ui s') d"
proof -
  define i where "i = \<lparr>bdi_doctorId = doctor_id (doc env), bdi_clinicId = doctor_clinicId (doc env),
       bdi_date = format_date (browser_off env) d, bdi_block = True, bdi_reason = Some (reason (ui s))\<rparr>"
  have valid: "valid_block_date_input i"
    using ids format_date_wire [OF year] by (simp add: valid_block_date_input_def i_def)
  have auth: "authorize (session_clinic env) (bdi_clinicId i) = None"
    using authorize_own_clinic [OF valid] ids(3) by (simp add: i_def)
  have block: "blockDate (session_clinic env) (env_now env) (RevalidateFault c e) i (db s)
      = (Data (failed (exn_message e) True),
         db s\<lparr>blockedDatesTable := blockedDatesTable (db s) @
               [block_row (env_now env) i (dayjs_tz_start app_timezone (bdi_date i))]\<rparr>,
         paths_before c)"
    using blockDate_revalidate_fault [OF valid auth, of "env_now env" c e "db s"] fresh
    by (simp add: block_write_def insert_fresh i_def)
  show ?thesis
    using idle block
    by (simp add: run_core handleBlockToggle_def i_def failed_def)
qed

section \<open>Witnesses\<close>

theorem slot_response_order_decides_view_witness:
  "(let s' = modal_run env0 \<lparr>db = slot_store, ui = initial_modal_state, inflight = [], isOpen = True\<rparr>
       [PickDate (Some monday), PickDate (Some tuesday), Serve 0, Deliver 0, Serve 0, Deliver 0]
    in inflight s' = [] \<and> selectedDate (ui s') = Some tuesday \<and>
       currentDaySlots (ui s') = computeDaySlots env0 (ui s') slot_store tuesday) \<and>
   (let s' = modal_run env0 \<lparr>db = slot_store, ui = initial_modal_state, inflight = [], isOpen = True\<rparr>
       [PickDate (Some monday), PickDate (Some tuesday), Serve 1, Deliver 1, Serve 0, Deliver 0]
    in inflight s' = [] \<and> selectedDate (ui s') = Some tuesday \<and>
       currentDaySlots (ui s') = computeDaySlots env0 (ui s') slot_store monday)"
  using slot_response_order_decides_view [of "\<lparr>db = slot_store, ui = initial_modal_state,
      inflight = [], isOpen = True\<rparr>" env0 monday tuesday] env0_doctor_present
  by (simp only: sys.select_convs fixture_dates_not_past env0_fields simp_thms)
    (simp add: isDateBlocked_def initial_modal_state_def)

theorem east_block_read_back_not_shown_witness:
  "let s' = modal_run env_east \<lparr>db = slot_store, ui = east_view, inflight = [], isOpen = True\<rparr>
              [ClickBlockDay, Serve 0, Deliver 0, Serve 0, Deliver 0]
   in list_ex (\<lambda>b. local_day app_timezone b = local_day (browser_off env_east) monday_east)
        (blockedDates (ui s')) \<and>
      \<not> isDateBlocked (ui s') monday_east \<and>
      inflight s' = [ReqSlots monday_east
                      (allPossibleSlotsForDay (browser_off env_east) (doc env_east) monday_east)]"
  by (rule east_block_read_back_not_shown)
    (simp_all add: east_view_def initial_modal_state_def isDateBlocked_def civil_monday_east
      sample_ids_valid slot_store_def empty_store_def dates_response_def list_dates_def
      monday_east_midnight app_timezone_def ms_per_day_def)

theorem adhoc_grant_opens_day_witness:
  "isDefaultUnavailable env0 (ui \<lparr>db = empty_store, ui = june1_view, inflight = [], isOpen = True\<rparr>) june1 \<and>
   \<not> isSelectedDayManagable env0 (ui \<lparr>db = empty_store, ui = june1_view, inflight = [], isOpen = True\<rparr>) \<and>
   modal_step env0 \<lparr>db = empty_store, ui = june1_view, inflight = [], isOpen = True\<rparr>
     (ClickSlot ''09:00'') = \<lparr>db = empty_store, ui = june1_view, inflight = [], isOpen = True\<rparr> \<and>
   (let s' = modal_run env0 \<lparr>db = empty_store, ui = june1_view, inflight = [], isOpen = True\<rparr>
              [ClickAdHoc, Serve 0, Deliver 0, Serve 0, Deliver 0]
    in isSelectedDayManagable env0 (ui s') \<and> \<not> isDefaultUnavailable env0 (ui s') june1 \<and>
       inflight s' = [ReqSlots june1 (allPossibleSlotsForDay (browser_off env0) (doc env0) june1)])"
  by (rule adhoc_grant_opens_day)
    (simp_all add: june1_view_def initial_modal_state_def isDateAdHocAvailable_def civil_june1
      sample_ids_valid empty_store_def dates_response_def list_dates_def
      june1_midnight ms_per_day_def saturday_outside)

theorem reval_failure_leaves_modal_stale_witness:
  "let s' = modal_run env0 \<lparr>db = empty_store, ui = june1_view, inflight = [], isOpen = True\<rparr>
              [ClickBlockDay, ServeFault 0 (RevalidateFault Doctors (Error_obj ''cache'')), Deliver 0]
   in blockedDatesTable (db s') = blockedDatesTable (db \<lparr>db = empty_store, ui = june1_view, inflight = [], isOpen = True\<rparr>) @
        [block_row (env_now env0)
           \<lparr>bdi_doctorId = doctor_id (doc env0), bdi_clinicId = doctor_clinicId (doc env0),
            bdi_date = format_date (browser_off env0) june1, bdi_block = True,
            bdi_reason = Some (reason (ui \<lparr>db = empty_store, ui = june1_view, inflight = [],
                                            isOpen = True\<rparr>))\<rparr>
           (dayjs_tz_start app_timezone (format_date (browser_off env0) june1))] \<and>
      ui s' = ui \<lparr>db = empty_store, ui = june1_view, inflight = [], isOpen = True\<rparr> \<and>
      inflight s' = [] \<and> \<not> isDateBlocked (ui s') june1"
  by (rule reval_failure_leaves_modal_stale)
    (simp_all add: june1_view_def initial_modal_state_def isDateBlocked_def civil_june1
      sample_ids_valid empty_store_def)

end
